theory Spec2Isabelle
  imports Main "HOL-Library.Word" "HOL-Library.Sublist"
begin

chapter \<open>rmp-eval: the jitter measurement harness and the configuration evaluator\<close>

text \<open>
  A shallow embedding of the two source files \<^verbatim>\<open>source/config.cpp\<close> (CPU-list parser, kernel
  command line, the check catalog and its driver) and \<^verbatim>\<open>source/main.cpp\<close> (timespec
  arithmetic, sender thread), followed by the properties of the specification that concern
  them.
  Machine integers are \<open>64 word\<close> where the source computes on \<^verbatim>\<open>uint64_t\<close>; the signed
  \<^verbatim>\<open>int\<close> and \<^verbatim>\<open>int64_t\<close> values of the parsers are \<open>int\<close> with their range written out,
  and an operation whose C++ behaviour is undefined (signed overflow) yields \<open>None\<close>.
\<close>

section \<open>config.cpp: strings, the C library and the CPU-list parser\<close>

subsection \<open>Characters and strings\<close>

text \<open>\<^verbatim>\<open>std::isspace\<close> and \<^verbatim>\<open>std::isdigit\<close> in the "C" locale: space, \<^verbatim>\<open>\t \n \v \f \r\<close>, and
  the ten decimal digits.\<close>

definition isspace :: "char \<Rightarrow> bool" where
  "isspace ch = (ch = CHR '' '' \<or> ch = CHR 0x09 \<or> ch = CHR 0x0A \<or> ch = CHR 0x0B
                 \<or> ch = CHR 0x0C \<or> ch = CHR 0x0D)"

definition isdigit :: "char \<Rightarrow> bool" where
  "isdigit ch = (ch \<in> set ''0123456789'')"

text \<open>\<^verbatim>\<open>Trim\<close>: erase the leading whitespace, then the trailing whitespace.\<close>

definition Trim :: "string \<Rightarrow> string" where
  "Trim str = rev (dropWhile isspace (rev (dropWhile isspace str)))"

text \<open>\<^verbatim>\<open>std::string::find\<close> for a character and for a string, from position 0: the first
  position of a match, \<open>None\<close> for \<^verbatim>\<open>npos\<close>. The empty string is found at position 0 of
  every string. \<^verbatim>\<open>s.rfind(p, 0) == 0\<close> is the source's idiom for "\<open>s\<close> starts with \<open>p\<close>".\<close>

definition find_char :: "char \<Rightarrow> string \<Rightarrow> nat option" where
  "find_char ch s = (if ch \<in> set s then Some (length (takeWhile (\<lambda>x. x \<noteq> ch) s)) else None)"

fun find_str :: "string \<Rightarrow> string \<Rightarrow> nat option" where
  "find_str needle [] = (if needle = [] then Some 0 else None)"
| "find_str needle (x # xs) =
     (if prefix needle (x # xs) then Some 0 else map_option Suc (find_str needle xs))"

definition contains :: "string \<Rightarrow> string \<Rightarrow> bool" where
  "contains s needle = (find_str needle s \<noteq> None)"

definition starts_with :: "string \<Rightarrow> string \<Rightarrow> bool" where
  "starts_with s p = prefix p s"

text \<open>Repeated \<^verbatim>\<open>std::getline(stream, line, delim)\<close> until it fails: the pieces between the
  delimiters; a piece after the last delimiter is produced only when it is not empty. The
  second argument of \<open>getline_acc\<close> holds the characters of the current piece, reversed.\<close>

fun getline_acc :: "char \<Rightarrow> string \<Rightarrow> string \<Rightarrow> string list" where
  "getline_acc delim cur [] = (if cur = [] then [] else [rev cur])"
| "getline_acc delim cur (x # xs) =
     (if x = delim then rev cur # getline_acc delim [] xs else getline_acc delim (x # cur) xs)"

definition getline_all :: "char \<Rightarrow> string \<Rightarrow> string list" where
  "getline_all delim s = getline_acc delim [] s"

text \<open>The loop \<^verbatim>\<open>while (stream >> token)\<close>: each round skips whitespace and reads up to the
  next whitespace, so the tokens are the maximal runs of characters that are not
  whitespace. The first argument of \<open>ws_acc\<close> holds the characters of the current token,
  reversed.\<close>

fun ws_acc :: "string \<Rightarrow> string \<Rightarrow> string list" where
  "ws_acc cur [] = (if cur = [] then [] else [rev cur])"
| "ws_acc cur (x # xs) =
     (if isspace x then (if cur = [] then ws_acc [] xs else rev cur # ws_acc [] xs)
      else ws_acc (x # cur) xs)"

definition ws_tokens :: "string \<Rightarrow> string list" where
  "ws_tokens s = ws_acc [] s"

subsection \<open>Numbers\<close>

definition INT_MIN :: int where "INT_MIN = - 2147483648"
definition INT_MAX :: int where "INT_MAX = 2147483647"
definition LLONG_MIN :: int where "LLONG_MIN = - 9223372036854775808"
definition LLONG_MAX :: int where "LLONG_MAX = 9223372036854775807"

definition digit_val :: "char \<Rightarrow> int" where
  "digit_val ch = int (length (takeWhile (\<lambda>d. d \<noteq> ch) ''0123456789''))"

definition dec_value :: "string \<Rightarrow> int" where
  "dec_value ds = foldl (\<lambda>acc ch. 10 * acc + digit_val ch) 0 ds"

text \<open>What \<^verbatim>\<open>strtol\<close> and \<^verbatim>\<open>strtoll\<close> read in base 10: leading whitespace, an optional sign,
  then the longest run of digits; whatever follows is ignored. \<open>None\<close>: no digit was
  found.\<close>

definition strtol_prefix :: "string \<Rightarrow> int option" where
  "strtol_prefix s =
     (let s1 = dropWhile isspace s;
          neg = (s1 \<noteq> [] \<and> hd s1 = CHR ''-'');
          s2 = (if s1 \<noteq> [] \<and> (hd s1 = CHR ''-'' \<or> hd s1 = CHR ''+'') then tl s1 else s1);
          ds = takeWhile isdigit s2
      in if ds = [] then None else Some (if neg then - dec_value ds else dec_value ds))"

text \<open>\<^verbatim>\<open>std::stoi\<close> and \<^verbatim>\<open>std::stoll\<close> throw \<^verbatim>\<open>std::invalid_argument\<close> when no conversion could be
  performed and \<^verbatim>\<open>std::out_of_range\<close> when the value does not fit the result type.\<close>

datatype stoi_error = invalid_argument | out_of_range

definition stoi :: "string \<Rightarrow> stoi_error + int" where
  "stoi s = (case strtol_prefix s of
               None \<Rightarrow> Inl invalid_argument
             | Some v \<Rightarrow> if INT_MIN \<le> v \<and> v \<le> INT_MAX then Inr v else Inl out_of_range)"

definition stoll :: "string \<Rightarrow> stoi_error + int" where
  "stoll s = (case strtol_prefix s of
                None \<Rightarrow> Inl invalid_argument
              | Some v \<Rightarrow> if LLONG_MIN \<le> v \<and> v \<le> LLONG_MAX then Inr v else Inl out_of_range)"

text \<open>\<^verbatim>\<open>std::to_string\<close> of an integer: decimal digits, with a minus sign when negative.\<close>

function dec_digits :: "nat \<Rightarrow> string" where
  "dec_digits n = (if n < 10 then [''0123456789'' ! n]
                   else dec_digits (n div 10) @ [''0123456789'' ! (n mod 10)])"
  by pat_completeness auto
termination
  by (relation "measure id") auto

declare dec_digits.simps [simp del]

definition to_string :: "int \<Rightarrow> string" where
  "to_string i = (if i < 0 then CHR ''-'' # dec_digits (nat (- i)) else dec_digits (nat i))"

subsection \<open>The CPU-list parser\<close>

text \<open>\<^verbatim>\<open>std::set<int>\<close>: the elements in ascending order, each once. \<open>set_insert\<close> is
  \<^verbatim>\<open>insert\<close>, \<open>set_count\<close> is \<^verbatim>\<open>count\<close>, \<open>set_erase\<close> is \<^verbatim>\<open>erase\<close>; \<^verbatim>\<open>size\<close> is the length and
  iteration follows the list.\<close>

type_synonym int_set = "int list"

definition set_insert :: "int \<Rightarrow> int_set \<Rightarrow> int_set" where
  "set_insert v out = (if v \<in> set out then out else insort v out)"

definition set_count :: "int_set \<Rightarrow> int \<Rightarrow> bool" where
  "set_count s v = (v \<in> set s)"

definition set_erase :: "int \<Rightarrow> int_set \<Rightarrow> int_set" where
  "set_erase v s = removeAll v s"

text \<open>\<^verbatim>\<open>for (int i = start; i <= end; ++i) out.insert(i);\<close> When the loop reaches
  \<open>i = INT_MAX\<close> the increment overflows a signed \<^verbatim>\<open>int\<close>, which is undefined behaviour:
  \<open>None\<close>.\<close>

function insert_range :: "int \<Rightarrow> int \<Rightarrow> int_set \<Rightarrow> int_set option" where
  "insert_range i end out =
     (if i \<le> end
      then (if i = INT_MAX then None else insert_range (i + 1) end (set_insert i out))
      else Some out)"
  by pat_completeness auto
termination
  by (relation "measure (\<lambda>(i, end, out). nat (end + 1 - i))") auto

declare insert_range.simps [simp del]

text \<open>The body of the \<^verbatim>\<open>while (std::getline(stream, token, ','))\<close> loop of \<^verbatim>\<open>ParseCpuList\<close>
  for one token; an exception of \<^verbatim>\<open>std::stoi\<close> leaves \<open>out\<close> as it is
  (\<^verbatim>\<open>catch (...) { /* ignore malformed tokens */ }\<close>).\<close>

definition parse_token :: "string \<Rightarrow> int_set \<Rightarrow> int_set option" where
  "parse_token tok out =
     (let token = Trim tok
      in if token = [] then Some out
         else case find_char CHR ''-'' token of
                None \<Rightarrow>
                  (case stoi token of
                     Inl _ \<Rightarrow> Some out
                   | Inr value \<Rightarrow> Some (set_insert value out))
              | Some dash \<Rightarrow>
                  (case stoi (take dash token) of
                     Inl _ \<Rightarrow> Some out
                   | Inr start \<Rightarrow>
                       (case stoi (drop (dash + 1) token) of
                          Inl _ \<Rightarrow> Some out
                        | Inr end \<Rightarrow>
                            if start > end then insert_range end start out
                            else insert_range start end out)))"

fun parse_tokens :: "string list \<Rightarrow> int_set \<Rightarrow> int_set option" where
  "parse_tokens [] out = Some out"
| "parse_tokens (tok # toks) out =
     (case parse_token tok out of None \<Rightarrow> None | Some out' \<Rightarrow> parse_tokens toks out')"

definition ParseCpuList :: "string \<Rightarrow> int_set option" where
  "ParseCpuList str =
     (let trimmed = Trim str
      in if trimmed = [] then Some [] else parse_tokens (getline_all CHR '','' trimmed) [])"

subsection \<open>Files and the kernel command line\<close>

text \<open>\<^verbatim>\<open>Slurp\<close> is file input: it is represented by what it returns for each path, \<open>None\<close> when
  the file cannot be opened and otherwise the bytes read (at most \<^verbatim>\<open>max_bytes\<close>). The
  functions below take it as their argument \<open>files\<close>.\<close>

type_synonym slurp = "string \<Rightarrow> string option"

definition ReadCmdLine :: "slurp \<Rightarrow> string option" where
  "ReadCmdLine files = files ''/proc/cmdline''"

text \<open>The loop \<^verbatim>\<open>while (iss >> tok)\<close> of \<^verbatim>\<open>GetCmdLineParam\<close> over the tokens still to be read.\<close>

fun scan_cmdline :: "string \<Rightarrow> string list \<Rightarrow> string option" where
  "scan_cmdline key [] = None"
| "scan_cmdline key (tok # toks) =
     (case find_char CHR ''='' tok of
        None \<Rightarrow> if tok = key then Some [] else scan_cmdline key toks
      | Some eq \<Rightarrow> if take eq tok = key then Some (drop (eq + 1) tok) else scan_cmdline key toks)"

definition GetCmdLineParam :: "slurp \<Rightarrow> string \<Rightarrow> string option" where
  "GetCmdLineParam files key =
     (case ReadCmdLine files of
        None \<Rightarrow> None
      | Some cmd \<Rightarrow> scan_cmdline key (ws_tokens cmd))"

subsection \<open>Specification: what a token of a CPU list covers, what a command line holds\<close>



text \<open>The contract of \<^verbatim>\<open>cmdline_param\<close> in the words of the specification: the first token
  that equals the key or starts with the key followed by \<^verbatim>\<open>=\<close> decides; the former gives the
  empty string, the latter what follows the \<^verbatim>\<open>=\<close>.\<close>

definition cmdline_param_spec :: "string \<Rightarrow> string list \<Rightarrow> string option" where
  "cmdline_param_spec key toks =
     (case find (\<lambda>tok. tok = key \<or> starts_with tok (key @ ''='')) toks of
        None \<Rightarrow> None
      | Some tok \<Rightarrow> if tok = key then Some [] else Some (drop (length key + 1) tok))"

section \<open>config.cpp: the check catalog\<close>

subsection \<open>Data model\<close>

datatype Status = Pass | Fail | Unknown

datatype CheckKind =
    PreemptRTActive | SwapDisabled | TimerMigration | RtThrottlingDisabled | ClocksourceStable
  | CoreIsolated | NohzFull | RcuNoCbs | CpuGovernor | CpuFrequency
  | IrqAffinityDefaultAvoidsRt | NoUnrelatedIrqsOnRt | SmtSiblingIsolated | DeepCStatesCapped
  | TurboBoostPolicy | NicPresent | NicLinkUp | NicIrqsPinned | RpsDisabled | NicQuiet

datatype Domain = System | Cpu | Nic

record CheckResult =
  kind :: CheckKind
  status :: Status
  name :: string
  reason :: string

record CheckContext =
  cpu :: "int option"
  nic :: "string option"

text \<open>\<^verbatim>\<open>IDataSource\<close>: \<^verbatim>\<open>Read(path)\<close> and \<^verbatim>\<open>CmdLineParam(key)\<close>, \<open>None\<close> for \<^verbatim>\<open>std::nullopt\<close>.\<close>

record IDataSource =
  Read :: "string \<Rightarrow> string option"
  CmdLineParam :: "string \<Rightarrow> string option"

text \<open>What the checks and the driver take from the operating system without going through
  the data source: \<^verbatim>\<open>Slurp\<close>, \<^verbatim>\<open>uname\<close> (\<open>None\<close> when it fails), \<^verbatim>\<open>fs::exists\<close>, the entries of a
  directory (file name and \<^verbatim>\<open>is_directory()\<close>; none when the iterator reports an error),
  \<^verbatim>\<open>getifaddrs\<close> (\<open>None\<close> when it fails) and \<^verbatim>\<open>sysconf(_SC_NPROCESSORS_CONF)\<close>.
  \<open>stod_to_string\<close> stands for \<^verbatim>\<open>std::to_string(std::stod(s))\<close>, \<open>None\<close> when \<^verbatim>\<open>std::stod\<close> throws:
  floating point is left uninterpreted.\<close>

record utsname =
  sysname :: string
  nodename :: string
  release :: string
  version :: string
  machine :: string

datatype sa_family = AF_INET | AF_INET6 | AF_other

record ifaddrs =
  ifa_name :: "string option"
  ifa_addr :: "sa_family option"

record Host =
  Slurp :: "string \<Rightarrow> string option"
  uname :: "utsname option"
  PathExists :: "string \<Rightarrow> bool"
  directory_iterator :: "string \<Rightarrow> (string \<times> bool) list"
  getifaddrs :: "ifaddrs list option"
  sysconf_NPROCESSORS_CONF :: int
  stod_to_string :: "string \<Rightarrow> string option"

text \<open>\<^verbatim>\<open>class SystemFileSystemDataSource\<close>.\<close>

definition SystemFileSystemDataSource :: "Host \<Rightarrow> IDataSource" where
  "SystemFileSystemDataSource host =
     \<lparr>Read = Slurp host, CmdLineParam = GetCmdLineParam (Slurp host)\<rparr>"

text \<open>The aggregate \<^verbatim>\<open>{ Kind(), status, Name(), reason }\<close> returned by every check.\<close>

abbreviation Result :: "CheckKind \<Rightarrow> Status \<Rightarrow> string \<Rightarrow> string \<Rightarrow> CheckResult" where
  "Result k s n r \<equiv> \<lparr>kind = k, status = s, name = n, reason = r\<rparr>"

text \<open>\<^verbatim>\<open>fs::path::operator/\<close> on POSIX paths, and joining strings with a separator as the
  output loops of the checks do.\<close>

definition path_slash :: "string \<Rightarrow> string \<Rightarrow> string" where
  "path_slash p q =
     (if q \<noteq> [] \<and> hd q = CHR ''/'' then q
      else if p = [] \<or> last p = CHR ''/'' then p @ q
      else p @ ''/'' @ q)"

fun join :: "string \<Rightarrow> string list \<Rightarrow> string" where
  "join sep [] = []"
| "join sep [x] = x"
| "join sep (x # y # ys) = x @ sep @ join sep (y # ys)"

definition or_empty :: "string \<Rightarrow> string" where
  "or_empty raw = (if raw = [] then ''(empty)'' else raw)"

definition NicExists :: "IDataSource \<Rightarrow> string \<Rightarrow> bool" where
  "NicExists dataSource nicname =
     (Read dataSource (''/sys/class/net/'' @ nicname @ ''/operstate'') \<noteq> None
      \<or> Read dataSource (''/sys/class/net/'' @ nicname @ ''/carrier'') \<noteq> None
      \<or> Read dataSource (''/sys/class/net/'' @ nicname @ ''/address'') \<noteq> None)"

definition CpuCount :: "Host \<Rightarrow> int" where
  "CpuCount host =
     (let count = sysconf_NPROCESSORS_CONF host in if count > 0 then count else 1)"

subsection \<open>The checks\<close>

definition NohzFull_Name :: string where "NohzFull_Name = ''nohz_full on RT core''"

definition NohzFullCheck_Evaluate :: "CheckContext \<Rightarrow> IDataSource \<Rightarrow> CheckResult option" where
  "NohzFullCheck_Evaluate checkContext dataSource =
     (case cpu checkContext of
        None \<Rightarrow> Some (Result NohzFull Unknown NohzFull_Name ''no CPU subject'')
      | Some core \<Rightarrow>
          (case Read dataSource ''/sys/devices/system/cpu/nohz_full'' of
             Some sysfs_value \<Rightarrow>
               (let raw = Trim sysfs_value
                in case ParseCpuList raw of
                     None \<Rightarrow> None
                   | Some cpus \<Rightarrow>
                       if set_count cpus core
                       then Some (Result NohzFull Pass NohzFull_Name (''nohz_full list: '' @ or_empty raw))
                       else Some (Result NohzFull Fail NohzFull_Name
                              (''CPU'' @ to_string core @ '' not in nohz_full: '' @ or_empty raw)))
           | None \<Rightarrow>
               (case CmdLineParam dataSource ''nohz_full'' of
                  Some cmdline_value \<Rightarrow>
                    (case ParseCpuList cmdline_value of
                       None \<Rightarrow> None
                     | Some cpus \<Rightarrow>
                         if set_count cpus core
                         then Some (Result NohzFull Pass NohzFull_Name (''cmdline nohz_full='' @ cmdline_value))
                         else Some (Result NohzFull Fail NohzFull_Name
                                (''RT core not in cmdline nohz_full='' @ cmdline_value)))
                | None \<Rightarrow>
                    Some (Result NohzFull Unknown NohzFull_Name ''no sysfs entry and no cmdline param''))))"

definition NicPresent_Name :: string where "NicPresent_Name = ''NIC interface present''"

definition NicPresenceCheck_Evaluate :: "CheckContext \<Rightarrow> IDataSource \<Rightarrow> CheckResult" where
  "NicPresenceCheck_Evaluate checkContext dataSource =
     (case nic checkContext of
        None \<Rightarrow> Result NicPresent Unknown NicPresent_Name ''no NIC in context''
      | Some nicname \<Rightarrow>
          if NicExists dataSource nicname
          then Result NicPresent Pass NicPresent_Name ''exists''
          else Result NicPresent Unknown NicPresent_Name ''interface not found'')"

definition NicLinkUp_Name :: string where "NicLinkUp_Name = ''NIC link is UP''"

definition NicLinkUp_carrier :: "IDataSource \<Rightarrow> string \<Rightarrow> CheckResult" where
  "NicLinkUp_carrier dataSource nicname =
     (case Read dataSource (''/sys/class/net/'' @ nicname @ ''/carrier'') of
        Some car \<Rightarrow>
          (let v = Trim car
           in if v = ''1'' then Result NicLinkUp Pass NicLinkUp_Name ''carrier=1''
              else if v = ''0'' then Result NicLinkUp Fail NicLinkUp_Name ''carrier=0''
              else Result NicLinkUp Unknown NicLinkUp_Name ''no operstate/carrier'')
      | None \<Rightarrow> Result NicLinkUp Unknown NicLinkUp_Name ''no operstate/carrier'')"

definition NicLinkUpCheck_Evaluate :: "CheckContext \<Rightarrow> IDataSource \<Rightarrow> CheckResult" where
  "NicLinkUpCheck_Evaluate checkContext dataSource =
     (case nic checkContext of
        None \<Rightarrow> Result NicLinkUp Unknown NicLinkUp_Name ''no NIC in context''
      | Some nicname \<Rightarrow>
          if \<not> NicExists dataSource nicname
          then Result NicLinkUp Unknown NicLinkUp_Name ''NIC not found''
          else
            (case Read dataSource (''/sys/class/net/'' @ nicname @ ''/operstate'') of
               Some oper \<Rightarrow>
                 (let v = Trim oper
                  in if v = ''up'' then Result NicLinkUp Pass NicLinkUp_Name ''operstate=up''
                     else if v \<noteq> [] then Result NicLinkUp Fail NicLinkUp_Name (''operstate='' @ v)
                     else NicLinkUp_carrier dataSource nicname)
             | None \<Rightarrow> NicLinkUp_carrier dataSource nicname))"

definition PreemptRTActive_Name :: string where "PreemptRTActive_Name = ''PREEMPT_RT active''"

text \<open>The part of \<^verbatim>\<open>PreemptRTActiveCheck::Evaluate\<close> after the look at
  \<^verbatim>\<open>/sys/kernel/realtime\<close>.\<close>

definition PreemptRT_uname :: "Host \<Rightarrow> IDataSource \<Rightarrow> CheckResult" where
  "PreemptRT_uname host dataSource =
     (case uname host of
        None \<Rightarrow> Result PreemptRTActive Fail PreemptRTActive_Name ''No evidence of RT kernel''
      | Some uname_info \<Rightarrow>
          if contains (version uname_info) ''PREEMPT RT'' \<or> contains (version uname_info) ''PREEMPT_RT''
          then Result PreemptRTActive Pass PreemptRTActive_Name (''uname -v: '' @ version uname_info)
          else
            (case Read dataSource (''/boot/config-'' @ release uname_info) of
               Some config \<Rightarrow>
                 if contains config ''CONFIG_PREEMPT_RT=y'' \<or> contains config ''CONFIG_PREEMPT_RT_FULL=y''
                 then Result PreemptRTActive Pass PreemptRTActive_Name
                        (''/boot/config-'' @ release uname_info @ '' has CONFIG_PREEMPT_RT=y'')
                 else if contains config ''CONFIG_PREEMPT=y''
                 then Result PreemptRTActive Fail PreemptRTActive_Name ''Only low-latency PREEMPT, not RT''
                 else Result PreemptRTActive Fail PreemptRTActive_Name ''No evidence of RT kernel''
             | None \<Rightarrow> Result PreemptRTActive Fail PreemptRTActive_Name ''No evidence of RT kernel''))"

definition PreemptRTActiveCheck_Evaluate :: "Host \<Rightarrow> CheckContext \<Rightarrow> IDataSource \<Rightarrow> CheckResult" where
  "PreemptRTActiveCheck_Evaluate host checkContext dataSource =
     (case Read dataSource ''/sys/kernel/realtime'' of
        Some sysfs_value \<Rightarrow>
          (let value = Trim sysfs_value
           in if value = ''1'' then Result PreemptRTActive Pass PreemptRTActive_Name ''/sys/kernel/realtime=1''
              else if value = ''0'' then Result PreemptRTActive Fail PreemptRTActive_Name ''/sys/kernel/realtime=0''
              else PreemptRT_uname host dataSource)
      | None \<Rightarrow> PreemptRT_uname host dataSource)"

definition CoreIsolated_Name :: string where "CoreIsolated_Name = ''RT core isolated''"

definition CoreIsolatedCheck_Evaluate :: "CheckContext \<Rightarrow> IDataSource \<Rightarrow> CheckResult option" where
  "CoreIsolatedCheck_Evaluate checkContext dataSource =
     (case cpu checkContext of
        None \<Rightarrow> Some (Result CoreIsolated Unknown CoreIsolated_Name ''no CPU subject'')
      | Some core \<Rightarrow>
          (case Read dataSource ''/sys/devices/system/cpu/isolated'' of
             None \<Rightarrow> Some (Result CoreIsolated Unknown CoreIsolated_Name ''no /sys/.../isolated'')
           | Some s \<Rightarrow>
               (let raw = Trim s
                in case ParseCpuList raw of
                     None \<Rightarrow> None
                   | Some cpus \<Rightarrow>
                       if core = 0
                       then (if set_count cpus core
                             then Some (Result CoreIsolated Fail CoreIsolated_Name
                                    ''CPU0 is isolated but should not be your RT core'')
                             else Some (Result CoreIsolated Fail CoreIsolated_Name
                                    ''CPU0 selected; choose non-CPU0''))
                       else if set_count cpus core
                       then Some (Result CoreIsolated Pass CoreIsolated_Name
                              (''isolated list: '' @ or_empty raw))
                       else Some (Result CoreIsolated Fail CoreIsolated_Name
                              (''CPU'' @ to_string core @ '' not in isolated: '' @ or_empty raw)))))"

definition CpuGovernor_Name :: string where "CpuGovernor_Name = ''CPU governor = performance''"

definition CpuGovernorCheck_Evaluate :: "CheckContext \<Rightarrow> IDataSource \<Rightarrow> CheckResult" where
  "CpuGovernorCheck_Evaluate checkContext dataSource =
     (case cpu checkContext of
        None \<Rightarrow> Result CpuGovernor Unknown CpuGovernor_Name ''no CPU subject''
      | Some core \<Rightarrow>
          (let path = ''/sys/devices/system/cpu/cpu'' @ to_string core @ ''/cpufreq/scaling_governor''
           in case Read dataSource path of
                None \<Rightarrow> Result CpuGovernor Unknown CpuGovernor_Name
                          (''no cpufreq governor for cpu'' @ to_string core)
              | Some s \<Rightarrow>
                  (let gov = Trim s
                   in if gov = ''performance''
                      then Result CpuGovernor Pass CpuGovernor_Name (''governor='' @ gov)
                      else Result CpuGovernor Fail CpuGovernor_Name (''governor='' @ gov))))"

definition CpuFrequency_Name :: string where "CpuFrequency_Name = ''CPU current frequency''"

definition read_int64 :: "IDataSource \<Rightarrow> string \<Rightarrow> int option" where
  "read_int64 dataSource path =
     (case Read dataSource path of
        None \<Rightarrow> None
      | Some value \<Rightarrow> (case stoll (Trim value) of Inl _ \<Rightarrow> None | Inr v \<Rightarrow> Some v))"

text \<open>\<^verbatim>\<open>int64_t\<close> arithmetic: the values an \<^verbatim>\<open>int64_t\<close> holds, and the quotient \<^verbatim>\<open>a / b\<close> of
  C++, whose magnitude is that of the magnitudes and whose sign is negative exactly when
  the signs of \<open>a\<close> and \<open>b\<close> differ.\<close>

definition int64_range :: "int \<Rightarrow> bool" where
  "int64_range v = (LLONG_MIN \<le> v \<and> v \<le> LLONG_MAX)"

definition cdiv :: "int \<Rightarrow> int \<Rightarrow> int" where
  "cdiv a b = (if (a < 0) = (b < 0) then \<bar>a\<bar> div \<bar>b\<bar> else - (\<bar>a\<bar> div \<bar>b\<bar>))"

text \<open>\<^verbatim>\<open>int64_t tolerance = (*max_freq * 5) / 100;\<close>
  \<^verbatim>\<open>bool current_matches = std::abs(*current_freq - *max_freq) <= tolerance;\<close>
  The product, the difference and the absolute value are signed: outside \<^verbatim>\<open>int64_t\<close> they
  are undefined behaviour, \<open>None\<close>.\<close>

definition current_matches :: "int \<Rightarrow> int \<Rightarrow> bool option" where
  "current_matches current_freq max_freq =
     (if \<not> int64_range (max_freq * 5) then None
      else let tolerance = cdiv (max_freq * 5) 100
           in if \<not> int64_range (current_freq - max_freq) \<or> current_freq - max_freq = LLONG_MIN
              then None
              else Some (\<bar>current_freq - max_freq\<bar> \<le> tolerance))"

text \<open>The loop over the lines of \<^verbatim>\<open>/proc/cpuinfo\<close>; \<open>mhz_value\<close> holds the text that
  \<^verbatim>\<open>std::to_string\<close> will give for the double read.\<close>

fun cpuinfo_scan :: "Host \<Rightarrow> int \<Rightarrow> string list \<Rightarrow> int \<Rightarrow> string option \<Rightarrow> string option" where
  "cpuinfo_scan host core [] current_processor mhz_value = mhz_value"
| "cpuinfo_scan host core (line # lines) current_processor mhz_value =
     (if starts_with line ''processor''
      then (case find_char CHR '':'' line of
              None \<Rightarrow> cpuinfo_scan host core lines current_processor mhz_value
            | Some pos \<Rightarrow>
                cpuinfo_scan host core lines
                  (case stoi (Trim (drop (pos + 1) line)) of Inl _ \<Rightarrow> - 1 | Inr v \<Rightarrow> v)
                  mhz_value)
      else if starts_with line ''cpu MHz'' \<and> current_processor = core
      then (case find_char CHR '':'' line of
              None \<Rightarrow> cpuinfo_scan host core lines current_processor mhz_value
            | Some pos \<Rightarrow>
                cpuinfo_scan host core lines current_processor
                  (stod_to_string host (Trim (drop (pos + 1) line))))
      else cpuinfo_scan host core lines current_processor mhz_value)"

definition CpuFrequency_cpuinfo :: "Host \<Rightarrow> int \<Rightarrow> IDataSource \<Rightarrow> CheckResult" where
  "CpuFrequency_cpuinfo host core dataSource =
     (case Read dataSource ''/proc/cpuinfo'' of
        None \<Rightarrow> Result CpuFrequency Unknown CpuFrequency_Name ''unavailable''
      | Some cpuinfo \<Rightarrow>
          (case cpuinfo_scan host core (getline_all CHR 0x0A cpuinfo) (- 1) None of
             Some mhz \<Rightarrow> Result CpuFrequency Unknown CpuFrequency_Name (mhz @ '' MHz (/proc/cpuinfo)'')
           | None \<Rightarrow> Result CpuFrequency Unknown CpuFrequency_Name ''unavailable''))"

definition freq_or_unknown :: "int option \<Rightarrow> string" where
  "freq_or_unknown f = (case f of Some v \<Rightarrow> to_string v @ '' kHz'' | None \<Rightarrow> ''?'')"

definition CpuFrequencyCheck_Evaluate :: "Host \<Rightarrow> CheckContext \<Rightarrow> IDataSource \<Rightarrow> CheckResult option" where
  "CpuFrequencyCheck_Evaluate host checkContext dataSource =
     (case cpu checkContext of
        None \<Rightarrow> Some (Result CpuFrequency Unknown CpuFrequency_Name ''no CPU subject'')
      | Some core \<Rightarrow>
          (let base = ''/sys/devices/system/cpu/cpu'' @ to_string core @ ''/cpufreq/'';
               current_freq = read_int64 dataSource (base @ ''scaling_cur_freq'');
               min_freq = read_int64 dataSource (base @ ''scaling_min_freq'');
               max_freq = read_int64 dataSource (base @ ''scaling_max_freq'')
           in case (current_freq, min_freq, max_freq) of
                (Some cur, Some mn, Some mx) \<Rightarrow>
                  if mn = mx
                  then (case current_matches cur mx of
                          None \<Rightarrow> None
                        | Some True \<Rightarrow>
                            Some (Result CpuFrequency Pass CpuFrequency_Name (to_string mx @ '' kHz (locked)''))
                        | Some False \<Rightarrow>
                            Some (Result CpuFrequency Fail CpuFrequency_Name
                              (''cur='' @ to_string cur @ '' kHz, locked='' @ to_string mx @ '' kHz'')))
                  else Some (Result CpuFrequency Fail CpuFrequency_Name
                         (''cur='' @ to_string cur @ '' kHz'' @ '', min='' @ to_string mn @ '' kHz''
                            @ '', max='' @ to_string mx @ '' kHz''))
              | _ \<Rightarrow>
                  if current_freq \<noteq> None \<or> min_freq \<noteq> None \<or> max_freq \<noteq> None
                  then Some (Result CpuFrequency Unknown CpuFrequency_Name
                         (''cur='' @ freq_or_unknown current_freq @ '', min='' @ freq_or_unknown min_freq
                            @ '', max='' @ freq_or_unknown max_freq))
                  else Some (CpuFrequency_cpuinfo host core dataSource)))"

definition RcuNoCbs_Name :: string where "RcuNoCbs_Name = ''rcu_nocbs includes RT core''"

definition RcuNoCbs_decide :: "int \<Rightarrow> string \<Rightarrow> CheckResult option" where
  "RcuNoCbs_decide core raw =
     (case ParseCpuList raw of
        None \<Rightarrow> None
      | Some cpus \<Rightarrow>
          if set_count cpus core then Some (Result RcuNoCbs Pass RcuNoCbs_Name raw)
          else Some (Result RcuNoCbs Fail RcuNoCbs_Name
                 (''CPU'' @ to_string core @ '' not in rcu_nocbs: '' @ or_empty raw)))"

definition RcuNoCbsCheck_Evaluate :: "CheckContext \<Rightarrow> IDataSource \<Rightarrow> CheckResult option" where
  "RcuNoCbsCheck_Evaluate checkContext dataSource =
     (case cpu checkContext of
        None \<Rightarrow> Some (Result RcuNoCbs Unknown RcuNoCbs_Name ''no CPU subject'')
      | Some core \<Rightarrow>
          (case Read dataSource ''/sys/devices/system/cpu/rcu_nocbs'' of
             Some sysfs_value \<Rightarrow> RcuNoCbs_decide core (Trim sysfs_value)
           | None \<Rightarrow>
               (case CmdLineParam dataSource ''rcu_nocbs'' of
                  Some cmdline_value \<Rightarrow> RcuNoCbs_decide core (Trim cmdline_value)
                | None \<Rightarrow> Some (Result RcuNoCbs Unknown RcuNoCbs_Name ''no sysfs and no cmdline param''))))"

definition IrqAffinity_Name :: string where "IrqAffinity_Name = ''irqaffinity excludes RT core''"

definition IrqAffinityDefaultAvoidsRtCheck_Evaluate ::
  "CheckContext \<Rightarrow> IDataSource \<Rightarrow> CheckResult option" where
  "IrqAffinityDefaultAvoidsRtCheck_Evaluate checkContext dataSource =
     (case cpu checkContext of
        None \<Rightarrow> Some (Result IrqAffinityDefaultAvoidsRt Unknown IrqAffinity_Name ''no CPU subject'')
      | Some core \<Rightarrow>
          (case CmdLineParam dataSource ''irqaffinity'' of
             None \<Rightarrow> Some (Result IrqAffinityDefaultAvoidsRt Unknown IrqAffinity_Name
                        ''no irqaffinity kernel param'')
           | Some value \<Rightarrow>
               (case ParseCpuList value of
                  None \<Rightarrow> None
                | Some cpus \<Rightarrow>
                    if cpus = []
                    then Some (Result IrqAffinityDefaultAvoidsRt Unknown IrqAffinity_Name ''empty list'')
                    else if set_count cpus core
                    then Some (Result IrqAffinityDefaultAvoidsRt Fail IrqAffinity_Name
                           (''RT core present in irqaffinity: '' @ value))
                    else Some (Result IrqAffinityDefaultAvoidsRt Pass IrqAffinity_Name value))))"

subsection \<open>The scan of \<^verbatim>\<open>/proc/interrupts\<close>\<close>

text \<open>Modelled from the spec: \<^verbatim>\<open>CpuPrefix\<close> and \<^verbatim>\<open>MaxIrqsToShow\<close> are constants of \<^verbatim>\<open>config.h\<close>,
  which is not among the sources. The specification identifies the RT core's column from
  the \<^verbatim>\<open>CPU<N>\<close> header and lists offenders "up to a small fixed number (e.g., 5)".\<close>

definition CpuPrefix :: string where "CpuPrefix = ''CPU''"

definition MaxIrqsToShow :: nat where "MaxIrqsToShow = 5"

text \<open>The tokens that successive \<^verbatim>\<open>stream >> token\<close> read, each with what is left in the
  stream after it (what a following \<^verbatim>\<open>std::getline\<close> would return).\<close>

fun tok_acc :: "string \<Rightarrow> string \<Rightarrow> (string \<times> string) list" where
  "tok_acc cur [] = (if cur = [] then [] else [(rev cur, [])])"
| "tok_acc cur (x # xs) =
     (if isspace x then (if cur = [] then tok_acc [] xs else (rev cur, x # xs) # tok_acc [] xs)
      else tok_acc (x # cur) xs)"

definition token_rests :: "string \<Rightarrow> (string \<times> string) list" where
  "token_rests s = tok_acc [] s"

text \<open>The loop over the columns of the header line: \<open>index\<close> counts the columns that start
  with \<open>CpuPrefix\<close>, \<open>cpu_column\<close> is the one of the RT core.\<close>

fun header_columns :: "int \<Rightarrow> string list \<Rightarrow> int \<Rightarrow> int \<Rightarrow> int" where
  "header_columns core [] index cpu_column = cpu_column"
| "header_columns core (column # columns) index cpu_column =
     (if starts_with column CpuPrefix
      then header_columns core columns (index + 1)
             (if to_string core = drop (length CpuPrefix) column then index + 1 else cpu_column)
      else header_columns core columns index cpu_column)"

text \<open>The loop \<^verbatim>\<open>while (column_stream >> token)\<close> over one IRQ row: the result is
  \<open>value_at_rt_core\<close> and the label, if the loop met a token that is not a number.\<close>

fun scan_columns :: "int \<Rightarrow> (string \<times> string) list \<Rightarrow> int \<Rightarrow> int \<Rightarrow> int \<times> string option" where
  "scan_columns cpu_column [] index value_at_rt_core = (value_at_rt_core, None)"
| "scan_columns cpu_column ((token, rest) # others) index value_at_rt_core =
     (if \<not> list_all isdigit token then (value_at_rt_core, Some (token @ rest))
      else scan_columns cpu_column others (index + 1)
             (if index + 1 = cpu_column
              then (case stoll token of Inl _ \<Rightarrow> 0 | Inr v \<Rightarrow> v)
              else value_at_rt_core))"

text \<open>One line after the header: \<open>None\<close> when the line is skipped (it does not start with a
  digit after its leading whitespace, or has no colon), otherwise the IRQ number, the count
  in the RT core's column and the label.\<close>

definition row_columns :: "int \<Rightarrow> string \<Rightarrow> (string \<times> int \<times> string option) option" where
  "row_columns cpu_column line =
     (let pos = length (takeWhile isspace line)
      in if pos \<ge> length line \<or> \<not> isdigit (line ! pos) then None
         else case find_char CHR '':'' (drop pos line) of
                None \<Rightarrow> None
              | Some n \<Rightarrow>
                  (let irq_number = take n (drop pos line);
                       (value_at_rt_core, label) =
                          scan_columns cpu_column (token_rests (drop (n + 1) (drop pos line))) (- 1) 0
                   in Some (irq_number, value_at_rt_core, label)))"

text \<open>The offender, if any, that a line adds.\<close>

definition scan_row :: "int \<Rightarrow> string \<Rightarrow> string \<Rightarrow> string option" where
  "scan_row cpu_column nic_filter line =
     (case row_columns cpu_column line of
        None \<Rightarrow> None
      | Some (irq_number, value_at_rt_core, Some label) \<Rightarrow>
          if value_at_rt_core > 0 \<and> find_str nic_filter label = None
          then Some (irq_number @ '' '' @ Trim label) else None
      | Some (irq_number, value_at_rt_core, None) \<Rightarrow>
          if value_at_rt_core > 0 then Some (irq_number @ '' (unlabeled)'') else None)"

text \<open>The \<^verbatim>\<open>while (std::getline(interrupt_stream, line))\<close> loop; the state is
  \<open>(cpu_column, header_done, offenders)\<close>.\<close>

fun scan_interrupts ::
  "int \<Rightarrow> string \<Rightarrow> string list \<Rightarrow> int \<times> bool \<times> string list \<Rightarrow> int \<times> bool \<times> string list" where
  "scan_interrupts core nic_filter [] st = st"
| "scan_interrupts core nic_filter (line # lines) (cpu_column, header_done, offenders) =
     (if line = [] then scan_interrupts core nic_filter lines (cpu_column, header_done, offenders)
      else if \<not> header_done
      then (if contains line (CpuPrefix @ ''0'')
            then scan_interrupts core nic_filter lines
                   (header_columns core (ws_tokens line) (- 1) cpu_column, True, offenders)
            else scan_interrupts core nic_filter lines (cpu_column, header_done, offenders))
      else (case scan_row cpu_column nic_filter line of
              None \<Rightarrow> scan_interrupts core nic_filter lines (cpu_column, header_done, offenders)
            | Some offender \<Rightarrow>
                scan_interrupts core nic_filter lines (cpu_column, header_done, offenders @ [offender])))"

definition NoUnrelatedIrqsOnRt_Name :: string where
  "NoUnrelatedIrqsOnRt_Name = ''No unrelated IRQs on RT core''"

definition NoUnrelatedIrqsOnRtCheck_Evaluate :: "CheckContext \<Rightarrow> IDataSource \<Rightarrow> CheckResult" where
  "NoUnrelatedIrqsOnRtCheck_Evaluate checkContext dataSource =
     (case cpu checkContext of
        None \<Rightarrow> Result NoUnrelatedIrqsOnRt Unknown NoUnrelatedIrqsOnRt_Name ''no CPU subject''
      | Some core \<Rightarrow>
          (case Read dataSource ''/proc/interrupts'' of
             None \<Rightarrow> Result NoUnrelatedIrqsOnRt Unknown NoUnrelatedIrqsOnRt_Name
                      ''cannot read /proc/interrupts''
           | Some content \<Rightarrow>
               (let nic_filter = (case nic checkContext of Some nicname \<Rightarrow> nicname | None \<Rightarrow> []);
                    (cpu_column, header_done, offenders) =
                       scan_interrupts core nic_filter (getline_all CHR 0x0A content) (- 1, False, [])
                in if cpu_column < 0
                   then Result NoUnrelatedIrqsOnRt Unknown NoUnrelatedIrqsOnRt_Name
                          ''could not map CPU column''
                   else if offenders = []
                   then Result NoUnrelatedIrqsOnRt Pass NoUnrelatedIrqsOnRt_Name ''clean''
                   else Result NoUnrelatedIrqsOnRt Fail NoUnrelatedIrqsOnRt_Name
                          (join '', '' (take MaxIrqsToShow offenders)
                             @ (if length offenders > MaxIrqsToShow
                                then '', +'' @ to_string (int (length offenders - MaxIrqsToShow)) @ '' more''
                                else [])))))"

subsection \<open>The remaining checks\<close>

definition NicIrqsPinned_Name :: string where "NicIrqsPinned_Name = ''NIC IRQs pinned to RT core''"

text \<open>The first loop of \<^verbatim>\<open>NicIrqsPinnedCheck::Evaluate\<close>: the IRQ numbers of the lines that
  contain the NIC name.\<close>

fun nic_irq_lines :: "string \<Rightarrow> string list \<Rightarrow> int list" where
  "nic_irq_lines nicname [] = []"
| "nic_irq_lines nicname (line # lines) =
     (if \<not> contains line nicname then nic_irq_lines nicname lines
      else let pos = length (takeWhile isspace line)
           in if pos \<ge> length line \<or> \<not> isdigit (line ! pos) then nic_irq_lines nicname lines
              else case find_char CHR '':'' (drop pos line) of
                     None \<Rightarrow> nic_irq_lines nicname lines
                   | Some n \<Rightarrow>
                       (case stoi (take n (drop pos line)) of
                          Inl _ \<Rightarrow> nic_irq_lines nicname lines
                        | Inr irq \<Rightarrow> irq # nic_irq_lines nicname lines))"

text \<open>The second loop: \<open>Inl irq\<close> is the early return for an unreadable
  \<^verbatim>\<open>smp_affinity_list\<close>, \<open>Inr bad_irqs\<close> the list at the end of the loop.\<close>

fun pinned_loop :: "IDataSource \<Rightarrow> int \<Rightarrow> int list \<Rightarrow> int list \<Rightarrow> (int + int list) option" where
  "pinned_loop dataSource core [] bad_irqs = Some (Inr bad_irqs)"
| "pinned_loop dataSource core (irq # irqs) bad_irqs =
     (case Read dataSource (''/proc/irq/'' @ to_string irq @ ''/smp_affinity_list'') of
        None \<Rightarrow> Some (Inl irq)
      | Some value \<Rightarrow>
          (case ParseCpuList value of
             None \<Rightarrow> None
           | Some cpus \<Rightarrow>
               pinned_loop dataSource core irqs
                 (if length cpus = 1 \<and> set_count cpus core then bad_irqs else bad_irqs @ [irq])))"

definition NicIrqsPinnedCheck_Evaluate :: "CheckContext \<Rightarrow> IDataSource \<Rightarrow> CheckResult option" where
  "NicIrqsPinnedCheck_Evaluate checkContext dataSource =
     (case cpu checkContext of
        None \<Rightarrow> Some (Result NicIrqsPinned Unknown NicIrqsPinned_Name ''no CPU subject'')
      | Some core \<Rightarrow>
          (case nic checkContext of
             None \<Rightarrow> Some (Result NicIrqsPinned Unknown NicIrqsPinned_Name ''no NIC in context'')
           | Some nicname \<Rightarrow>
               if \<not> NicExists dataSource nicname
               then Some (Result NicIrqsPinned Unknown NicIrqsPinned_Name ''NIC not found'')
               else
                 (case Read dataSource ''/proc/interrupts'' of
                    None \<Rightarrow> Some (Result NicIrqsPinned Unknown NicIrqsPinned_Name
                               ''cannot read /proc/interrupts'')
                  | Some content \<Rightarrow>
                      (let nic_irqs = nic_irq_lines nicname (getline_all CHR 0x0A content)
                       in if nic_irqs = []
                          then Some (Result NicIrqsPinned Unknown NicIrqsPinned_Name ''no NIC IRQs seen'')
                          else case pinned_loop dataSource core nic_irqs [] of
                                 None \<Rightarrow> None
                               | Some (Inl irq) \<Rightarrow>
                                   Some (Result NicIrqsPinned Unknown NicIrqsPinned_Name
                                     (''cannot read smp_affinity_list for IRQ '' @ to_string irq))
                               | Some (Inr bad_irqs) \<Rightarrow>
                                   if bad_irqs = []
                                   then Some (Result NicIrqsPinned Pass NicIrqsPinned_Name
                                          (''all pinned to CPU'' @ to_string core))
                                   else Some (Result NicIrqsPinned Fail NicIrqsPinned_Name
                                          (''not pinned: '' @ join '','' (map to_string bad_irqs)))))))"

definition RpsDisabled_Name :: string where "RpsDisabled_Name = ''RPS disabled on NIC''"

definition all_zero_mask :: "IDataSource \<Rightarrow> string \<Rightarrow> bool option" where
  "all_zero_mask dataSource path =
     (case Read dataSource path of
        None \<Rightarrow> None
      | Some content \<Rightarrow>
          (let value = Trim content
           in if value = [] then Some True
              else Some (list_all (\<lambda>c. c = CHR '','' \<or> c = CHR 0x0A \<or> c = CHR '' '' \<or> c = CHR 0x09
                                        \<or> c = CHR ''0'') value)))"

text \<open>The loop over the entries of the queue directory: \<open>Inl path\<close> is the early return for
  an unreadable \<^verbatim>\<open>rps_cpus\<close>, \<open>Inr (any_bad, checked)\<close> the state at the end.\<close>

fun rps_loop ::
  "IDataSource \<Rightarrow> string \<Rightarrow> (string \<times> bool) list \<Rightarrow> bool \<Rightarrow> int \<Rightarrow> string + (bool \<times> int)" where
  "rps_loop dataSource queue_directory [] any_bad checked = Inr (any_bad, checked)"
| "rps_loop dataSource queue_directory ((queue_name, is_directory) # entries) any_bad checked =
     (if \<not> is_directory then rps_loop dataSource queue_directory entries any_bad checked
      else if starts_with queue_name ''rx-''
      then (case all_zero_mask dataSource
                   (path_slash (path_slash queue_directory queue_name) ''rps_cpus'') of
              None \<Rightarrow> Inl (path_slash (path_slash queue_directory queue_name) ''rps_cpus'')
            | Some result \<Rightarrow>
                rps_loop dataSource queue_directory entries (any_bad \<or> \<not> result) (checked + 1))
      else rps_loop dataSource queue_directory entries any_bad checked)"

definition RpsDisabledCheck_Evaluate :: "Host \<Rightarrow> CheckContext \<Rightarrow> IDataSource \<Rightarrow> CheckResult" where
  "RpsDisabledCheck_Evaluate host checkContext dataSource =
     (case nic checkContext of
        None \<Rightarrow> Result RpsDisabled Unknown RpsDisabled_Name ''no NIC in context''
      | Some nicname \<Rightarrow>
          if \<not> NicExists dataSource nicname
          then Result RpsDisabled Unknown RpsDisabled_Name ''NIC not found''
          else
            (let queue_directory = path_slash (path_slash ''/sys/class/net'' nicname) ''queues''
             in if \<not> PathExists host queue_directory
                then Result RpsDisabled Unknown RpsDisabled_Name ''no queues dir''
                else case rps_loop dataSource queue_directory
                            (directory_iterator host queue_directory) False 0 of
                       Inl path \<Rightarrow> Result RpsDisabled Unknown RpsDisabled_Name (''cannot read '' @ path)
                     | Inr (any_bad, checked) \<Rightarrow>
                         if checked = 0
                         then Result RpsDisabled Unknown RpsDisabled_Name ''no rx/tx queues found''
                         else if \<not> any_bad
                         then Result RpsDisabled Pass RpsDisabled_Name ''all zero masks''
                         else Result RpsDisabled Fail RpsDisabled_Name ''non-zero masks present''))"

definition NicQuiet_Name :: string where "NicQuiet_Name = ''NIC is quiet''"

definition default_route_v4_via_nic :: "IDataSource \<Rightarrow> string \<Rightarrow> bool" where
  "default_route_v4_via_nic dataSource nicname =
     (case Read dataSource ''/proc/net/route'' of
        None \<Rightarrow> False
      | Some content \<Rightarrow>
          list_ex (\<lambda>line. line \<noteq> [] \<and>
                     (case ws_tokens line of
                        iface # dest # _ \<Rightarrow> iface = nicname \<and> dest = ''00000000''
                      | _ \<Rightarrow> False))
            (tl (getline_all CHR 0x0A content)))"

definition default_route_v6_via_nic :: "IDataSource \<Rightarrow> string \<Rightarrow> bool" where
  "default_route_v6_via_nic dataSource nicname =
     (case Read dataSource ''/proc/net/ipv6_route'' of
        None \<Rightarrow> False
      | Some content \<Rightarrow>
          list_ex (\<lambda>line. line \<noteq> [] \<and>
                     (let tokens = ws_tokens line
                      in \<not> length tokens < 10
                         \<and> tokens ! 0 = replicate 32 CHR ''0''
                         \<and> (tokens ! 1 = ''0'' \<or> tokens ! 1 = ''00000000'')
                         \<and> last tokens = nicname))
            (getline_all CHR 0x0A content))"

definition count_family :: "string \<Rightarrow> sa_family \<Rightarrow> ifaddrs list \<Rightarrow> int" where
  "count_family nicname family interface_addrs =
     int (length (filter (\<lambda>iface. ifa_name iface = Some nicname \<and> ifa_addr iface = Some family)
                    interface_addrs))"

definition yes_no :: "bool \<Rightarrow> string" where
  "yes_no b = (if b then ''yes'' else ''no'')"

definition NicQuietCheck_Evaluate :: "Host \<Rightarrow> CheckContext \<Rightarrow> IDataSource \<Rightarrow> CheckResult" where
  "NicQuietCheck_Evaluate host checkContext dataSource =
     (case nic checkContext of
        None \<Rightarrow> Result NicQuiet Unknown NicQuiet_Name ''no NIC in context''
      | Some nicname \<Rightarrow>
          if \<not> NicExists dataSource nicname
          then Result NicQuiet Unknown NicQuiet_Name ''NIC not found''
          else
            (let has_default_v4 = default_route_v4_via_nic dataSource nicname;
                 has_default_v6 = default_route_v6_via_nic dataSource nicname;
                 routes = '', def4='' @ yes_no has_default_v4 @ '', def6='' @ yes_no has_default_v6
             in case getifaddrs host of
                  None \<Rightarrow> Result NicQuiet Unknown NicQuiet_Name (''addr=?'' @ routes)
                | Some interface_addrs \<Rightarrow>
                    (let ipv4_count = count_family nicname AF_INET interface_addrs;
                         ipv6_count = count_family nicname AF_INET6 interface_addrs
                     in if ipv4_count = 0 \<and> ipv6_count = 0 \<and> \<not> has_default_v4 \<and> \<not> has_default_v6
                        then Result NicQuiet Pass NicQuiet_Name ''no IPs, no default route''
                        else Result NicQuiet Fail NicQuiet_Name
                               (''v4='' @ to_string ipv4_count @ '', v6='' @ to_string ipv6_count @ routes))))"

definition RtThrottling_Name :: string where "RtThrottling_Name = ''RT throttling disabled''"

definition RtThrottlingCheck_Evaluate :: "CheckContext \<Rightarrow> IDataSource \<Rightarrow> CheckResult" where
  "RtThrottlingCheck_Evaluate checkContext dataSource =
     (case Read dataSource ''/proc/sys/kernel/sched_rt_runtime_us'' of
        None \<Rightarrow> Result RtThrottlingDisabled Unknown RtThrottling_Name ''cannot read sched_rt_runtime_us''
      | Some value \<Rightarrow>
          (let trimmed_value = Trim value
           in if trimmed_value = ''-1''
              then Result RtThrottlingDisabled Pass RtThrottling_Name ''sched_rt_runtime_us=-1''
              else Result RtThrottlingDisabled Fail RtThrottling_Name
                     (''sched_rt_runtime_us='' @ trimmed_value)))"

definition TimerMigration_Name :: string where "TimerMigration_Name = ''Timer Migration disabled''"

definition TimerMigrationCheck_Evaluate :: "CheckContext \<Rightarrow> IDataSource \<Rightarrow> CheckResult" where
  "TimerMigrationCheck_Evaluate checkContext dataSource =
     (case Read dataSource ''/proc/sys/kernel/timer_migration'' of
        None \<Rightarrow> Result TimerMigration Unknown TimerMigration_Name ''cannot read timer_migration''
      | Some value \<Rightarrow>
          (let trimmed_value = Trim value
           in if trimmed_value = ''0''
              then Result TimerMigration Pass TimerMigration_Name ''timer_migration=0''
              else Result TimerMigration Fail TimerMigration_Name (''timer_migration='' @ trimmed_value)))"

definition SwapDisabled_Name :: string where "SwapDisabled_Name = ''Swap disabled''"

text \<open>The entry that one line of \<^verbatim>\<open>/proc/swaps\<close> after the header adds to
  \<^verbatim>\<open>active_entries\<close>.\<close>

definition swap_entry :: "string \<Rightarrow> string option" where
  "swap_entry l =
     (let line = Trim l
      in if line = [] then None
         else let tokens = ws_tokens line
              in if tokens = [] then None
                 else Some (hd tokens @
                        (if length tokens \<ge> 4
                         then '' size='' @ tokens ! 2 @ '' used='' @ tokens ! 3 else [])))"

definition SwapDisabledCheck_Evaluate :: "CheckContext \<Rightarrow> IDataSource \<Rightarrow> CheckResult" where
  "SwapDisabledCheck_Evaluate checkContext dataSource =
     (case Read dataSource ''/proc/swaps'' of
        None \<Rightarrow> Result SwapDisabled Unknown SwapDisabled_Name ''cannot read /proc/swaps''
      | Some swaps \<Rightarrow>
          (case getline_all CHR 0x0A swaps of
             [] \<Rightarrow> Result SwapDisabled Unknown SwapDisabled_Name ''unexpected /proc/swaps format''
           | header # lines \<Rightarrow>
               (let active_entries = List.map_filter swap_entry lines
                in if active_entries = []
                   then Result SwapDisabled Pass SwapDisabled_Name ''/proc/swaps empty''
                   else Result SwapDisabled Fail SwapDisabled_Name
                          (''active: '' @ join '', '' active_entries))))"

definition DeepCStatesCapped_Name :: string where "DeepCStatesCapped_Name = ''Deep C-states capped''"

definition CStates_params :: "IDataSource \<Rightarrow> CheckResult" where
  "CStates_params dataSource =
     (case Read dataSource ''/sys/module/intel_idle/parameters/max_cstate'' of
        Some intel_cstate \<Rightarrow>
          (let value = Trim intel_cstate
           in if value = ''1'' \<or> value = ''0''
              then Result DeepCStatesCapped Pass DeepCStatesCapped_Name (''intel_idle.max_cstate='' @ value)
              else Result DeepCStatesCapped Fail DeepCStatesCapped_Name (''intel_idle.max_cstate='' @ value))
      | None \<Rightarrow>
          (case Read dataSource ''/sys/module/processor/parameters/max_cstate'' of
             Some processor_cstate \<Rightarrow>
               (let value = Trim processor_cstate
                in if value = ''1'' \<or> value = ''0''
                   then Result DeepCStatesCapped Pass DeepCStatesCapped_Name
                          (''processor.max_cstate='' @ value)
                   else Result DeepCStatesCapped Fail DeepCStatesCapped_Name
                          (''processor.max_cstate='' @ value))
           | None \<Rightarrow> Result DeepCStatesCapped Unknown DeepCStatesCapped_Name ''no indicators''))"

definition CStatesCappedCheck_Evaluate :: "CheckContext \<Rightarrow> IDataSource \<Rightarrow> CheckResult" where
  "CStatesCappedCheck_Evaluate checkContext dataSource =
     (case Read dataSource ''/proc/cmdline'' of
        Some cmdline \<Rightarrow>
          if contains cmdline ''cpuidle.off=1''
          then Result DeepCStatesCapped Pass DeepCStatesCapped_Name ''cpuidle.off=1''
          else if contains cmdline ''intel_idle.max_cstate=1'' \<or> contains cmdline ''processor.max_cstate=1''
          then Result DeepCStatesCapped Pass DeepCStatesCapped_Name ''cmdline caps to C1''
          else CStates_params dataSource
      | None \<Rightarrow> CStates_params dataSource)"

definition TurboBoostPolicy_Name :: string where "TurboBoostPolicy_Name = ''Turbo/boost disabled''"

definition Turbo_intel :: "IDataSource \<Rightarrow> CheckResult" where
  "Turbo_intel dataSource =
     (case Read dataSource ''/sys/devices/system/cpu/intel_pstate/no_turbo'' of
        Some intel_turbo \<Rightarrow>
          (let value = Trim intel_turbo
           in if value = ''1'' then Result TurboBoostPolicy Pass TurboBoostPolicy_Name ''intel_pstate/no_turbo=1''
              else if value = ''0''
              then Result TurboBoostPolicy Fail TurboBoostPolicy_Name ''intel_pstate/no_turbo=0''
              else Result TurboBoostPolicy Unknown TurboBoostPolicy_Name ''no boost knobs'')
      | None \<Rightarrow> Result TurboBoostPolicy Unknown TurboBoostPolicy_Name ''no boost knobs'')"

definition TurboPolicyCheck_Evaluate :: "CheckContext \<Rightarrow> IDataSource \<Rightarrow> CheckResult" where
  "TurboPolicyCheck_Evaluate checkContext dataSource =
     (case Read dataSource ''/sys/devices/system/cpu/cpufreq/boost'' of
        Some boost_value \<Rightarrow>
          (let value = Trim boost_value
           in if value = ''0'' then Result TurboBoostPolicy Pass TurboBoostPolicy_Name ''cpufreq/boost=0''
              else if value = ''1'' then Result TurboBoostPolicy Fail TurboBoostPolicy_Name ''cpufreq/boost=1''
              else Turbo_intel dataSource)
      | None \<Rightarrow> Turbo_intel dataSource)"

definition ClocksourceStable_Name :: string where "ClocksourceStable_Name = ''Clocksource stable''"

definition ClocksourceCheck_Evaluate :: "CheckContext \<Rightarrow> IDataSource \<Rightarrow> CheckResult" where
  "ClocksourceCheck_Evaluate checkContext dataSource =
     (let base = ''/sys/devices/system/clocksource/clocksource0/''
      in case Read dataSource (base @ ''current_clocksource'') of
           None \<Rightarrow> Result ClocksourceStable Unknown ClocksourceStable_Name
                    ''cannot read current_clocksource''
         | Some current_source \<Rightarrow>
             (let value = Trim current_source
              in if value = ''tsc'' then Result ClocksourceStable Pass ClocksourceStable_Name ''tsc''
                 else if value = ''arch_sys_counter''
                 then (case Read dataSource (base @ ''available_clocksource'') of
                         Some available \<Rightarrow>
                           (let available_sources = Trim available
                            in if available_sources = ''arch_sys_counter''
                                  \<or> find_char CHR '' '' available_sources = None
                               then Result ClocksourceStable Pass ClocksourceStable_Name
                                      ''arch_sys_counter (ARM standard)''
                               else Result ClocksourceStable Pass ClocksourceStable_Name
                                      ''arch_sys_counter'')
                       | None \<Rightarrow> Result ClocksourceStable Pass ClocksourceStable_Name ''arch_sys_counter'')
                 else if value = ''hpet'' then Result ClocksourceStable Pass ClocksourceStable_Name ''hpet''
                 else
                   (let detail = value @
                          (case Read dataSource (base @ ''available_clocksource'') of
                             Some available \<Rightarrow> ''; available='' @ Trim available
                           | None \<Rightarrow> [])
                    in if value = ''jiffies''
                       then Result ClocksourceStable Fail ClocksourceStable_Name detail
                       else Result ClocksourceStable Unknown ClocksourceStable_Name detail)))"

definition SmtSiblingIsolated_Name :: string where
  "SmtSiblingIsolated_Name = ''SMT sibling isolated/disabled''"

definition SmtSiblingIsolatedCheck_Evaluate :: "CheckContext \<Rightarrow> IDataSource \<Rightarrow> CheckResult option" where
  "SmtSiblingIsolatedCheck_Evaluate checkContext dataSource =
     (case cpu checkContext of
        None \<Rightarrow> Some (Result SmtSiblingIsolated Unknown SmtSiblingIsolated_Name ''no CPU subject'')
      | Some core \<Rightarrow>
          (case Read dataSource (''/sys/devices/system/cpu/cpu'' @ to_string core
                                   @ ''/topology/thread_siblings_list'') of
             None \<Rightarrow> Some (Result SmtSiblingIsolated Unknown SmtSiblingIsolated_Name
                        ''no thread_siblings_list'')
           | Some siblings_value \<Rightarrow>
               (case ParseCpuList siblings_value of
                  None \<Rightarrow> None
                | Some parsed \<Rightarrow>
                    (let siblings = set_erase core parsed
                     in if siblings = []
                        then Some (Result SmtSiblingIsolated Pass SmtSiblingIsolated_Name ''no sibling'')
                        else
                          (case Read dataSource ''/sys/devices/system/cpu/isolated'' of
                             None \<Rightarrow> Some (Result SmtSiblingIsolated Unknown SmtSiblingIsolated_Name
                                        ''cannot read isolated'')
                           | Some isolated_value \<Rightarrow>
                               (case ParseCpuList isolated_value of
                                  None \<Rightarrow> None
                                | Some isolated_set \<Rightarrow>
                                    (case find (\<lambda>sibling. \<not> set_count isolated_set sibling) siblings of
                                       Some sibling \<Rightarrow>
                                         Some (Result SmtSiblingIsolated Fail SmtSiblingIsolated_Name
                                           (''sibling CPU'' @ to_string sibling @ '' not isolated''))
                                     | None \<Rightarrow>
                                         Some (Result SmtSiblingIsolated Pass SmtSiblingIsolated_Name
                                           ''siblings all isolated''))))))))"

subsection \<open>Dispatch and the driver\<close>

text \<open>The virtual call \<^verbatim>\<open>check->Evaluate(checkContext, data)\<close>, by the kind of the check.\<close>

definition Evaluate :: "Host \<Rightarrow> CheckKind \<Rightarrow> CheckContext \<Rightarrow> IDataSource \<Rightarrow> CheckResult option" where
  "Evaluate host k checkContext dataSource =
     (case k of
        PreemptRTActive \<Rightarrow> Some (PreemptRTActiveCheck_Evaluate host checkContext dataSource)
      | SwapDisabled \<Rightarrow> Some (SwapDisabledCheck_Evaluate checkContext dataSource)
      | TimerMigration \<Rightarrow> Some (TimerMigrationCheck_Evaluate checkContext dataSource)
      | RtThrottlingDisabled \<Rightarrow> Some (RtThrottlingCheck_Evaluate checkContext dataSource)
      | ClocksourceStable \<Rightarrow> Some (ClocksourceCheck_Evaluate checkContext dataSource)
      | CoreIsolated \<Rightarrow> CoreIsolatedCheck_Evaluate checkContext dataSource
      | NohzFull \<Rightarrow> NohzFullCheck_Evaluate checkContext dataSource
      | RcuNoCbs \<Rightarrow> RcuNoCbsCheck_Evaluate checkContext dataSource
      | CpuGovernor \<Rightarrow> Some (CpuGovernorCheck_Evaluate checkContext dataSource)
      | CpuFrequency \<Rightarrow> CpuFrequencyCheck_Evaluate host checkContext dataSource
      | IrqAffinityDefaultAvoidsRt \<Rightarrow> IrqAffinityDefaultAvoidsRtCheck_Evaluate checkContext dataSource
      | NoUnrelatedIrqsOnRt \<Rightarrow> Some (NoUnrelatedIrqsOnRtCheck_Evaluate checkContext dataSource)
      | SmtSiblingIsolated \<Rightarrow> SmtSiblingIsolatedCheck_Evaluate checkContext dataSource
      | DeepCStatesCapped \<Rightarrow> Some (CStatesCappedCheck_Evaluate checkContext dataSource)
      | TurboBoostPolicy \<Rightarrow> Some (TurboPolicyCheck_Evaluate checkContext dataSource)
      | NicPresent \<Rightarrow> Some (NicPresenceCheck_Evaluate checkContext dataSource)
      | NicLinkUp \<Rightarrow> Some (NicLinkUpCheck_Evaluate checkContext dataSource)
      | NicIrqsPinned \<Rightarrow> NicIrqsPinnedCheck_Evaluate checkContext dataSource
      | RpsDisabled \<Rightarrow> Some (RpsDisabledCheck_Evaluate host checkContext dataSource)
      | NicQuiet \<Rightarrow> Some (NicQuietCheck_Evaluate host checkContext dataSource))"

text \<open>What \<^verbatim>\<open>ReportSystemConfiguration\<close> prints: the message for an invalid CPU, a section
  header, or a result (\<^verbatim>\<open>PrintResult\<close>). The banner lines with host name, OS, CPU and kernel
  are left out.\<close>

datatype printed = Invalid_CPU | Section string | Line CheckResult

definition system_checks :: "CheckKind list" where
  "system_checks = [PreemptRTActive, SwapDisabled, TimerMigration, RtThrottlingDisabled, ClocksourceStable]"

definition core_checks :: "CheckKind list" where
  "core_checks = [CoreIsolated, NohzFull, RcuNoCbs, CpuGovernor, CpuFrequency,
     IrqAffinityDefaultAvoidsRt, NoUnrelatedIrqsOnRt, SmtSiblingIsolated, DeepCStatesCapped,
     TurboBoostPolicy]"

definition nic_checks :: "CheckKind list" where
  "nic_checks = [NicLinkUp, NicQuiet, NicIrqsPinned, RpsDisabled]"

text \<open>\<^verbatim>\<open>for (const auto &check : checks) { auto result = check->Evaluate(...); PrintResult(result); }\<close>\<close>

fun run_checks :: "Host \<Rightarrow> CheckContext \<Rightarrow> IDataSource \<Rightarrow> CheckKind list \<Rightarrow> printed list option" where
  "run_checks host checkContext data [] = Some []"
| "run_checks host checkContext data (check # checks) =
     (case Evaluate host check checkContext data of
        None \<Rightarrow> None
      | Some result \<Rightarrow>
          (case run_checks host checkContext data checks of
             None \<Rightarrow> None
           | Some out \<Rightarrow> Some (Line result # out)))"

text \<open>The last part of the driver, \<^verbatim>\<open>if (checkContext.nic) { ... }\<close>.\<close>

definition nic_section :: "Host \<Rightarrow> CheckContext \<Rightarrow> IDataSource \<Rightarrow> printed list option" where
  "nic_section host checkContext data =
     (case nic checkContext of
        None \<Rightarrow> Some []
      | Some nicname \<Rightarrow>
          (let presence = NicPresenceCheck_Evaluate checkContext data;
               nic_ok = (status presence = Pass)
           in if nic_ok
              then (case run_checks host checkContext data nic_checks of
                      None \<Rightarrow> None
                    | Some out \<Rightarrow> Some (Section (''NIC '' @ nicname @ '' Checks'') # Line presence # out))
              else Some [Section (''NIC '' @ nicname @ '' Checks''), Line presence]))"

definition ReportSystemConfiguration :: "Host \<Rightarrow> int \<Rightarrow> string \<Rightarrow> printed list option" where
  "ReportSystemConfiguration host core nicName =
     (let cpuCount = CpuCount host
      in if core < 0 \<or> core \<ge> cpuCount then Some [Invalid_CPU]
         else
           (let checkContext = \<lparr>cpu = Some core, nic = (if nicName \<noteq> [] then Some nicName else None)\<rparr>;
                data = SystemFileSystemDataSource host
            in case run_checks host checkContext data system_checks of
                 None \<Rightarrow> None
               | Some sys_out \<Rightarrow>
                   (case run_checks host checkContext data core_checks of
                      None \<Rightarrow> None
                    | Some core_out \<Rightarrow>
                        (case nic_section host checkContext data of
                           None \<Rightarrow> None
                         | Some nic_out \<Rightarrow>
                             Some (Section ''System Checks'' # sys_out
                                   @ Section (''Core '' @ to_string core @ '' Checks'') # core_out
                                   @ nic_out)))))"

subsection \<open>Specification: the frequency rule, subjects and evidence of the checks\<close>

text \<open>The decision rule of \<open>CpuFrequency\<close> in the words of the specification:
  \<open>min = max\<close> and \<open>|cur - max| \<le> 5% * max\<close> gives \<open>Pass\<close>, anything else \<open>Fail\<close>; the
  comparison with five percent of \<open>max\<close> is exact.\<close>

definition freq_rule :: "int \<Rightarrow> int \<Rightarrow> int \<Rightarrow> Status" where
  "freq_rule cur mn mx = (if mn = mx \<and> 100 * \<bar>cur - mx\<bar> \<le> 5 * mx then Pass else Fail)"

text \<open>The checks that start by asking the context for the RT core, and for the NIC.\<close>

definition needs_cpu :: "CheckKind \<Rightarrow> bool" where
  "needs_cpu k = (k \<in> set [CoreIsolated, NohzFull, RcuNoCbs, CpuGovernor, CpuFrequency,
     IrqAffinityDefaultAvoidsRt, NoUnrelatedIrqsOnRt, SmtSiblingIsolated, NicIrqsPinned])"

definition needs_nic :: "CheckKind \<Rightarrow> bool" where
  "needs_nic k = (k \<in> set [NicPresent, NicLinkUp, NicIrqsPinned, RpsDisabled, NicQuiet])"

definition subject_missing :: "CheckKind \<Rightarrow> CheckContext \<Rightarrow> bool" where
  "subject_missing k checkContext =
     ((needs_cpu k \<and> cpu checkContext = None) \<or> (needs_nic k \<and> nic checkContext = None))"

text \<open>"The evidence the check needs is not readable", check by check: the check comes to
  a file, a command line parameter or a query of the host that it needs for its answer, and
  cannot read it. A check with alternative sources lacks its evidence when the last source
  it falls back to is unreadable and the earlier ones were unreadable or did not decide.

  \<^item> \<open>SwapDisabled\<close>, \<open>TimerMigration\<close>, \<open>RtThrottlingDisabled\<close>, \<open>CoreIsolated\<close>, \<open>CpuGovernor\<close>,
    \<open>NoUnrelatedIrqsOnRt\<close>: the one file of the check. \<open>ClocksourceStable\<close>:
    \<^verbatim>\<open>current_clocksource\<close> (\<^verbatim>\<open>available_clocksource\<close> only adds detail to the reason).
    \<open>IrqAffinityDefaultAvoidsRt\<close>: the \<^verbatim>\<open>irqaffinity\<close> parameter.
  \<^item> \<open>NohzFull\<close>, \<open>RcuNoCbs\<close>: the sysfs file and the command line parameter, both.
  \<^item> \<open>CpuFrequency\<close>: one of the three \<^verbatim>\<open>scaling_*_freq\<close> files, or \<^verbatim>\<open>/proc/cpuinfo\<close> when none of
    the three gives a number.
  \<^item> \<open>DeepCStatesCapped\<close>: both \<^verbatim>\<open>max_cstate\<close> parameter files, with a command line that is
    unreadable or names no cap. \<open>TurboBoostPolicy\<close>: \<^verbatim>\<open>no_turbo\<close>, with a \<^verbatim>\<open>boost\<close> file that is
    unreadable or holds neither 0 nor 1. \<open>NicLinkUp\<close>: \<^verbatim>\<open>carrier\<close>, with an \<^verbatim>\<open>operstate\<close> that is
    unreadable or blank.
  \<^item> \<open>SmtSiblingIsolated\<close>: \<^verbatim>\<open>thread_siblings_list\<close>, or \<^verbatim>\<open>isolated\<close> when the core has a
    sibling (the sibling list being expanded without overflow).
  \<^item> \<open>NicPresent\<close>: the interface. \<open>NicIrqsPinned\<close>: the interface, \<^verbatim>\<open>/proc/interrupts\<close>, or the
    \<^verbatim>\<open>smp_affinity_list\<close> of one of the IRQs of the NIC (the lists of the IRQs before it being
    read and expanded without overflow). \<open>RpsDisabled\<close>: the interface, its queue directory,
    or the \<^verbatim>\<open>rps_cpus\<close> of one of its \<^verbatim>\<open>rx-\<close> queues. \<open>NicQuiet\<close>: the interface or the address
    list; its two route files are not evidence in this sense, an unreadable route file
    counts as "no default route".
  \<^item> \<open>PreemptRTActive\<close>: \<^verbatim>\<open>/sys/kernel/realtime\<close> and the kernel configuration file, both.\<close>

definition evidence_missing :: "Host \<Rightarrow> CheckKind \<Rightarrow> CheckContext \<Rightarrow> IDataSource \<Rightarrow> bool" where
  "evidence_missing host k checkContext dataSource =
     (let core_path = (\<lambda>tail. case cpu checkContext of
                          None \<Rightarrow> None
                        | Some core \<Rightarrow> Read dataSource (''/sys/devices/system/cpu/cpu'' @ to_string core @ tail));
          no_nic = (case nic checkContext of None \<Rightarrow> True | Some nicname \<Rightarrow> \<not> NicExists dataSource nicname);
          nic_path = (\<lambda>tail. case nic checkContext of
                          None \<Rightarrow> None
                        | Some nicname \<Rightarrow> Read dataSource (''/sys/class/net/'' @ nicname @ tail));
          affinity = (\<lambda>irq. Read dataSource (''/proc/irq/'' @ to_string irq @ ''/smp_affinity_list''))
      in case k of
           PreemptRTActive \<Rightarrow>
             Read dataSource ''/sys/kernel/realtime'' = None
             \<and> (case uname host of
                  None \<Rightarrow> True
                | Some uname_info \<Rightarrow> Read dataSource (''/boot/config-'' @ release uname_info) = None)
         | SwapDisabled \<Rightarrow> Read dataSource ''/proc/swaps'' = None
         | TimerMigration \<Rightarrow> Read dataSource ''/proc/sys/kernel/timer_migration'' = None
         | RtThrottlingDisabled \<Rightarrow> Read dataSource ''/proc/sys/kernel/sched_rt_runtime_us'' = None
         | ClocksourceStable \<Rightarrow>
             Read dataSource ''/sys/devices/system/clocksource/clocksource0/current_clocksource'' = None
         | CoreIsolated \<Rightarrow> Read dataSource ''/sys/devices/system/cpu/isolated'' = None
         | NohzFull \<Rightarrow>
             Read dataSource ''/sys/devices/system/cpu/nohz_full'' = None
             \<and> CmdLineParam dataSource ''nohz_full'' = None
         | RcuNoCbs \<Rightarrow>
             Read dataSource ''/sys/devices/system/cpu/rcu_nocbs'' = None
             \<and> CmdLineParam dataSource ''rcu_nocbs'' = None
         | CpuGovernor \<Rightarrow> core_path ''/cpufreq/scaling_governor'' = None
         | CpuFrequency \<Rightarrow>
             core_path ''/cpufreq/scaling_cur_freq'' = None
             \<or> core_path ''/cpufreq/scaling_min_freq'' = None
             \<or> core_path ''/cpufreq/scaling_max_freq'' = None
             \<or> (Read dataSource ''/proc/cpuinfo'' = None
                 \<and> (case cpu checkContext of
                      None \<Rightarrow> True
                    | Some core \<Rightarrow>
                        list_all (\<lambda>tail. read_int64 dataSource
                                            (''/sys/devices/system/cpu/cpu'' @ to_string core @ tail) = None)
                          [''/cpufreq/scaling_cur_freq'', ''/cpufreq/scaling_min_freq'',
                           ''/cpufreq/scaling_max_freq'']))
         | IrqAffinityDefaultAvoidsRt \<Rightarrow> CmdLineParam dataSource ''irqaffinity'' = None
         | NoUnrelatedIrqsOnRt \<Rightarrow> Read dataSource ''/proc/interrupts'' = None
         | SmtSiblingIsolated \<Rightarrow>
             (case core_path ''/topology/thread_siblings_list'' of
                None \<Rightarrow> True
              | Some siblings_value \<Rightarrow>
                  (case (cpu checkContext, ParseCpuList siblings_value) of
                     (Some core, Some parsed) \<Rightarrow>
                       set_erase core parsed \<noteq> []
                       \<and> Read dataSource ''/sys/devices/system/cpu/isolated'' = None
                   | _ \<Rightarrow> False))
         | DeepCStatesCapped \<Rightarrow>
             Read dataSource ''/sys/module/intel_idle/parameters/max_cstate'' = None
             \<and> Read dataSource ''/sys/module/processor/parameters/max_cstate'' = None
             \<and> (case Read dataSource ''/proc/cmdline'' of
                  None \<Rightarrow> True
                | Some cmdline \<Rightarrow>
                    \<not> contains cmdline ''cpuidle.off=1''
                    \<and> \<not> contains cmdline ''intel_idle.max_cstate=1''
                    \<and> \<not> contains cmdline ''processor.max_cstate=1'')
         | TurboBoostPolicy \<Rightarrow>
             Read dataSource ''/sys/devices/system/cpu/intel_pstate/no_turbo'' = None
             \<and> (case Read dataSource ''/sys/devices/system/cpu/cpufreq/boost'' of
                  None \<Rightarrow> True
                | Some boost_value \<Rightarrow> Trim boost_value \<noteq> ''0'' \<and> Trim boost_value \<noteq> ''1'')
         | NicPresent \<Rightarrow> no_nic
         | NicLinkUp \<Rightarrow>
             nic_path ''/carrier'' = None
             \<and> (case nic_path ''/operstate'' of None \<Rightarrow> True | Some oper \<Rightarrow> Trim oper = [])
         | NicIrqsPinned \<Rightarrow>
             no_nic
             \<or> (case (nic checkContext, Read dataSource ''/proc/interrupts'') of
                  (Some nicname, Some content) \<Rightarrow>
                    (let nic_irqs = nic_irq_lines nicname (getline_all CHR 0x0A content);
                         readable = takeWhile (\<lambda>irq. affinity irq \<noteq> None) nic_irqs
                     in length readable < length nic_irqs
                        \<and> list_all (\<lambda>irq. case affinity irq of
                                             None \<Rightarrow> True
                                           | Some value \<Rightarrow> ParseCpuList value \<noteq> None) readable)
                | _ \<Rightarrow> True)
         | RpsDisabled \<Rightarrow>
             no_nic
             \<or> (case nic checkContext of
                  None \<Rightarrow> True
                | Some nicname \<Rightarrow>
                    (let queue_directory = path_slash (path_slash ''/sys/class/net'' nicname) ''queues''
                     in \<not> PathExists host queue_directory
                        \<or> list_ex (\<lambda>(queue_name, is_directory).
                                      is_directory \<and> starts_with queue_name ''rx-''
                                      \<and> Read dataSource
                                           (path_slash (path_slash queue_directory queue_name) ''rps_cpus'')
                                          = None)
                             (directory_iterator host queue_directory)))
         | NicQuiet \<Rightarrow> no_nic \<or> getifaddrs host = None)"

text \<open>The kinds of the results among the printed lines, in order.\<close>

definition printed_kinds :: "printed list \<Rightarrow> CheckKind list" where
  "printed_kinds out = List.map_filter (\<lambda>p. case p of Line r \<Rightarrow> Some (kind r) | _ \<Rightarrow> None) out"

text \<open>A host on which nothing outside the data source is available; the example
  evaluations below run on it.\<close>

definition stub_host :: Host where
  "stub_host =
     \<lparr>Slurp = Map.empty, uname = None, PathExists = (\<lambda>path. False),
      directory_iterator = (\<lambda>path. []), getifaddrs = None, sysconf_NPROCESSORS_CONF = 4,
      stod_to_string = (\<lambda>s. None)\<rparr>"

text \<open>A host whose only readable file is the \<^verbatim>\<open>operstate\<close> of the interface \<^verbatim>\<open>eth0\<close>, which is up
  and has no address.\<close>

definition eth0_host :: Host where
  "eth0_host =
     \<lparr>Slurp = [''/sys/class/net/eth0/operstate'' \<mapsto> ''up''], uname = None,
      PathExists = (\<lambda>path. False), directory_iterator = (\<lambda>path. []), getifaddrs = Some [],
      sysconf_NPROCESSORS_CONF = 4, stod_to_string = (\<lambda>s. None)\<rparr>"
section \<open>main.cpp: timing primitives and the sender thread\<close>

type_synonym uint64_t = "64 word"

text \<open>\<^verbatim>\<open>struct timespec\<close>: \<^verbatim>\<open>time_t tv_sec; long tv_nsec;\<close>, both 64 bits wide on the
  Linux targets of the program; the words hold their two's complement representation.\<close>

record timespec =
  tv_sec :: "64 word"
  tv_nsec :: "64 word"

text \<open>Modelled from the spec: \<^verbatim>\<open>Evaluator::NanoPerSec\<close> and \<^verbatim>\<open>Evaluator::ToEpoch\<close> are declared
  in \<^verbatim>\<open>config.h\<close>, which is not among the sources. The specification calls \<open>ToEpoch\<close> of the
  deadline its epoch value in nanoseconds, and the comment in \<^verbatim>\<open>AddNanoToTimespec\<close> describes
  it as combining the second and nanosecond components into a single time value in
  nanoseconds; the arithmetic is that of \<^verbatim>\<open>uint64_t\<close>.\<close>

definition NanoPerSec :: uint64_t where
  "NanoPerSec = 1000000000"

definition ToEpoch :: "timespec \<Rightarrow> uint64_t" where
  "ToEpoch t = tv_sec t * NanoPerSec + tv_nsec t"

text \<open>\<^verbatim>\<open>static constexpr uint64_t RunIndefinitely = std::numeric_limits<uint64_t>::max()\<close>:
  all 64 bits set.\<close>

definition RunIndefinitely :: uint64_t where
  "RunIndefinitely = - 1"

text \<open>\<^verbatim>\<open>static constexpr uint64_t NanoPerMicro = 1000\<close>; \<^verbatim>\<open>main\<close> converts the period given
  on the command line with \<^verbatim>\<open>params.SendSleep *= Evaluator::NanoPerMicro\<close>.\<close>

definition NanoPerMicro :: uint64_t where
  "NanoPerMicro = 1000"

text \<open>\<^verbatim>\<open>void AddNanoToTimespec(struct timespec* time, const uint64_t nanos)\<close>; the updated
  timespec is returned.\<close>

definition AddNanoToTimespec :: "timespec \<Rightarrow> uint64_t \<Rightarrow> timespec" where
  "AddNanoToTimespec time nanos =
     (let nanoEpoch = ToEpoch time + nanos
      in time\<lparr>tv_sec := nanoEpoch div NanoPerSec, tv_nsec := nanoEpoch mod NanoPerSec\<rparr>)"

text \<open>The catch-up loop of the sender,
  \<^verbatim>\<open>while (current > Evaluator::ToEpoch(next)) AddNanoToTimespec(&next, params.SendSleep);\<close>,
  with \<open>sleep\<close> for \<^verbatim>\<open>params.SendSleep\<close>.
  Nothing bounds its number of rounds, so it is a partial function: \<open>None\<close> stands for a
  loop that never exits.\<close>

partial_function (option) skip_ahead :: "uint64_t \<Rightarrow> uint64_t \<Rightarrow> timespec \<Rightarrow> timespec option" where
  "skip_ahead current sleep next =
     (if current > ToEpoch next
      then skip_ahead current sleep (AddNanoToTimespec next sleep)
      else Some next)"

declare skip_ahead.simps [code]

text \<open>Lines 136 to 142 of the sender loop: one unconditional advance, then the catch-up
  loop. The result is the deadline handed to \<^verbatim>\<open>clock_nanosleep\<close>.\<close>

definition next_deadline :: "uint64_t \<Rightarrow> uint64_t \<Rightarrow> timespec \<Rightarrow> timespec option" where
  "next_deadline current sleep next =
     skip_ahead current sleep (AddNanoToTimespec next sleep)"

text \<open>The fields of \<^verbatim>\<open>TestParameters\<close> that \<^verbatim>\<open>main\<close> fills in (the two \<^verbatim>\<open>ReportData\<close>
  pointers are represented by the report kept in the thread state below).\<close>

record TestParameters =
  NicName :: string
  Iterations :: uint64_t
  SendSleep :: uint64_t
  SendPriority :: int
  ReceivePriority :: int
  SendCpu :: int
  ReceiveCpu :: int
  IsVerbose :: bool
  BucketWidth :: uint64_t

text \<open>What the sender thread observes from outside: whether \<^verbatim>\<open>ConfigureThisThread\<close> succeeds
  (it throws when \<^verbatim>\<open>pthread_setschedparam\<close> or \<^verbatim>\<open>pthread_setaffinity_np\<close> fails), the value
  of the atomic flag \<^verbatim>\<open>testRunning\<close> at the \<open>k\<close>-th evaluation of the loop condition, whether
  the \<open>k\<close>-th \<^verbatim>\<open>tester->Send()\<close> throws, the \<open>k\<close>-th reading of \<^verbatim>\<open>Evaluator::GetCurrentTime()\<close>,
  and the initial \<^verbatim>\<open>clock_gettime(CLOCK_MONOTONIC, &next)\<close>.\<close>

record sender_env =
  configure_ok :: bool
  testRunning :: "nat \<Rightarrow> bool"
  Send_throws :: "nat \<Rightarrow> bool"
  GetCurrentTime :: "nat \<Rightarrow> uint64_t"
  clock_gettime :: timespec

text \<open>The local variables of \<^verbatim>\<open>SenderThread\<close>. Modelled from the spec: \<^verbatim>\<open>TimerReport\<close> is
  declared in \<^verbatim>\<open>reporter.h\<close>, which is not among the sources; \<open>report\<close> is the sequence of
  calls \<^verbatim>\<open>report.AddObservation(current - previous, index)\<close> made so far, one recorded sample
  of the sender's \<^verbatim>\<open>ReportData\<close> each.\<close>

record sender_state =
  recordTime :: bool
  index :: uint64_t
  next_ts :: timespec
  previous :: uint64_t
  report :: "(uint64_t \<times> uint64_t) list"

text \<open>How the thread function ends: by leaving the loop, or in its \<^verbatim>\<open>catch\<close> block.\<close>

datatype thread_exit = Returned | Caught

text \<open>The \<^verbatim>\<open>while\<close> loop of \<^verbatim>\<open>SenderThread\<close>; \<open>tester\<close> says whether the tester pointer is
  non-null and \<open>k\<close> counts the iterations begun. With \<open>Iterations = RunIndefinitely\<close> the loop
  runs for as long as the flag stays set, hence a partial function again.\<close>

partial_function (option) sender_loop ::
  "sender_env \<Rightarrow> bool \<Rightarrow> TestParameters \<Rightarrow> nat \<Rightarrow> sender_state \<Rightarrow> (thread_exit \<times> sender_state) option" where
  "sender_loop env tester params k st =
     (if testRunning env k \<and> (Iterations params = RunIndefinitely \<or> index st < Iterations params)
      then
        let st1 = st\<lparr>recordTime := (index st \<noteq> 0 \<and> index st \<noteq> Iterations params - 1)\<rparr>
        in if tester \<and> Send_throws env k then Some (Caught, st1)
           else
             let current = GetCurrentTime env k;
                 st2 = (if recordTime st1
                        then st1\<lparr>report := report st1 @ [(current - previous st1, index st1)]\<rparr>
                        else st1)
             in case next_deadline current (SendSleep params) (next_ts st2) of
                  None \<Rightarrow> None
                | Some n \<Rightarrow>
                    sender_loop env tester params (Suc k)
                      (st2\<lparr>next_ts := n, previous := current, index := index st2 + 1\<rparr>)
      else Some (Returned, st))"

declare sender_loop.simps [code]

definition SenderThread ::
  "sender_env \<Rightarrow> bool \<Rightarrow> TestParameters \<Rightarrow> (thread_exit \<times> sender_state) option" where
  "SenderThread env tester params =
     (let st0 = \<lparr>recordTime = True, index = 0, next_ts = clock_gettime env, previous = 0, report = []\<rparr>
      in if \<not> configure_ok env then Some (Caught, st0)
         else sender_loop env tester params 0 st0)"

section \<open>Properties of the sender thread\<close>

subsection \<open>Timespec arithmetic\<close>

lemma ToEpoch_AddNano: "ToEpoch (AddNanoToTimespec t n) = ToEpoch t + n"
proof -
  have "(e::uint64_t) div NanoPerSec * NanoPerSec + e mod NanoPerSec = e" for e
    by (rule div_mult_mod_eq)
  then show ?thesis
    by (simp add: ToEpoch_def AddNanoToTimespec_def Let_def)
qed

lemma AddNano_fields:
  "AddNanoToTimespec (t::timespec) n =
     \<lparr>tv_sec = (ToEpoch t + n) div NanoPerSec, tv_nsec = (ToEpoch t + n) mod NanoPerSec\<rparr>"
  by (simp add: AddNanoToTimespec_def Let_def)

lemma unat_step:
  "unat (e::uint64_t) + unat s < 2 ^ 64 \<Longrightarrow> unat (e + s) = unat e + unat s"
  by (simp add: unat_add_lem[THEN iffD1])

lemma ToEpoch_funpow:
  "ToEpoch (((\<lambda>t. AddNanoToTimespec t s) ^^ j) t) = ToEpoch t + of_nat j * s"
  by (induction j) (simp_all add: ToEpoch_AddNano algebra_simps)

lemma unat_ToEpoch_funpow:
  assumes "unat (ToEpoch t) + k * unat s < 2 ^ 64" and "j \<le> k"
  shows "unat (ToEpoch (((\<lambda>t. AddNanoToTimespec t s) ^^ j) t)) = unat (ToEpoch t) + j * unat s"
  using assms(2)
proof (induction j)
  case 0
  then show ?case by simp
next
  case (Suc j)
  let ?e = "ToEpoch (((\<lambda>t. AddNanoToTimespec t s) ^^ j) t)"
  from Suc have ih: "unat ?e = unat (ToEpoch t) + j * unat s" by simp
  have "Suc j * unat s \<le> k * unat s" using Suc.prems by (rule mult_le_mono1)
  with assms(1) ih have "unat ?e + unat s < 2 ^ 64" by simp
  then have "unat (?e + s) = unat ?e + unat s" by (rule unat_step)
  with ih show ?case by (simp add: ToEpoch_AddNano)
qed

subsection \<open>The catch-up loop terminates on the first grid point at or after the wake time\<close>

lemma skip_ahead_lands:
  assumes "0 < unat sleep" and "unat current + unat sleep < 2 ^ 64"
  shows "\<exists>k r. skip_ahead current sleep next = Some r
           \<and> r = ((\<lambda>t. AddNanoToTimespec t sleep) ^^ k) next
           \<and> unat (ToEpoch r) = unat (ToEpoch next) + k * unat sleep
           \<and> unat current \<le> unat (ToEpoch r)
           \<and> (0 < k \<longrightarrow> unat (ToEpoch next) + (k - 1) * unat sleep < unat current)"
proof (induction "unat current - unat (ToEpoch next)" arbitrary: "next" rule: less_induct)
  case less
  show ?case
  proof (cases "current > ToEpoch next")
    case False
    then have "skip_ahead current sleep next = Some next"
      by (subst skip_ahead.simps) simp
    moreover from False have "unat current \<le> unat (ToEpoch next)"
      by (simp add: word_less_nat_alt)
    ultimately show ?thesis
      by (intro exI[of _ 0] exI[of _ "next"]) simp
  next
    case True
    let ?n = "AddNanoToTimespec next sleep"
    from True have lt: "unat (ToEpoch next) < unat current"
      by (simp add: word_less_nat_alt)
    with assms have "unat (ToEpoch next) + unat sleep < 2 ^ 64" by linarith
    then have ep: "unat (ToEpoch ?n) = unat (ToEpoch next) + unat sleep"
      by (simp add: ToEpoch_AddNano unat_step)
    with lt assms have "unat current - unat (ToEpoch ?n) < unat current - unat (ToEpoch next)"
      by linarith
    from less[OF this] obtain k r where
      r: "skip_ahead current sleep ?n = Some r"
         "r = ((\<lambda>t. AddNanoToTimespec t sleep) ^^ k) ?n"
         "unat (ToEpoch r) = unat (ToEpoch ?n) + k * unat sleep"
         "unat current \<le> unat (ToEpoch r)"
         "0 < k \<longrightarrow> unat (ToEpoch ?n) + (k - 1) * unat sleep < unat current"
      by blast
    from True r(1) have "skip_ahead current sleep next = Some r"
      by (subst skip_ahead.simps) simp
    moreover have "r = ((\<lambda>t. AddNanoToTimespec t sleep) ^^ Suc k) next"
      using r(2) by (simp only: funpow_Suc_right o_apply)
    moreover have "unat (ToEpoch r) = unat (ToEpoch next) + Suc k * unat sleep"
      using r(3) ep by simp
    moreover have "unat (ToEpoch next) + (Suc k - 1) * unat sleep < unat current"
    proof (cases k)
      case 0
      then show ?thesis using lt by simp
    next
      case (Suc j)
      then show ?thesis using r(5) ep by simp
    qed
    ultimately show ?thesis using r(4)
      by (intro exI[of _ "Suc k"] exI[of _ r]) simp
  qed
qed

lemma next_deadline_lands:
  assumes sl: "0 < unat sleep"
    and cur: "unat current + unat sleep < 2 ^ 64"
    and nxt: "unat (ToEpoch next) + unat sleep < 2 ^ 64"
  shows "\<exists>k r. next_deadline current sleep next = Some r \<and> 1 \<le> k
           \<and> r = ((\<lambda>t. AddNanoToTimespec t sleep) ^^ k) next
           \<and> unat (ToEpoch r) = unat (ToEpoch next) + k * unat sleep
           \<and> unat current \<le> unat (ToEpoch r)
           \<and> (1 < k \<longrightarrow> unat (ToEpoch next) + (k - 1) * unat sleep < unat current)"
proof -
  let ?n = "AddNanoToTimespec next sleep"
  from nxt have ep: "unat (ToEpoch ?n) = unat (ToEpoch next) + unat sleep"
    by (simp add: ToEpoch_AddNano unat_step)
  from skip_ahead_lands[OF sl cur, of ?n] obtain k r where
    r: "skip_ahead current sleep ?n = Some r"
       "r = ((\<lambda>t. AddNanoToTimespec t sleep) ^^ k) ?n"
       "unat (ToEpoch r) = unat (ToEpoch ?n) + k * unat sleep"
       "unat current \<le> unat (ToEpoch r)"
       "0 < k \<longrightarrow> unat (ToEpoch ?n) + (k - 1) * unat sleep < unat current"
    by blast
  have "next_deadline current sleep next = Some r"
    using r(1) by (simp add: next_deadline_def)
  moreover have "r = ((\<lambda>t. AddNanoToTimespec t sleep) ^^ Suc k) next"
    using r(2) by (simp only: funpow_Suc_right o_apply)
  moreover have "unat (ToEpoch r) = unat (ToEpoch next) + Suc k * unat sleep"
    using r(3) ep by simp
  moreover have "1 < Suc k \<longrightarrow> unat (ToEpoch next) + (Suc k - 1) * unat sleep < unat current"
  proof (cases k)
    case 0
    then show ?thesis by simp
  next
    case (Suc j)
    then show ?thesis using r(5) ep by simp
  qed
  ultimately show ?thesis using r(4)
    by (intro exI[of _ "Suc k"] exI[of _ r]) simp
qed

subsection \<open>The sender loop: which iterations are recorded\<close>

lemma upt_drop_ends:
  assumes "2 \<le> (n::nat)"
  shows "filter (\<lambda>i. i \<noteq> 0 \<and> i \<noteq> n - 1) [0..<n] = [1..<n - 1]"
proof -
  from assms obtain m where n: "n = Suc (Suc m)"
    by (auto simp: numeral_2_eq_2 Suc_le_eq dest!: less_imp_Suc_add)
  have "[0..<n] = 0 # [1..<Suc m] @ [Suc m]"
    unfolding n using upt_conv_Cons[of 0 "Suc m"] by simp
  moreover have "filter (\<lambda>i. i \<noteq> 0 \<and> i \<noteq> Suc m) [1..<Suc m] = [1..<Suc m]"
    by (rule filter_True) auto
  ultimately show ?thesis by (simp add: n)
qed

lemma index_record_iff:
  assumes "(i::uint64_t) < N"
  shows "(i \<noteq> 0 \<and> i \<noteq> N - 1) = (unat i \<noteq> 0 \<and> unat i \<noteq> unat N - 1)"
proof -
  from assms have "N \<noteq> 0" by auto
  then have "unat (N - 1) = unat N - 1" by (rule unat_minus_one)
  then show ?thesis
    by (metis unat_eq_zero word_unat_eq_iff)
qed

lemma index_step:
  assumes "(i::uint64_t) < N"
  shows "unat (i + 1) = Suc (unat i)" and "i + 1 \<le> N" and "i \<le> i + 1"
proof -
  from assms have "unat i < unat N" by (simp add: word_less_nat_alt)
  moreover have "unat N < 2 ^ 64" using unsigned_less[of N] by simp
  ultimately have "unat i + unat (1::uint64_t) < 2 ^ 64" by simp
  then have "unat (i + 1) = unat i + unat (1::uint64_t)" by (rule unat_step)
  then show a: "unat (i + 1) = Suc (unat i)" by simp
  with \<open>unat i < unat N\<close> show "i + 1 \<le> N" by (simp add: word_le_nat_alt)
  from a show "i \<le> i + 1" by (simp add: word_le_nat_alt)
qed

lemma sender_loop_records:
  assumes "sender_loop env tester params k st = Some y"
  shows "Iterations params \<noteq> RunIndefinitely \<longrightarrow> index st \<le> Iterations params \<longrightarrow>
         index st \<le> index (snd y) \<and> index (snd y) \<le> Iterations params \<and>
         map (unat \<circ> snd) (report (snd y)) =
           map (unat \<circ> snd) (report st) @
           filter (\<lambda>i. i \<noteq> 0 \<and> i \<noteq> unat (Iterations params) - 1) [unat (index st)..<unat (index (snd y))]"
proof (rule sender_loop.raw_induct[where P = "\<lambda>env tester params k st y.
         Iterations params \<noteq> RunIndefinitely \<longrightarrow> index st \<le> Iterations params \<longrightarrow>
         index st \<le> index (snd y) \<and> index (snd y) \<le> Iterations params \<and>
         map (unat \<circ> snd) (report (snd y)) =
           map (unat \<circ> snd) (report st) @
           filter (\<lambda>i. i \<noteq> 0 \<and> i \<noteq> unat (Iterations params) - 1) [unat (index st)..<unat (index (snd y))]",
       OF _ assms], goal_cases)
  case (1 loop env tester params k st y)
  let ?N = "Iterations params"
  show ?case
  proof (intro impI)
    assume fin: "?N \<noteq> RunIndefinitely" and le: "index st \<le> ?N"
    show "index st \<le> index (snd y) \<and> index (snd y) \<le> ?N \<and>
         map (unat \<circ> snd) (report (snd y)) =
           map (unat \<circ> snd) (report st) @
           filter (\<lambda>i. i \<noteq> 0 \<and> i \<noteq> unat ?N - 1) [unat (index st)..<unat (index (snd y))]"
    proof (cases "testRunning env k \<and> index st < ?N")
      case False
      with 1(2) fin have "y = (Returned, st)" by (auto split: if_splits)
      with le show ?thesis by simp
    next
      case True
      then have lt: "index st < ?N" by simp
      show ?thesis
      proof (cases "tester \<and> Send_throws env k")
        case thrown: True
        with 1(2) True have "snd y = st\<lparr>recordTime := (index st \<noteq> 0 \<and> index st \<noteq> ?N - 1)\<rparr>"
          by (auto simp: Let_def)
        with le show ?thesis by simp
      next
        case ok: False
        define current where "current = GetCurrentTime env k"
        define st2 where "st2 = (if index st \<noteq> 0 \<and> index st \<noteq> ?N - 1
            then st\<lparr>recordTime := True, report := report st @ [(current - previous st, index st)]\<rparr>
            else st\<lparr>recordTime := False\<rparr>)"
        from 1(2) True ok obtain n where
          n: "next_deadline current (SendSleep params) (next_ts st2) = Some n" and
          y: "loop env tester params (Suc k) (st2\<lparr>next_ts := n, previous := current, index := index st2 + 1\<rparr>) = Some y"
          by (auto simp: Let_def current_def st2_def split: option.splits if_splits)
        have ist2: "index st2 = index st" by (simp add: st2_def)
        note stp = index_step[OF lt]
        note ih0 = 1(1)[OF y]
                have ih: "index st + 1 \<le> index (snd y)" "index (snd y) \<le> ?N"
          "map (unat \<circ> snd) (report (snd y)) =
             map (unat \<circ> snd) (report st2) @
             filter (\<lambda>i. i \<noteq> 0 \<and> i \<noteq> unat ?N - 1) [Suc (unat (index st))..<unat (index (snd y))]"
          using ih0 fin stp(2) ist2 by (simp_all add: stp(1))
        from ih(1) stp have a: "unat (index st) < unat (index (snd y))"
          by (simp add: word_le_nat_alt)
        then have upt: "[unat (index st)..<unat (index (snd y))] =
            unat (index st) # [Suc (unat (index st))..<unat (index (snd y))]"
          by (rule upt_conv_Cons)
        have rep: "map (unat \<circ> snd) (report st2) =
            map (unat \<circ> snd) (report st) @ filter (\<lambda>i. i \<noteq> 0 \<and> i \<noteq> unat ?N - 1) [unat (index st)]"
          using index_record_iff[OF lt] by (simp add: st2_def)
        have "index st \<le> index (snd y)"
          using a by (simp add: word_le_nat_alt)
        with ih(2) show ?thesis
          unfolding ih(3) rep upt by simp
      qed
    qed
  qed
qed

lemma sender_loop_step:
  assumes "testRunning env k" and "index st < Iterations params"
    and "\<not> (tester \<and> Send_throws env k)"
    and "next_deadline (GetCurrentTime env k) (SendSleep params) (next_ts st) = Some n"
  shows "\<exists>rt rp. sender_loop env tester params k st =
           sender_loop env tester params (Suc k)
             (st\<lparr>recordTime := rt, report := rp, next_ts := n,
                 previous := GetCurrentTime env k, index := index st + 1\<rparr>)"
proof (cases "index st \<noteq> 0 \<and> index st \<noteq> Iterations params - 1")
  case True
  from assms(3) have thr: "(tester \<and> Send_throws env k) = False" by simp
  from True have rec: "(index st \<noteq> 0 \<and> index st \<noteq> Iterations params - 1) = True" by simp
  from assms(1,2,4) have "sender_loop env tester params k st =
           sender_loop env tester params (Suc k)
             (st\<lparr>recordTime := True,
                 report := report st @ [(GetCurrentTime env k - previous st, index st)],
                 next_ts := n, previous := GetCurrentTime env k, index := index st + 1\<rparr>)"
    by (subst sender_loop.simps) (simp add: Let_def thr rec)
  then show ?thesis by blast
next
  case False
  from assms(3) have thr: "(tester \<and> Send_throws env k) = False" by simp
  from False have rec: "(index st \<noteq> 0 \<and> index st \<noteq> Iterations params - 1) = False" by simp
  from assms(1,2,4) have "sender_loop env tester params k st =
           sender_loop env tester params (Suc k)
             (st\<lparr>recordTime := False, report := report st,
                 next_ts := n, previous := GetCurrentTime env k, index := index st + 1\<rparr>)"
    by (subst sender_loop.simps) (simp add: Let_def thr rec)
  then show ?thesis by blast
qed

lemma sender_loop_completes:
  assumes fin: "Iterations params \<noteq> RunIndefinitely"
    and run: "\<forall>j < unat (Iterations params). testRunning env j"
    and snd: "tester \<longrightarrow> (\<forall>j < unat (Iterations params). \<not> Send_throws env j)"
    and sl: "0 < unat (SendSleep params)"
    and clk: "\<forall>j < unat (Iterations params). unat (GetCurrentTime env j) + unat (SendSleep params) < 2 ^ 64"
    and k: "unat (index st) = k" "k \<le> unat (Iterations params)"
  shows "\<exists>st'. sender_loop env tester params k st = Some (Returned, st') \<and> index st' = Iterations params"
  using k
proof (induction "unat (Iterations params) - k" arbitrary: k st)
  case 0
  then have "\<not> index st < Iterations params" by (simp add: word_less_nat_alt)
  with fin have "sender_loop env tester params k st = Some (Returned, st)"
    by (subst sender_loop.simps) simp
  moreover from 0 have "index st = Iterations params" by (simp add: word_unat_eq_iff)
  ultimately show ?case by simp
next
  case (Suc d)
  let ?N = "Iterations params"
  from Suc have klt: "k < unat ?N" by simp
  with Suc have lt: "index st < ?N" by (simp add: word_less_nat_alt)
  from clk klt have "unat (GetCurrentTime env k) + unat (SendSleep params) < 2 ^ 64" by simp
  from skip_ahead_lands[OF sl this] obtain n where
    n: "next_deadline (GetCurrentTime env k) (SendSleep params) (next_ts st) = Some n"
    unfolding next_deadline_def by blast
  from run snd klt have "testRunning env k" "\<not> (tester \<and> Send_throws env k)" by auto
  from sender_loop_step[OF this(1) lt this(2) n] obtain rt rp where
    step: "sender_loop env tester params k st =
           sender_loop env tester params (Suc k)
             (st\<lparr>recordTime := rt, report := rp, next_ts := n,
                 previous := GetCurrentTime env k, index := index st + 1\<rparr>)"
    by blast
  let ?st3 = "st\<lparr>recordTime := rt, report := rp, next_ts := n,
                 previous := GetCurrentTime env k, index := index st + 1\<rparr>"
  have "unat (index ?st3) = Suc k" using index_step(1)[OF lt] Suc(3) by simp
  moreover have "d = unat ?N - Suc k" using Suc(2) by simp
  moreover have "Suc k \<le> unat ?N" using klt by simp
  ultimately obtain st' where
    st': "sender_loop env tester params (Suc k) ?st3 = Some (Returned, st')" "index st' = ?N"
    using Suc(1) by blast
  with step show ?case by simp
qed

subsection \<open>C2: the first and the last iteration are not recorded\<close>

text \<open>
  C2. Let the iteration count \<open>N = Iterations params\<close> be finite (not \<open>RunIndefinitely\<close>) and
  at least 2. Whenever the sender thread returns after a complete run, that is with
  \<open>index = N\<close>, the indices passed to \<^verbatim>\<open>AddObservation\<close> are exactly \<open>1, \<dots>, N - 2\<close> in this
  order, so \<open>N - 2\<close> samples were recorded. Such a run exists: when the thread could be
  configured, the flag \<^verbatim>\<open>testRunning\<close> stays set and \<^verbatim>\<open>Send\<close> does not throw during the \<open>N\<close>
  iterations, the period is positive and no clock reading is within one period of the end
  of the \<^verbatim>\<open>uint64_t\<close> range, the thread returns with \<open>index = N\<close>.
\<close>

theorem first_last_exclusion:
  "(Iterations params \<noteq> RunIndefinitely \<and> 2 \<le> unat (Iterations params)
      \<and> SenderThread env tester params = Some (Returned, st')
      \<and> index st' = Iterations params \<longrightarrow>
        map (unat \<circ> snd) (report st') = [1..<unat (Iterations params) - 1]
        \<and> length (report st') = unat (Iterations params) - 2)
   \<and> (Iterations params \<noteq> RunIndefinitely \<and> configure_ok env
        \<and> (\<forall>j < unat (Iterations params). testRunning env j)
        \<and> (tester \<longrightarrow> (\<forall>j < unat (Iterations params). \<not> Send_throws env j))
        \<and> 0 < unat (SendSleep params)
        \<and> (\<forall>j < unat (Iterations params).
              unat (GetCurrentTime env j) + unat (SendSleep params) < 2 ^ 64) \<longrightarrow>
        (\<exists>st'. SenderThread env tester params = Some (Returned, st')
               \<and> index st' = Iterations params))"
proof (intro conjI impI)
  assume a: "Iterations params \<noteq> RunIndefinitely \<and> 2 \<le> unat (Iterations params)
      \<and> SenderThread env tester params = Some (Returned, st')
      \<and> index st' = Iterations params"
  let ?st0 = "\<lparr>recordTime = True, index = 0, next_ts = clock_gettime env, previous = 0, report = []\<rparr>"
  have "sender_loop env tester params 0 ?st0 = Some (Returned, st')"
  proof (cases "configure_ok env")
    case True
    with a show ?thesis by (simp add: SenderThread_def)
  next
    case False
    with a have "st' = ?st0" by (simp add: SenderThread_def)
    with a have "Iterations params = 0" by simp
    with a show ?thesis by simp
  qed
  from sender_loop_records[OF this] a
  have "map (unat \<circ> snd) (report st') =
      filter (\<lambda>i. i \<noteq> 0 \<and> i \<noteq> unat (Iterations params) - 1) [0..<unat (Iterations params)]"
    by simp
  also from a have "\<dots> = [1..<unat (Iterations params) - 1]"
    by (intro upt_drop_ends) simp
  finally show m: "map (unat \<circ> snd) (report st') = [1..<unat (Iterations params) - 1]" .
  have "length (report st') = length (map (unat \<circ> snd) (report st'))" by simp
  also have "\<dots> = unat (Iterations params) - 2" unfolding m by simp
  finally show "length (report st') = unat (Iterations params) - 2" .
next
  assume b: "Iterations params \<noteq> RunIndefinitely \<and> configure_ok env
        \<and> (\<forall>j < unat (Iterations params). testRunning env j)
        \<and> (tester \<longrightarrow> (\<forall>j < unat (Iterations params). \<not> Send_throws env j))
        \<and> 0 < unat (SendSleep params)
        \<and> (\<forall>j < unat (Iterations params).
              unat (GetCurrentTime env j) + unat (SendSleep params) < 2 ^ 64)"
  let ?st0 = "\<lparr>recordTime = True, index = 0, next_ts = clock_gettime env, previous = 0, report = []\<rparr>"
  have "\<exists>st'. sender_loop env tester params 0 ?st0 = Some (Returned, st') \<and> index st' = Iterations params"
    by (rule sender_loop_completes) (use b in simp_all)
  with b show "\<exists>st'. SenderThread env tester params = Some (Returned, st')
               \<and> index st' = Iterations params"
    by (simp add: SenderThread_def)
qed

text \<open>A run of five iterations in cyclic mode (no tester) with a period of 1000 ns and the
  clock read 5 ns after each grid point: the samples are those of the iterations 1, 2, 3.\<close>

theorem first_last_exclusion_witness:
  "(5::uint64_t) \<noteq> RunIndefinitely \<and> 2 \<le> unat (5::uint64_t)
   \<and> SenderThread
        \<lparr>configure_ok = True, testRunning = (\<lambda>k. True), Send_throws = (\<lambda>k. False),
         GetCurrentTime = (\<lambda>k. of_nat (1000 * k + 5)),
         clock_gettime = \<lparr>tv_sec = 0, tv_nsec = 0\<rparr>\<rparr>
        False
        \<lparr>NicName = ''NoNicSelected'', Iterations = 5, SendSleep = 1000, SendPriority = 42,
         ReceivePriority = 45, SendCpu = 3, ReceiveCpu = 3, IsVerbose = False, BucketWidth = 125\<rparr>
      = Some (Returned,
          \<lparr>recordTime = False, index = 5, next_ts = \<lparr>tv_sec = 0, tv_nsec = 5000\<rparr>,
           previous = 4005, report = [(1000, 1), (1000, 2), (1000, 3)]\<rparr>)
   \<and> map (unat \<circ> snd) [(1000::uint64_t, 1::uint64_t), (1000, 2), (1000, 3)] = [1..<unat (5::uint64_t) - 1]
   \<and> length [(1000::uint64_t, 1::uint64_t), (1000, 2), (1000, 3)] = unat (5::uint64_t) - 2"
proof -
  let ?env = "\<lparr>configure_ok = True, testRunning = (\<lambda>k. True), Send_throws = (\<lambda>k. False),
         GetCurrentTime = (\<lambda>k. of_nat (1000 * k + 5)),
         clock_gettime = \<lparr>tv_sec = 0, tv_nsec = 0\<rparr>\<rparr>"
  let ?params = "\<lparr>NicName = ''NoNicSelected'', Iterations = 5, SendSleep = 1000, SendPriority = 42,
         ReceivePriority = 45, SendCpu = 3, ReceiveCpu = 3, IsVerbose = False, BucketWidth = 125\<rparr>"
  let ?st = "\<lparr>recordTime = False, index = 5, next_ts = \<lparr>tv_sec = 0, tv_nsec = 5000\<rparr>,
           previous = 4005, report = [(1000, 1), (1000, 2), (1000, 3)]\<rparr>"
  have run: "SenderThread ?env False ?params = Some (Returned, ?st)"
    by (simp add: SenderThread_def sender_loop.simps next_deadline_def skip_ahead.simps
        ToEpoch_def AddNanoToTimespec_def NanoPerSec_def RunIndefinitely_def)
  have fin: "(5::uint64_t) \<noteq> RunIndefinitely" "2 \<le> unat (5::uint64_t)"
    by (simp_all add: RunIndefinitely_def)
  from first_last_exclusion[of ?params ?env False ?st] run fin
  have "map (unat \<circ> snd) (report ?st) = [1..<unat (5::uint64_t) - 1]
        \<and> length (report ?st) = unat (5::uint64_t) - 2"
    by simp
  with run fin show ?thesis by simp
qed

subsection \<open>C1: sender catch-up\<close>

text \<open>
  C1 (as amended). Let the period \<open>sleep\<close> (\<^verbatim>\<open>params.SendSleep\<close>, in nanoseconds) be positive and let neither the wake time
  \<open>current\<close> nor the prior deadline \<open>next\<close> be within one period of the end of the \<^verbatim>\<open>uint64_t\<close>
  range. Then the deadline computation of the sender returns, and the deadline is the prior
  deadline advanced \<open>k\<close> times by \<open>sleep\<close> for some \<open>k \<ge> 1\<close>: it lies exactly
  \<open>k * sleep\<close> nanoseconds after the prior deadline, it is not before \<open>current\<close>, and when
  \<open>k > 1\<close> the grid point before it is strictly before \<open>current\<close>; so it is the first grid
  point after the prior deadline that is not in the past. In particular, for a period of
  1 ms, any prior deadline whose epoch value is 1 ms and a wake at 5.3 ms the deadline is
  6 ms.
\<close>

theorem sender_catch_up:
  "(0 < unat sleep \<and> unat current + unat sleep < 2 ^ 64
      \<and> unat (ToEpoch next) + unat sleep < 2 ^ 64 \<longrightarrow>
      (\<exists>k r. next_deadline current sleep next = Some r \<and> 1 \<le> k
         \<and> r = ((\<lambda>t. AddNanoToTimespec t sleep) ^^ k) next
         \<and> unat (ToEpoch r) = unat (ToEpoch next) + k * unat sleep
         \<and> unat current \<le> unat (ToEpoch r)
         \<and> (1 < k \<longrightarrow> unat (ToEpoch next) + (k - 1) * unat sleep < unat current)))
   \<and> (ToEpoch next = 1000000 \<longrightarrow>
        next_deadline 5300000 1000000 next = Some \<lparr>tv_sec = 0, tv_nsec = 6000000\<rparr>)"
proof (intro conjI impI)
  assume "0 < unat sleep \<and> unat current + unat sleep < 2 ^ 64
      \<and> unat (ToEpoch next) + unat sleep < 2 ^ 64"
  then show "\<exists>k r. next_deadline current sleep next = Some r \<and> 1 \<le> k
         \<and> r = ((\<lambda>t. AddNanoToTimespec t sleep) ^^ k) next
         \<and> unat (ToEpoch r) = unat (ToEpoch next) + k * unat sleep
         \<and> unat current \<le> unat (ToEpoch r)
         \<and> (1 < k \<longrightarrow> unat (ToEpoch next) + (k - 1) * unat sleep < unat current)"
    using next_deadline_lands[of sleep current "next"] by blast
next
  assume e: "ToEpoch next = 1000000"
  have step: "AddNanoToTimespec t 1000000 = \<lparr>tv_sec = 0, tv_nsec = m + 1000000\<rparr>"
    if "ToEpoch t = m" and "unat m + 1000000 < 1000000000" for t :: timespec and m
  proof -
    from that(2) have u: "unat (m + 1000000) = unat m + 1000000"
      using unat_step[of m 1000000] by simp
    with that(2) have "m + 1000000 < NanoPerSec"
      by (simp add: word_less_nat_alt NanoPerSec_def)
    then have "(m + 1000000) div NanoPerSec = 0" "(m + 1000000) mod NanoPerSec = m + 1000000"
      by (simp_all add: div_word_less mod_word_less)
    with that(1) show ?thesis by (simp add: AddNano_fields)
  qed
  have t2: "AddNanoToTimespec next 1000000 = \<lparr>tv_sec = 0, tv_nsec = 2000000\<rparr>"
    using step[OF e] by simp
  have ep: "ToEpoch \<lparr>tv_sec = 0, tv_nsec = m\<rparr> = m" for m
    by (simp add: ToEpoch_def)
  have s: "skip_ahead 5300000 1000000 \<lparr>tv_sec = 0, tv_nsec = 2000000\<rparr>
             = Some \<lparr>tv_sec = 0, tv_nsec = 6000000\<rparr>"
    by (simp add: skip_ahead.simps ToEpoch_def AddNanoToTimespec_def NanoPerSec_def)
  show "next_deadline 5300000 1000000 next = Some \<lparr>tv_sec = 0, tv_nsec = 6000000\<rparr>"
    by (simp add: next_deadline_def t2 s)
qed

theorem sender_catch_up_witness:
  "0 < unat (1000000::uint64_t) \<and> unat (5300000::uint64_t) + unat (1000000::uint64_t) < 2 ^ 64
   \<and> unat (ToEpoch \<lparr>tv_sec = 0, tv_nsec = 1000000\<rparr>) + unat (1000000::uint64_t) < 2 ^ 64
   \<and> ToEpoch \<lparr>tv_sec = 0, tv_nsec = 1000000\<rparr> = 1000000
   \<and> next_deadline 5300000 1000000 \<lparr>tv_sec = 0, tv_nsec = 1000000\<rparr>
       = Some \<lparr>tv_sec = 0, tv_nsec = 6000000\<rparr>"
  using sender_catch_up[of 1000000 5300000 "\<lparr>tv_sec = 0, tv_nsec = 1000000\<rparr>"]
  by (simp add: ToEpoch_def)

text \<open>
  The claim as stated fails when the arithmetic wraps. With a period of
  18446744073709551000 ns (the command line value 18446744073709551 microseconds times
  \<open>NanoPerMicro\<close>), a prior deadline of 1000 ns and a wake at 1500 ns, the first advance
  wraps to 384 ns, the loop advances once more, and the deadline is 616 ns earlier than one
  period after the prior deadline: it is not on the grid.
\<close>

theorem sender_catch_up_counterexample:
  "next_deadline 1500 (18446744073709551 * NanoPerMicro) \<lparr>tv_sec = 0, tv_nsec = 1000\<rparr>
     = Some \<lparr>tv_sec = 18446744073, tv_nsec = 709551384\<rparr>
   \<and> unat (ToEpoch \<lparr>tv_sec = 18446744073, tv_nsec = 709551384\<rparr>)
       < unat (ToEpoch \<lparr>tv_sec = 0, tv_nsec = 1000\<rparr>) + unat (18446744073709551 * NanoPerMicro)"
  by (simp add: next_deadline_def skip_ahead.simps ToEpoch_def AddNanoToTimespec_def
      NanoPerSec_def NanoPerMicro_def)

subsection \<open>C9: the deadline never moves backwards\<close>

text \<open>
  C9 (as amended). An update of the deadline by \<^verbatim>\<open>AddNanoToTimespec\<close> that does not leave the
  \<^verbatim>\<open>uint64_t\<close> range adds exactly \<open>sleep\<close> to its epoch value, the division into
  \<open>tv_sec\<close> and \<open>tv_nsec\<close> included, so the new value is not smaller than the old one. Under
  \<open>sleep > 0\<close> (the period \<^verbatim>\<open>send_sleep_ns\<close>), when neither the wake time nor the prior deadline is within one period of
  the end of the range, every update made in one iteration of the sender loop (the first
  advance and each round of the catch-up loop) is of that kind: the successive values of
  \<open>next\<close> are non-decreasing and the deadline of the iteration is later than the prior one.
\<close>

theorem deadline_monotone:
  "(unat (ToEpoch next) + unat sleep < 2 ^ 64 \<longrightarrow>
      ToEpoch next \<le> ToEpoch (AddNanoToTimespec next sleep)
      \<and> unat (ToEpoch (AddNanoToTimespec next sleep)) = unat (ToEpoch next) + unat sleep
      \<and> tv_nsec (AddNanoToTimespec next sleep) < NanoPerSec)
   \<and> (0 < unat sleep \<and> unat current + unat sleep < 2 ^ 64
        \<and> unat (ToEpoch next) + unat sleep < 2 ^ 64 \<longrightarrow>
      (\<exists>k r. next_deadline current sleep next = Some r
         \<and> r = ((\<lambda>t. AddNanoToTimespec t sleep) ^^ k) next
         \<and> (\<forall>j<k. ToEpoch (((\<lambda>t. AddNanoToTimespec t sleep) ^^ j) next)
                   \<le> ToEpoch (((\<lambda>t. AddNanoToTimespec t sleep) ^^ Suc j) next))
         \<and> ToEpoch next < ToEpoch r))"
proof (intro conjI impI)
  assume a: "unat (ToEpoch next) + unat sleep < 2 ^ 64"
  then show u: "unat (ToEpoch (AddNanoToTimespec next sleep)) = unat (ToEpoch next) + unat sleep"
    by (simp add: ToEpoch_AddNano unat_step)
  then show "ToEpoch next \<le> ToEpoch (AddNanoToTimespec next sleep)"
    by (simp add: word_le_nat_alt)
  have "(0::uint64_t) < NanoPerSec" by (simp add: NanoPerSec_def)
  then show "tv_nsec (AddNanoToTimespec next sleep) < NanoPerSec"
    by (simp add: AddNano_fields word_mod_less_divisor)
next
  assume "0 < unat sleep \<and> unat current + unat sleep < 2 ^ 64
        \<and> unat (ToEpoch next) + unat sleep < 2 ^ 64"
  then obtain k r where
    r: "next_deadline current sleep next = Some r" "1 \<le> k"
       "r = ((\<lambda>t. AddNanoToTimespec t sleep) ^^ k) next"
       "unat (ToEpoch r) = unat (ToEpoch next) + k * unat sleep"
    and sl: "0 < unat sleep"
    using next_deadline_lands[of sleep current "next"] by blast
  have "unat (ToEpoch r) < 2 ^ 64" using unsigned_less[of "ToEpoch r"] by simp
  with r(4) have bound: "unat (ToEpoch next) + k * unat sleep < 2 ^ 64" by simp
  have mono: "ToEpoch (((\<lambda>t. AddNanoToTimespec t sleep) ^^ j) next)
                   \<le> ToEpoch (((\<lambda>t. AddNanoToTimespec t sleep) ^^ Suc j) next)" if "j < k" for j
  proof -
    from that have "j \<le> k" "Suc j \<le> k" by simp_all
    from unat_ToEpoch_funpow[OF bound this(1)] unat_ToEpoch_funpow[OF bound this(2)]
    show ?thesis unfolding word_le_nat_alt by simp
  qed
  from r(2) sl have "unat sleep \<le> k * unat sleep" by simp
  with sl r(4) have "unat (ToEpoch next) < unat (ToEpoch r)" by linarith
  then have "ToEpoch next < ToEpoch r" by (simp add: word_less_nat_alt)
  with r(1,3) mono
  show "\<exists>k r. next_deadline current sleep next = Some r
         \<and> r = ((\<lambda>t. AddNanoToTimespec t sleep) ^^ k) next
         \<and> (\<forall>j<k. ToEpoch (((\<lambda>t. AddNanoToTimespec t sleep) ^^ j) next)
                   \<le> ToEpoch (((\<lambda>t. AddNanoToTimespec t sleep) ^^ Suc j) next))
         \<and> ToEpoch next < ToEpoch r"
    by blast
qed

theorem deadline_monotone_witness:
  "unat (ToEpoch \<lparr>tv_sec = 7, tv_nsec = 999500000\<rparr>) + unat (1000000::uint64_t) < 2 ^ 64
   \<and> ToEpoch \<lparr>tv_sec = 7, tv_nsec = 999500000\<rparr>
       \<le> ToEpoch (AddNanoToTimespec \<lparr>tv_sec = 7, tv_nsec = 999500000\<rparr> 1000000)
   \<and> unat (ToEpoch (AddNanoToTimespec \<lparr>tv_sec = 7, tv_nsec = 999500000\<rparr> 1000000)) = 8000500000
   \<and> tv_nsec (AddNanoToTimespec \<lparr>tv_sec = 7, tv_nsec = 999500000\<rparr> 1000000) < NanoPerSec"
  using deadline_monotone[of "\<lparr>tv_sec = 7, tv_nsec = 999500000\<rparr>" 1000000]
  by (simp add: ToEpoch_def NanoPerSec_def)

text \<open>
  The claim as stated fails when the sum leaves the range: for a deadline of 1000 ns and
  the positive period 18446744073709551000 ns the updated deadline is 384 ns.
\<close>

theorem deadline_monotone_counterexample:
  "0 < 18446744073709551 * NanoPerMicro
   \<and> ToEpoch \<lparr>tv_sec = 0, tv_nsec = 1000\<rparr> = 1000
   \<and> AddNanoToTimespec \<lparr>tv_sec = 0, tv_nsec = 1000\<rparr> (18446744073709551 * NanoPerMicro)
       = \<lparr>tv_sec = 0, tv_nsec = 384\<rparr>
   \<and> \<not> ToEpoch \<lparr>tv_sec = 0, tv_nsec = 1000\<rparr>
         \<le> ToEpoch (AddNanoToTimespec \<lparr>tv_sec = 0, tv_nsec = 1000\<rparr> (18446744073709551 * NanoPerMicro))"
  by (simp add: ToEpoch_def AddNanoToTimespec_def NanoPerSec_def NanoPerMicro_def)

section \<open>Properties of the CPU-list parser and of the command line lookup\<close>

subsection \<open>Ordered sets and the range loop\<close>






subsection \<open>One token, then all of them\<close>



lemmas cpu_list_eval =
  ParseCpuList_def Trim_def isspace_def getline_all_def parse_token_def find_char_def
  stoi_def strtol_prefix_def isdigit_def dec_value_def digit_val_def INT_MIN_def INT_MAX_def
  insert_range.simps set_insert_def

subsection \<open>The command line scan\<close>

lemma find_char_None_iff: "find_char ch s = None \<longleftrightarrow> ch \<notin> set s"
  by (simp add: find_char_def)

lemma find_char_Some:
  assumes "find_char ch s = Some n"
  shows "take n s = takeWhile (\<lambda>x. x \<noteq> ch) s" and "drop n s = ch # drop (n + 1) s"
proof -
  from assms have mem: "ch \<in> set s" and n: "n = length (takeWhile (\<lambda>x. x \<noteq> ch) s)"
    by (auto simp: find_char_def split: if_splits)
  have "s = takeWhile (\<lambda>x. x \<noteq> ch) s @ dropWhile (\<lambda>x. x \<noteq> ch) s" by simp
  then show t: "take n s = takeWhile (\<lambda>x. x \<noteq> ch) s"
    unfolding n by (metis append_eq_conv_conj)
  have d: "drop n s = dropWhile (\<lambda>x. x \<noteq> ch) s"
    unfolding n by (metis append_eq_conv_conj takeWhile_dropWhile_id)
  from mem have "dropWhile (\<lambda>x. x \<noteq> ch) s \<noteq> []" by (simp add: dropWhile_eq_Nil_conv)
  then obtain y ys where y: "dropWhile (\<lambda>x. x \<noteq> ch) s = y # ys" by (cases "dropWhile (\<lambda>x. x \<noteq> ch) s") auto
  then have "y = ch" using hd_dropWhile[of "\<lambda>x. x \<noteq> ch" s] by auto
  with y d have "drop n s = ch # ys" by simp
  moreover from this have "drop (n + 1) s = ys"
    by (metis Suc_eq_plus1 drop_Suc list.sel(3) tl_drop)
  ultimately show "drop n s = ch # drop (n + 1) s" by simp
qed

lemma scan_cmdline_spec:
  assumes "CHR ''='' \<notin> set key"
  shows "scan_cmdline key toks = cmdline_param_spec key toks"
proof (induction toks)
  case Nil
  show ?case by (simp add: cmdline_param_spec_def)
next
  case (Cons tok toks)
  show ?case
  proof (cases "find_char CHR ''='' tok")
    case None
    then have "CHR ''='' \<notin> set tok" by (simp add: find_char_None_iff)
    then have "\<not> prefix (key @ ''='') tok" by (auto simp: prefix_def)
    with None Cons show ?thesis
      by (simp add: cmdline_param_spec_def starts_with_def)
  next
    case (Some eq)
    note fc = find_char_Some[OF Some]
    from Some have mem: "CHR ''='' \<in> set tok" by (auto simp: find_char_def split: if_splits)
    with assms have ne: "tok \<noteq> key" by auto
    have tok: "tok = take eq tok @ CHR ''='' # drop (eq + 1) tok"
      using fc(2) by (metis append_take_drop_id)
    show ?thesis
    proof (cases "take eq tok = key")
      case True
      with tok have t: "tok = key @ CHR ''='' # drop (eq + 1) tok" by simp
      then have p: "prefix (key @ ''='') tok" by (metis append.assoc append_Cons append_Nil prefixI)
      from t have "drop (length key + 1) tok = drop (eq + 1) tok"
        by (metis append_eq_conv_conj fc(2) tl_drop drop_Suc Suc_eq_plus1)
      with Some True p ne show ?thesis
        by (simp add: cmdline_param_spec_def starts_with_def)
    next
      case False
      have "\<not> prefix (key @ ''='') tok"
      proof
        assume "prefix (key @ ''='') tok"
        then obtain r where "tok = key @ CHR ''='' # r" by (auto simp: prefix_def)
        moreover from assms have "\<And>x. x \<in> set key \<Longrightarrow> x \<noteq> CHR ''=''" by auto
        ultimately have "takeWhile (\<lambda>x. x \<noteq> CHR ''='') tok = key"
          by (simp add: takeWhile_append2)
        with fc(1) False show False by simp
      qed
      with Some False ne Cons show ?thesis
        by (simp add: cmdline_param_spec_def starts_with_def)
    qed
  qed
qed

lemma ws_acc_tokens:
  assumes "\<forall>ch \<in> set cur. \<not> isspace ch"
  shows "concat (ws_acc cur s) = rev cur @ filter (\<lambda>ch. \<not> isspace ch) s
         \<and> (\<forall>tok \<in> set (ws_acc cur s). tok \<noteq> [] \<and> (\<forall>ch \<in> set tok. \<not> isspace ch))"
  using assms
proof (induction s arbitrary: cur)
  case Nil
  then show ?case by simp
next
  case (Cons x s)
  show ?case
  proof (cases "isspace x")
    case True
    have "\<forall>ch \<in> set ([]::string). \<not> isspace ch" by simp
    from Cons.IH[OF this] True Cons.prems show ?thesis by simp
  next
    case False
    with Cons.prems have "\<forall>ch \<in> set (x # cur). \<not> isspace ch" by simp
    from Cons.IH[OF this] False show ?thesis by simp
  qed
qed

subsection \<open>C3: the CPU-list parser\<close>




subsection \<open>C8: the command line lookup\<close>

text \<open>
  C8 (as amended). For every key that contains no \<^verbatim>\<open>=\<close>, \<^verbatim>\<open>GetCmdLineParam\<close> splits the kernel
  command line into its whitespace-separated tokens (the maximal runs of non-whitespace
  characters, in order) and, scanning them in order, returns the empty string if the first
  token that equals the key or starts with \<^verbatim>\<open>key=\<close> equals the key, what follows the \<^verbatim>\<open>=\<close> if
  that token starts with \<^verbatim>\<open>key=\<close>, and nothing if there is no such token or the command line
  cannot be read. In particular on \<^verbatim>\<open>"a foo=bar baz"\<close> the key \<^verbatim>\<open>foo\<close> yields \<^verbatim>\<open>bar\<close>, on
  \<^verbatim>\<open>"a foo baz"\<close> the empty string, and on \<^verbatim>\<open>"a bar"\<close> nothing.
\<close>

theorem cmdline_param_contract:
  "(CHR ''='' \<notin> set key \<longrightarrow>
      GetCmdLineParam files key =
        (case files ''/proc/cmdline'' of
           None \<Rightarrow> None
         | Some cmd \<Rightarrow> cmdline_param_spec key (ws_tokens cmd)))
   \<and> concat (ws_tokens cmd) = filter (\<lambda>ch. \<not> isspace ch) cmd
   \<and> (\<forall>tok \<in> set (ws_tokens cmd). tok \<noteq> [] \<and> (\<forall>ch \<in> set tok. \<not> isspace ch))
   \<and> GetCmdLineParam (\<lambda>p. if p = ''/proc/cmdline'' then Some ''a foo=bar baz'' else None) ''foo''
       = Some ''bar''
   \<and> GetCmdLineParam (\<lambda>p. if p = ''/proc/cmdline'' then Some ''a foo baz'' else None) ''foo''
       = Some ''''
   \<and> GetCmdLineParam (\<lambda>p. if p = ''/proc/cmdline'' then Some ''a bar'' else None) ''foo''
       = None"
proof -
  have g: "CHR ''='' \<notin> set key \<longrightarrow>
      GetCmdLineParam files key =
        (case files ''/proc/cmdline'' of
           None \<Rightarrow> None
         | Some cmd \<Rightarrow> cmdline_param_spec key (ws_tokens cmd))"
    by (simp add: GetCmdLineParam_def ReadCmdLine_def scan_cmdline_spec split: option.splits)
  have w: "concat (ws_tokens cmd) = filter (\<lambda>ch. \<not> isspace ch) cmd
      \<and> (\<forall>tok \<in> set (ws_tokens cmd). tok \<noteq> [] \<and> (\<forall>ch \<in> set tok. \<not> isspace ch))"
    using ws_acc_tokens[of "[]" cmd] by (simp add: ws_tokens_def)
  have e: "GetCmdLineParam (\<lambda>p. if p = ''/proc/cmdline'' then Some ''a foo=bar baz'' else None) ''foo''
       = Some ''bar''"
    "GetCmdLineParam (\<lambda>p. if p = ''/proc/cmdline'' then Some ''a foo baz'' else None) ''foo''
       = Some ''''"
    "GetCmdLineParam (\<lambda>p. if p = ''/proc/cmdline'' then Some ''a bar'' else None) ''foo''
       = None"
    by (simp_all add: GetCmdLineParam_def ReadCmdLine_def ws_tokens_def isspace_def find_char_def)
  from g w e show ?thesis by blast
qed

theorem cmdline_param_contract_witness:
  "CHR ''='' \<notin> set ''nohz_full''
   \<and> ws_tokens ''ro  quiet nohz_full=2-3 nohz_full=7'' = [''ro'', ''quiet'', ''nohz_full=2-3'', ''nohz_full=7'']
   \<and> cmdline_param_spec ''nohz_full'' [''ro'', ''quiet'', ''nohz_full=2-3'', ''nohz_full=7''] = Some ''2-3''
   \<and> GetCmdLineParam
        (\<lambda>p. if p = ''/proc/cmdline'' then Some ''ro  quiet nohz_full=2-3 nohz_full=7'' else None)
        ''nohz_full'' = Some ''2-3''"
proof -
  have k: "CHR ''='' \<notin> set ''nohz_full''" by simp
  have t: "ws_tokens ''ro  quiet nohz_full=2-3 nohz_full=7'' = [''ro'', ''quiet'', ''nohz_full=2-3'', ''nohz_full=7'']"
    by (simp add: ws_tokens_def isspace_def)
  have s: "cmdline_param_spec ''nohz_full'' [''ro'', ''quiet'', ''nohz_full=2-3'', ''nohz_full=7''] = Some ''2-3''"
    by (simp add: cmdline_param_spec_def starts_with_def)
  from cmdline_param_contract[of "''nohz_full''"
      "\<lambda>p. if p = ''/proc/cmdline'' then Some ''ro  quiet nohz_full=2-3 nohz_full=7'' else None"]
    k t s
  show ?thesis by simp
qed

text \<open>
  The claim as stated fails for a key that contains \<^verbatim>\<open>=\<close>: the source compares the key with
  the part of a token before its first \<^verbatim>\<open>=\<close>, so a token equal to the key \<^verbatim>\<open>a=b\<close>, or starting
  with \<^verbatim>\<open>a=b=\<close>, is not found.
\<close>

theorem cmdline_param_contract_counterexample:
  "ws_tokens ''x a=b a=b=c'' = [''x'', ''a=b'', ''a=b=c'']
   \<and> cmdline_param_spec ''a=b'' [''x'', ''a=b'', ''a=b=c''] = Some ''''
   \<and> GetCmdLineParam (\<lambda>p. if p = ''/proc/cmdline'' then Some ''x a=b a=b=c'' else None) ''a=b''
       = None"
  by (simp add: GetCmdLineParam_def ReadCmdLine_def ws_tokens_def isspace_def find_char_def
      cmdline_param_spec_def starts_with_def)

section \<open>Properties of the check catalog\<close>

subsection \<open>Evaluating the models on given inputs\<close>

lemmas string_eval =
  Trim_def isspace_def isdigit_def find_char_def getline_all_def ws_tokens_def token_rests_def
  contains_def starts_with_def to_string_def dec_digits.simps or_empty_def

lemmas number_eval =
  stoi_def stoll_def strtol_prefix_def dec_value_def digit_val_def INT_MIN_def INT_MAX_def
  LLONG_MIN_def LLONG_MAX_def

subsection \<open>C4: the isolation check on CPU0\<close>

text \<open>
  C4 (as amended). For every data source and every context whose cpu subject is 0:
  when \<^verbatim>\<open>/sys/devices/system/cpu/isolated\<close> is not readable the check returns \<open>Unknown\<close> with
  reason "no /sys/.../isolated"; when it is readable (and its list expands without
  overflow) the check returns \<open>Fail\<close>, with reason "CPU0 selected; choose non-CPU0" when
  CPU0 is not in the isolated list and "CPU0 is isolated but should not be your RT core"
  when it is. So on CPU0 the status is \<open>Fail\<close> regardless of the contents of a readable list,
  but neither the reason nor the status is independent of the file.
\<close>

theorem CoreIsolated_cpu0:
  "cpu checkContext = Some 0 \<longrightarrow>
     (Read dataSource ''/sys/devices/system/cpu/isolated'' = None \<longrightarrow>
        CoreIsolatedCheck_Evaluate checkContext dataSource
          = Some (Result CoreIsolated Unknown CoreIsolated_Name ''no /sys/.../isolated''))
     \<and> (\<forall>s cpus. Read dataSource ''/sys/devices/system/cpu/isolated'' = Some s
            \<and> ParseCpuList (Trim s) = Some cpus \<longrightarrow>
          CoreIsolatedCheck_Evaluate checkContext dataSource
            = Some (Result CoreIsolated Fail CoreIsolated_Name
                (if 0 \<in> set cpus then ''CPU0 is isolated but should not be your RT core''
                 else ''CPU0 selected; choose non-CPU0'')))"
  by (auto simp: CoreIsolatedCheck_Evaluate_def Let_def set_count_def)

theorem CoreIsolated_cpu0_witness:
  "cpu \<lparr>cpu = Some 0, nic = None\<rparr> = Some 0
   \<and> Read \<lparr>Read = [''/sys/devices/system/cpu/isolated'' \<mapsto> ''2-3''], CmdLineParam = Map.empty\<rparr>
       ''/sys/devices/system/cpu/isolated'' = Some ''2-3''
   \<and> ParseCpuList (Trim ''2-3'') = Some [2, 3]
   \<and> CoreIsolatedCheck_Evaluate \<lparr>cpu = Some 0, nic = None\<rparr>
       \<lparr>Read = [''/sys/devices/system/cpu/isolated'' \<mapsto> ''2-3''], CmdLineParam = Map.empty\<rparr>
       = Some (Result CoreIsolated Fail CoreIsolated_Name ''CPU0 selected; choose non-CPU0'')"
proof -
  let ?ctx = "\<lparr>cpu = Some 0, nic = None\<rparr>"
  let ?ds = "\<lparr>Read = [''/sys/devices/system/cpu/isolated'' \<mapsto> ''2-3''], CmdLineParam = Map.empty\<rparr>"
  have p: "ParseCpuList (Trim ''2-3'') = Some [2, 3]" by (simp add: cpu_list_eval)
  from CoreIsolated_cpu0[of ?ctx ?ds] p show ?thesis by simp
qed

text \<open>
  The claim as stated fails in both respects: with the file unreadable the result on CPU0
  is \<open>Unknown\<close>, and with CPU0 in the isolated list the reason is another one.
\<close>

theorem CoreIsolated_cpu0_counterexample:
  "CoreIsolatedCheck_Evaluate \<lparr>cpu = Some 0, nic = None\<rparr> \<lparr>Read = Map.empty, CmdLineParam = Map.empty\<rparr>
     = Some (Result CoreIsolated Unknown CoreIsolated_Name ''no /sys/.../isolated'')
   \<and> CoreIsolatedCheck_Evaluate \<lparr>cpu = Some 0, nic = None\<rparr>
       \<lparr>Read = [''/sys/devices/system/cpu/isolated'' \<mapsto> ''0-3''], CmdLineParam = Map.empty\<rparr>
     = Some (Result CoreIsolated Fail CoreIsolated_Name
         ''CPU0 is isolated but should not be your RT core'')"
  by (simp add: CoreIsolatedCheck_Evaluate_def set_count_def cpu_list_eval)

subsection \<open>C6: the frequency decision rule\<close>

lemma stoll_range: "stoll s = Inr v \<Longrightarrow> LLONG_MIN \<le> v \<and> v \<le> LLONG_MAX"
  by (auto simp: stoll_def split: option.splits if_splits)

lemma read_int64_range: "read_int64 dataSource path = Some v \<Longrightarrow> LLONG_MIN \<le> v \<and> v \<le> LLONG_MAX"
  by (auto simp: read_int64_def dest: stoll_range split: option.splits sum.splits)

lemma div_100_le: "((a::int) \<le> b div 100) = (100 * a \<le> b)"
proof
  assume "a \<le> b div 100"
  then have "100 * a \<le> 100 * (b div 100)" by simp
  also have "\<dots> \<le> 100 * (b div 100) + b mod 100" by simp
  also have "\<dots> = b" by simp
  finally show "100 * a \<le> b" .
next
  assume "100 * a \<le> b"
  then have "(100 * a) div 100 \<le> b div 100" by (intro zdiv_mono1) simp_all
  then show "a \<le> b div 100" by simp
qed

lemma tolerance_exact:
  assumes "0 \<le> mx"
  shows "(\<bar>d\<bar> \<le> cdiv (mx * 5) 100) = (100 * \<bar>d\<bar> \<le> 5 * mx)"
proof -
  have c: "cdiv (mx * 5) 100 = (mx * 5) div 100"
    using assms by (simp add: cdiv_def)
  have "(\<bar>d\<bar> \<le> (mx * 5) div 100) = (100 * \<bar>d\<bar> \<le> mx * 5)" by (rule div_100_le)
  also have "\<dots> = (100 * \<bar>d\<bar> \<le> 5 * mx)" by (simp only: mult.commute)
  finally show ?thesis unfolding c .
qed

lemma current_matches_rule:
  assumes "0 \<le> mx" and "mx * 5 \<le> LLONG_MAX" and "LLONG_MIN < cur - mx" and "cur \<le> LLONG_MAX"
  shows "current_matches cur mx = Some (100 * \<bar>cur - mx\<bar> \<le> 5 * mx)"
proof -
  from assms have "int64_range (mx * 5)" "int64_range (cur - mx)" "cur - mx \<noteq> LLONG_MIN"
    by (simp_all add: int64_range_def LLONG_MIN_def LLONG_MAX_def)
  then show ?thesis
    by (simp add: current_matches_def tolerance_exact[OF assms(1)])
qed

text \<open>
  C6 (as amended). Let the context name the core and let \<open>cur\<close>, \<open>min\<close> and \<open>max\<close> be what
  \<^verbatim>\<open>read_int64\<close> gives for \<^verbatim>\<open>scaling_cur_freq\<close>, \<^verbatim>\<open>scaling_min_freq\<close> and \<^verbatim>\<open>scaling_max_freq\<close>. When
  all three parse, \<open>max\<close> is not negative, \<open>5 * max\<close> fits an \<^verbatim>\<open>int64_t\<close> and \<open>cur - max\<close> is
  above the least \<^verbatim>\<open>int64_t\<close>, the check returns \<open>Pass\<close> exactly when \<open>min = max\<close> and
  \<open>|cur - max| \<le> 5% * max\<close>, and \<open>Fail\<close> otherwise (whether \<open>min = max\<close> with \<open>cur\<close> out of
  tolerance, or \<open>min \<noteq> max\<close>). When one of the three does not parse or is not readable the
  check returns \<open>Unknown\<close>. For \<open>min = max = 2400000\<close> and \<open>cur = 2600000\<close> the tolerance is
  120000, the drift 200000 exceeds it, and the result is \<open>Fail\<close>.
\<close>

theorem CpuFrequency_rule:
  "(cpu checkContext = Some core
      \<and> read_int64 dataSource (''/sys/devices/system/cpu/cpu'' @ to_string core @ ''/cpufreq/'' @ ''scaling_cur_freq'') = Some cur
      \<and> read_int64 dataSource (''/sys/devices/system/cpu/cpu'' @ to_string core @ ''/cpufreq/'' @ ''scaling_min_freq'') = Some mn
      \<and> read_int64 dataSource (''/sys/devices/system/cpu/cpu'' @ to_string core @ ''/cpufreq/'' @ ''scaling_max_freq'') = Some mx
      \<and> 0 \<le> mx \<and> mx * 5 \<le> LLONG_MAX \<and> LLONG_MIN < cur - mx \<longrightarrow>
        (\<exists>r. CpuFrequencyCheck_Evaluate host checkContext dataSource = Some r
              \<and> kind r = CpuFrequency \<and> status r = freq_rule cur mn mx))
   \<and> (cpu checkContext = Some core
        \<and> (read_int64 dataSource (''/sys/devices/system/cpu/cpu'' @ to_string core @ ''/cpufreq/'' @ ''scaling_cur_freq'') = None
           \<or> read_int64 dataSource (''/sys/devices/system/cpu/cpu'' @ to_string core @ ''/cpufreq/'' @ ''scaling_min_freq'') = None
           \<or> read_int64 dataSource (''/sys/devices/system/cpu/cpu'' @ to_string core @ ''/cpufreq/'' @ ''scaling_max_freq'') = None) \<longrightarrow>
        (\<exists>r. CpuFrequencyCheck_Evaluate host checkContext dataSource = Some r
              \<and> kind r = CpuFrequency \<and> status r = Unknown))
   \<and> cdiv (2400000 * 5) 100 = 120000 \<and> \<bar>2600000 - 2400000\<bar> = (200000::int)
   \<and> current_matches 2600000 2400000 = Some False
   \<and> freq_rule 2600000 2400000 2400000 = Fail"
proof (intro conjI impI)
  assume a: "cpu checkContext = Some core
      \<and> read_int64 dataSource (''/sys/devices/system/cpu/cpu'' @ to_string core @ ''/cpufreq/'' @ ''scaling_cur_freq'') = Some cur
      \<and> read_int64 dataSource (''/sys/devices/system/cpu/cpu'' @ to_string core @ ''/cpufreq/'' @ ''scaling_min_freq'') = Some mn
      \<and> read_int64 dataSource (''/sys/devices/system/cpu/cpu'' @ to_string core @ ''/cpufreq/'' @ ''scaling_max_freq'') = Some mx
      \<and> 0 \<le> mx \<and> mx * 5 \<le> LLONG_MAX \<and> LLONG_MIN < cur - mx"
  then have "cur \<le> LLONG_MAX" using read_int64_range by blast
  with a have m: "current_matches cur mx = Some (100 * \<bar>cur - mx\<bar> \<le> 5 * mx)"
    by (intro current_matches_rule) simp_all
  from a m show "\<exists>r. CpuFrequencyCheck_Evaluate host checkContext dataSource = Some r
              \<and> kind r = CpuFrequency \<and> status r = freq_rule cur mn mx"
    by (simp add: CpuFrequencyCheck_Evaluate_def Let_def freq_rule_def)
next
  assume b: "cpu checkContext = Some core
        \<and> (read_int64 dataSource (''/sys/devices/system/cpu/cpu'' @ to_string core @ ''/cpufreq/'' @ ''scaling_cur_freq'') = None
           \<or> read_int64 dataSource (''/sys/devices/system/cpu/cpu'' @ to_string core @ ''/cpufreq/'' @ ''scaling_min_freq'') = None
           \<or> read_int64 dataSource (''/sys/devices/system/cpu/cpu'' @ to_string core @ ''/cpufreq/'' @ ''scaling_max_freq'') = None)"
  then show "\<exists>r. CpuFrequencyCheck_Evaluate host checkContext dataSource = Some r
              \<and> kind r = CpuFrequency \<and> status r = Unknown"
    by (auto simp: CpuFrequencyCheck_Evaluate_def Let_def CpuFrequency_cpuinfo_def
        split: option.splits)
next
  show "cdiv (2400000 * 5) 100 = 120000" by (simp add: cdiv_def)
  show "\<bar>2600000 - 2400000\<bar> = (200000::int)" by simp
  show "current_matches 2600000 2400000 = Some False"
    by (simp add: current_matches_def int64_range_def cdiv_def LLONG_MIN_def LLONG_MAX_def)
  show "freq_rule 2600000 2400000 2400000 = Fail" by (simp add: freq_rule_def)
qed

text \<open>Scenario C of the specification on a stub data source for core 3.\<close>

theorem CpuFrequency_rule_witness:
  "cpu \<lparr>cpu = Some 3, nic = None\<rparr> = Some 3
   \<and> read_int64 \<lparr>Read = [''/sys/devices/system/cpu/cpu3/cpufreq/scaling_cur_freq'' \<mapsto> ''2600000'',
                       ''/sys/devices/system/cpu/cpu3/cpufreq/scaling_min_freq'' \<mapsto> ''2400000'',
                       ''/sys/devices/system/cpu/cpu3/cpufreq/scaling_max_freq'' \<mapsto> ''2400000''],
                CmdLineParam = Map.empty\<rparr>
       ''/sys/devices/system/cpu/cpu3/cpufreq/scaling_cur_freq'' = Some 2600000
   \<and> (0::int) \<le> 2400000 \<and> (2400000::int) * 5 \<le> LLONG_MAX \<and> LLONG_MIN < 2600000 - 2400000
   \<and> (\<exists>r. CpuFrequencyCheck_Evaluate stub_host \<lparr>cpu = Some 3, nic = None\<rparr>
             \<lparr>Read = [''/sys/devices/system/cpu/cpu3/cpufreq/scaling_cur_freq'' \<mapsto> ''2600000'',
                       ''/sys/devices/system/cpu/cpu3/cpufreq/scaling_min_freq'' \<mapsto> ''2400000'',
                       ''/sys/devices/system/cpu/cpu3/cpufreq/scaling_max_freq'' \<mapsto> ''2400000''],
               CmdLineParam = Map.empty\<rparr> = Some r
           \<and> kind r = CpuFrequency \<and> status r = Fail)"
proof -
  let ?ds = "\<lparr>Read = [''/sys/devices/system/cpu/cpu3/cpufreq/scaling_cur_freq'' \<mapsto> ''2600000'',
                       ''/sys/devices/system/cpu/cpu3/cpufreq/scaling_min_freq'' \<mapsto> ''2400000'',
                       ''/sys/devices/system/cpu/cpu3/cpufreq/scaling_max_freq'' \<mapsto> ''2400000''],
                CmdLineParam = Map.empty\<rparr>"
  let ?ctx = "\<lparr>cpu = Some 3, nic = None\<rparr>"
  have ts: "to_string 3 = ''3''" by (simp add: to_string_def dec_digits.simps)
  have r: "read_int64 ?ds ''/sys/devices/system/cpu/cpu3/cpufreq/scaling_cur_freq'' = Some 2600000"
    "read_int64 ?ds ''/sys/devices/system/cpu/cpu3/cpufreq/scaling_min_freq'' = Some 2400000"
    "read_int64 ?ds ''/sys/devices/system/cpu/cpu3/cpufreq/scaling_max_freq'' = Some 2400000"
    by (simp_all add: read_int64_def Trim_def isspace_def isdigit_def number_eval)
  have b: "(0::int) \<le> 2400000" "(2400000::int) * 5 \<le> LLONG_MAX" "LLONG_MIN < 2600000 - 2400000"
    by (simp_all add: LLONG_MIN_def LLONG_MAX_def)
  have c: "cpu ?ctx = Some 3" by simp
  have "\<exists>r. CpuFrequencyCheck_Evaluate stub_host ?ctx ?ds = Some r
           \<and> kind r = CpuFrequency \<and> status r = freq_rule 2600000 2400000 2400000"
    using CpuFrequency_rule[of ?ctx 3 ?ds 2600000 2400000 2400000 stub_host, THEN conjunct1] c r b
    by (simp add: ts)
  then have "\<exists>r. CpuFrequencyCheck_Evaluate stub_host ?ctx ?ds = Some r
           \<and> kind r = CpuFrequency \<and> status r = Fail"
    by (simp add: freq_rule_def)
  with r(1) b show ?thesis by simp
qed

text \<open>
  The claim as stated fails outside these bounds. With the three files reading \<^verbatim>\<open>-1\<close> the
  tolerance is \<open>(-5) / 100 = 0\<close> in C++, the drift 0 is within it and the check passes,
  although 0 is not at most five percent of \<open>-1\<close>. With the three files reading
  2000000000000000000 the product \<open>max * 5\<close> overflows \<^verbatim>\<open>int64_t\<close>: the behaviour is undefined,
  where the claim promises \<open>Pass\<close>.
\<close>

theorem CpuFrequency_rule_counterexample:
  "CpuFrequencyCheck_Evaluate stub_host \<lparr>cpu = Some 3, nic = None\<rparr>
       \<lparr>Read = [''/sys/devices/system/cpu/cpu3/cpufreq/scaling_cur_freq'' \<mapsto> ''-1'',
                 ''/sys/devices/system/cpu/cpu3/cpufreq/scaling_min_freq'' \<mapsto> ''-1'',
                 ''/sys/devices/system/cpu/cpu3/cpufreq/scaling_max_freq'' \<mapsto> ''-1''],
         CmdLineParam = Map.empty\<rparr>
     = Some (Result CpuFrequency Pass CpuFrequency_Name ''-1 kHz (locked)'')
   \<and> freq_rule (- 1) (- 1) (- 1) = Fail
   \<and> CpuFrequencyCheck_Evaluate stub_host \<lparr>cpu = Some 3, nic = None\<rparr>
       \<lparr>Read = [''/sys/devices/system/cpu/cpu3/cpufreq/scaling_cur_freq'' \<mapsto> ''2000000000000000000'',
                 ''/sys/devices/system/cpu/cpu3/cpufreq/scaling_min_freq'' \<mapsto> ''2000000000000000000'',
                 ''/sys/devices/system/cpu/cpu3/cpufreq/scaling_max_freq'' \<mapsto> ''2000000000000000000''],
         CmdLineParam = Map.empty\<rparr>
     = None
   \<and> freq_rule 2000000000000000000 2000000000000000000 2000000000000000000 = Pass"
  by (simp add: CpuFrequencyCheck_Evaluate_def read_int64_def current_matches_def int64_range_def
      cdiv_def freq_rule_def string_eval number_eval)

subsection \<open>C10: the offender filter when no NIC is given\<close>

lemma token_rests_tokens: "map fst (tok_acc cur s) = ws_acc cur s"
  by (induction s arbitrary: cur) simp_all

lemma find_str_empty: "find_str [] s = Some 0"
  by (cases s) simp_all

lemma scan_row_empty_filter:
  "(scan_row cpu_column [] line = Some offender) =
     (\<exists>irq_number v. row_columns cpu_column line = Some (irq_number, v, None) \<and> 0 < v
        \<and> offender = irq_number @ '' (unlabeled)'')"
  by (auto simp: scan_row_def find_str_empty split: option.splits prod.splits)

lemma scan_interrupts_offenders:
  "set (snd (snd (scan_interrupts core nic_filter lines st)))
     \<subseteq> set (snd (snd st))
       \<union> {offender. \<exists>line \<in> set lines. \<exists>cpu_column. scan_row cpu_column nic_filter line = Some offender}"
proof (induction core nic_filter lines st rule: scan_interrupts.induct)
  case (1 core nic_filter st)
  show ?case by simp
next
  case (2 core nic_filter line lines cpu_column header_done offenders)
  show ?case
  proof (cases "line = []")
    case True
    with 2(1) show ?thesis by auto
  next
    case ne: False
    show ?thesis
    proof (cases header_done)
      case False
      show ?thesis
      proof (cases "contains line (CpuPrefix @ ''0'')")
        case True
        with 2(2)[OF ne] False ne show ?thesis by auto
      next
        case nc: False
        with 2(3)[OF ne] False ne show ?thesis by auto
      qed
    next
      case True
      show ?thesis
      proof (cases "scan_row cpu_column nic_filter line")
        case None
        with 2(4)[OF ne] True ne show ?thesis by auto
      next
        case (Some offender)
        with 2(5)[OF ne _ Some] True ne show ?thesis by auto
      qed
    qed
  qed
qed

text \<open>
  C10. With the empty label filter a line adds an offender exactly when it has no label and
  a positive count in the RT core's column, and the offender is then the IRQ number followed
  by "(unlabeled)"; a line with a label never adds one, whatever its count. So when the
  context has a cpu but no NIC and \<^verbatim>\<open>/proc/interrupts\<close> is readable, every offender the check
  collects comes from such an unlabeled line: the check fails only with a non-empty list of
  them, it passes with reason "clean" when there is none, and it is \<open>Unknown\<close> only when the
  column of the core could not be mapped.
\<close>

theorem empty_filter_reports_unlabeled_only:
  "(scan_row cpu_column [] line = Some offender) =
     (\<exists>irq_number v. row_columns cpu_column line = Some (irq_number, v, None) \<and> 0 < v
        \<and> offender = irq_number @ '' (unlabeled)'')
   \<and> (row_columns cpu_column line = Some (irq_number, v, Some label) \<longrightarrow>
        scan_row cpu_column [] line = None)
   \<and> (cpu checkContext = Some core \<and> nic checkContext = None
        \<and> Read dataSource ''/proc/interrupts'' = Some content \<longrightarrow>
        (\<forall>offender \<in> set (snd (snd (scan_interrupts core [] (getline_all CHR 0x0A content) (- 1, False, [])))).
            \<exists>line \<in> set (getline_all CHR 0x0A content). \<exists>cpu_column irq_number v.
               row_columns cpu_column line = Some (irq_number, v, None) \<and> 0 < v
               \<and> offender = irq_number @ '' (unlabeled)'')
        \<and> (status (NoUnrelatedIrqsOnRtCheck_Evaluate checkContext dataSource) = Fail \<longrightarrow>
              snd (snd (scan_interrupts core [] (getline_all CHR 0x0A content) (- 1, False, []))) \<noteq> [])
        \<and> (status (NoUnrelatedIrqsOnRtCheck_Evaluate checkContext dataSource) = Pass \<longrightarrow>
              reason (NoUnrelatedIrqsOnRtCheck_Evaluate checkContext dataSource) = ''clean''
              \<and> snd (snd (scan_interrupts core [] (getline_all CHR 0x0A content) (- 1, False, []))) = [])
        \<and> (status (NoUnrelatedIrqsOnRtCheck_Evaluate checkContext dataSource) = Unknown \<longrightarrow>
              reason (NoUnrelatedIrqsOnRtCheck_Evaluate checkContext dataSource)
                = ''could not map CPU column''))"
proof (intro conjI impI)
  show "(scan_row cpu_column [] line = Some offender) =
     (\<exists>irq_number v. row_columns cpu_column line = Some (irq_number, v, None) \<and> 0 < v
        \<and> offender = irq_number @ '' (unlabeled)'')"
    by (rule scan_row_empty_filter)
next
  assume "row_columns cpu_column line = Some (irq_number, v, Some label)"
  then show "scan_row cpu_column [] line = None"
    by (simp add: scan_row_def find_str_empty)
next
  assume a: "cpu checkContext = Some core \<and> nic checkContext = None
        \<and> Read dataSource ''/proc/interrupts'' = Some content"
  let ?scan = "scan_interrupts core [] (getline_all CHR 0x0A content) (- 1, False, [])"
  obtain col hd offs where sc: "?scan = (col, hd, offs)" by (cases ?scan) auto
  show "\<forall>offender \<in> set (snd (snd ?scan)).
            \<exists>line \<in> set (getline_all CHR 0x0A content). \<exists>cpu_column irq_number v.
               row_columns cpu_column line = Some (irq_number, v, None) \<and> 0 < v
               \<and> offender = irq_number @ '' (unlabeled)''"
  proof
    fix offender assume "offender \<in> set (snd (snd ?scan))"
    with scan_interrupts_offenders[of core "[]" "getline_all CHR 0x0A content" "(- 1, False, [])"]
    obtain line cpu_column where
      "line \<in> set (getline_all CHR 0x0A content)" "scan_row cpu_column [] line = Some offender"
      by auto
    then show "\<exists>line \<in> set (getline_all CHR 0x0A content). \<exists>cpu_column irq_number v.
               row_columns cpu_column line = Some (irq_number, v, None) \<and> 0 < v
               \<and> offender = irq_number @ '' (unlabeled)''"
      unfolding scan_row_empty_filter by blast
  qed
  from a sc have ev: "NoUnrelatedIrqsOnRtCheck_Evaluate checkContext dataSource =
      (if col < 0
       then Result NoUnrelatedIrqsOnRt Unknown NoUnrelatedIrqsOnRt_Name ''could not map CPU column''
       else if offs = []
       then Result NoUnrelatedIrqsOnRt Pass NoUnrelatedIrqsOnRt_Name ''clean''
       else Result NoUnrelatedIrqsOnRt Fail NoUnrelatedIrqsOnRt_Name
              (join '', '' (take MaxIrqsToShow offs)
                 @ (if length offs > MaxIrqsToShow
                    then '', +'' @ to_string (int (length offs - MaxIrqsToShow)) @ '' more''
                    else [])))"
    by (simp add: NoUnrelatedIrqsOnRtCheck_Evaluate_def)
  show "status (NoUnrelatedIrqsOnRtCheck_Evaluate checkContext dataSource) = Fail \<Longrightarrow>
      snd (snd ?scan) \<noteq> []"
    unfolding ev sc by (simp split: if_splits)
  show "reason (NoUnrelatedIrqsOnRtCheck_Evaluate checkContext dataSource) = ''clean''"
    if "status (NoUnrelatedIrqsOnRtCheck_Evaluate checkContext dataSource) = Pass"
    using that unfolding ev by (simp split: if_splits)
  show "snd (snd ?scan) = []"
    if "status (NoUnrelatedIrqsOnRtCheck_Evaluate checkContext dataSource) = Pass"
    using that unfolding ev sc by (simp split: if_splits)
  show "reason (NoUnrelatedIrqsOnRtCheck_Evaluate checkContext dataSource) = ''could not map CPU column''"
    if "status (NoUnrelatedIrqsOnRtCheck_Evaluate checkContext dataSource) = Unknown"
    using that unfolding ev by (simp split: if_splits)
qed

lemmas irq_eval =
  scan_row_def row_columns_def string_eval number_eval CpuPrefix_def MaxIrqsToShow_def

text \<open>A table in which IRQ 1, labelled with a keyboard controller, fired 500 times on core 3
  and the unlabelled IRQ 9 fired 7 times: without a NIC in the context only IRQ 9 is
  reported.\<close>

theorem empty_filter_reports_unlabeled_only_witness:
  "cpu \<lparr>cpu = Some 3, nic = None\<rparr> = Some 3 \<and> nic \<lparr>cpu = Some 3, nic = None\<rparr> = None
   \<and> getline_all CHR 0x0A
        (''     CPU0  CPU1  CPU2  CPU3'' @ [CHR 0x0A]
         @ ''  1:  0  0  0  500  IO-APIC  1-edge  i8042'' @ [CHR 0x0A]
         @ ''  9:  0  0  0  7'' @ [CHR 0x0A])
       = [''     CPU0  CPU1  CPU2  CPU3'', ''  1:  0  0  0  500  IO-APIC  1-edge  i8042'',
          ''  9:  0  0  0  7'']
   \<and> row_columns 3 ''  1:  0  0  0  500  IO-APIC  1-edge  i8042''
       = Some (''1'', 500, Some ''IO-APIC  1-edge  i8042'')
   \<and> scan_row 3 [] ''  1:  0  0  0  500  IO-APIC  1-edge  i8042'' = None
   \<and> row_columns 3 ''  9:  0  0  0  7'' = Some (''9'', 7, None)
   \<and> scan_row 3 [] ''  9:  0  0  0  7'' = Some ''9 (unlabeled)''
   \<and> NoUnrelatedIrqsOnRtCheck_Evaluate \<lparr>cpu = Some 3, nic = None\<rparr>
        \<lparr>Read = [''/proc/interrupts'' \<mapsto>
                   ''     CPU0  CPU1  CPU2  CPU3'' @ [CHR 0x0A]
                   @ ''  1:  0  0  0  500  IO-APIC  1-edge  i8042'' @ [CHR 0x0A]
                   @ ''  9:  0  0  0  7'' @ [CHR 0x0A]],
          CmdLineParam = Map.empty\<rparr>
       = Result NoUnrelatedIrqsOnRt Fail NoUnrelatedIrqsOnRt_Name ''9 (unlabeled)''"
proof -
  let ?row1 = "''  1:  0  0  0  500  IO-APIC  1-edge  i8042''"
  let ?row9 = "''  9:  0  0  0  7''"
  let ?content = "''     CPU0  CPU1  CPU2  CPU3'' @ [CHR 0x0A] @ ?row1 @ [CHR 0x0A] @ ?row9 @ [CHR 0x0A]"
  let ?lines = "[''     CPU0  CPU1  CPU2  CPU3'', ?row1, ?row9]"
  have l: "getline_all CHR 0x0A ?content = ?lines"
    by (simp add: getline_all_def)
  have r1: "row_columns 3 ?row1 = Some (''1'', 500, Some ''IO-APIC  1-edge  i8042'')"
    by (simp add: irq_eval)
  have r9: "row_columns 3 ?row9 = Some (''9'', 7, None)"
    by (simp add: irq_eval)
  have s1: "scan_row 3 [] ?row1 = None"
    using empty_filter_reports_unlabeled_only[of 3 ?row1 _ "''1''" 500 "''IO-APIC  1-edge  i8042''"] r1
    by simp
  have s9: "scan_row 3 [] ?row9 = Some ''9 (unlabeled)''"
    using empty_filter_reports_unlabeled_only[of 3 ?row9 "''9 (unlabeled)''"] r9
    by simp
  have sc: "scan_interrupts 3 [] ?lines (- 1, False, []) = (3, True, [''9 (unlabeled)''])"
    by (simp add: s1 s9 string_eval CpuPrefix_def)
  have ev: "NoUnrelatedIrqsOnRtCheck_Evaluate \<lparr>cpu = Some 3, nic = None\<rparr>
        \<lparr>Read = [''/proc/interrupts'' \<mapsto> ?content], CmdLineParam = Map.empty\<rparr>
       = Result NoUnrelatedIrqsOnRt Fail NoUnrelatedIrqsOnRt_Name ''9 (unlabeled)''"
    using l sc by (simp add: NoUnrelatedIrqsOnRtCheck_Evaluate_def MaxIrqsToShow_def)
  from l r1 r9 s1 s9 ev show ?thesis by simp
qed

subsection \<open>Every result carries the kind of the check that produced it\<close>

lemma kind_simple:
  "kind (PreemptRTActiveCheck_Evaluate host c d) = PreemptRTActive"
  "kind (SwapDisabledCheck_Evaluate c d) = SwapDisabled"
  "kind (TimerMigrationCheck_Evaluate c d) = TimerMigration"
  "kind (RtThrottlingCheck_Evaluate c d) = RtThrottlingDisabled"
  "kind (ClocksourceCheck_Evaluate c d) = ClocksourceStable"
  "kind (CpuGovernorCheck_Evaluate c d) = CpuGovernor"
  "kind (NoUnrelatedIrqsOnRtCheck_Evaluate c d) = NoUnrelatedIrqsOnRt"
  "kind (CStatesCappedCheck_Evaluate c d) = DeepCStatesCapped"
  "kind (TurboPolicyCheck_Evaluate c d) = TurboBoostPolicy"
  "kind (NicPresenceCheck_Evaluate c d) = NicPresent"
  "kind (NicLinkUpCheck_Evaluate c d) = NicLinkUp"
  "kind (RpsDisabledCheck_Evaluate host c d) = RpsDisabled"
  "kind (NicQuietCheck_Evaluate host c d) = NicQuiet"
  by (simp_all add: PreemptRTActiveCheck_Evaluate_def PreemptRT_uname_def
      SwapDisabledCheck_Evaluate_def TimerMigrationCheck_Evaluate_def
      RtThrottlingCheck_Evaluate_def ClocksourceCheck_Evaluate_def CpuGovernorCheck_Evaluate_def
      NoUnrelatedIrqsOnRtCheck_Evaluate_def CStatesCappedCheck_Evaluate_def CStates_params_def
      TurboPolicyCheck_Evaluate_def Turbo_intel_def NicPresenceCheck_Evaluate_def
      NicLinkUpCheck_Evaluate_def NicLinkUp_carrier_def RpsDisabledCheck_Evaluate_def
      NicQuietCheck_Evaluate_def Let_def
      split: option.splits list.splits sum.splits prod.splits)

lemma kind_partial:
  "CoreIsolatedCheck_Evaluate c d = Some r \<Longrightarrow> kind r = CoreIsolated"
  "NohzFullCheck_Evaluate c d = Some r \<Longrightarrow> kind r = NohzFull"
  "RcuNoCbsCheck_Evaluate c d = Some r \<Longrightarrow> kind r = RcuNoCbs"
  "CpuFrequencyCheck_Evaluate host c d = Some r \<Longrightarrow> kind r = CpuFrequency"
  "IrqAffinityDefaultAvoidsRtCheck_Evaluate c d = Some r \<Longrightarrow> kind r = IrqAffinityDefaultAvoidsRt"
  "SmtSiblingIsolatedCheck_Evaluate c d = Some r \<Longrightarrow> kind r = SmtSiblingIsolated"
  "NicIrqsPinnedCheck_Evaluate c d = Some r \<Longrightarrow> kind r = NicIrqsPinned"
  by (auto simp: CoreIsolatedCheck_Evaluate_def NohzFullCheck_Evaluate_def
      RcuNoCbsCheck_Evaluate_def RcuNoCbs_decide_def CpuFrequencyCheck_Evaluate_def
      CpuFrequency_cpuinfo_def IrqAffinityDefaultAvoidsRtCheck_Evaluate_def
      SmtSiblingIsolatedCheck_Evaluate_def NicIrqsPinnedCheck_Evaluate_def Let_def
      split: option.splits if_splits sum.splits bool.splits)

lemma kind_Evaluate: "Evaluate host k c d = Some r \<Longrightarrow> kind r = k"
  by (cases k) (auto simp: Evaluate_def kind_simple kind_partial)

lemma run_checks_kinds:
  "run_checks host c d ks = Some out \<Longrightarrow> printed_kinds out = ks"
proof (induction ks arbitrary: out)
  case Nil
  then show ?case by (simp add: printed_kinds_def map_filter_simps)
next
  case (Cons k ks)
  then obtain r out' where
    r: "Evaluate host k c d = Some r" "run_checks host c d ks = Some out'" "out = Line r # out'"
    by (auto split: option.splits)
  from Cons.IH[OF r(2)] kind_Evaluate[OF r(1)] r(3) show ?case
    by (simp add: printed_kinds_def map_filter_simps)
qed

lemma printed_kinds_append: "printed_kinds (xs @ ys) = printed_kinds xs @ printed_kinds ys"
  by (simp add: printed_kinds_def map_filter_def)

lemma printed_kinds_Cons:
  "printed_kinds (Section t # xs) = printed_kinds xs"
  "printed_kinds (Line r # xs) = kind r # printed_kinds xs"
  "printed_kinds [] = []"
  by (simp_all add: printed_kinds_def map_filter_simps)

lemmas check_defs =
  Evaluate_def PreemptRTActiveCheck_Evaluate_def PreemptRT_uname_def
  SwapDisabledCheck_Evaluate_def TimerMigrationCheck_Evaluate_def RtThrottlingCheck_Evaluate_def
  ClocksourceCheck_Evaluate_def CoreIsolatedCheck_Evaluate_def NohzFullCheck_Evaluate_def
  RcuNoCbsCheck_Evaluate_def RcuNoCbs_decide_def CpuGovernorCheck_Evaluate_def
  CpuFrequencyCheck_Evaluate_def CpuFrequency_cpuinfo_def read_int64_def
  IrqAffinityDefaultAvoidsRtCheck_Evaluate_def NoUnrelatedIrqsOnRtCheck_Evaluate_def
  SmtSiblingIsolatedCheck_Evaluate_def CStatesCappedCheck_Evaluate_def CStates_params_def
  TurboPolicyCheck_Evaluate_def Turbo_intel_def NicPresenceCheck_Evaluate_def NicExists_def
  NicLinkUpCheck_Evaluate_def NicLinkUp_carrier_def NicIrqsPinnedCheck_Evaluate_def
  RpsDisabledCheck_Evaluate_def NicQuietCheck_Evaluate_def

text \<open>The loop over a list of checks evaluates each of them, in order, and prints each
  result; it has a result when every check has one.\<close>

lemma run_checks_those:
  "run_checks host checkContext data checks =
     map_option (map Line) (those (map (\<lambda>check. Evaluate host check checkContext data) checks))"
  by (induction checks) (simp_all split: option.splits)

lemma those_kinds:
  "those (map (\<lambda>check. Evaluate host check checkContext data) checks) = Some results
   \<Longrightarrow> map kind results = checks"
proof (induction checks arbitrary: results)
  case Nil
  then show ?case by simp
next
  case (Cons check checks)
  then obtain r rs where
    r: "Evaluate host check checkContext data = Some r"
       "those (map (\<lambda>check. Evaluate host check checkContext data) checks) = Some rs"
       "results = r # rs"
    by (auto split: option.splits)
  from Cons.IH[OF r(2)] kind_Evaluate[OF r(1)] r(3) show ?case by simp
qed
subsection \<open>C7: the NIC section of the audit\<close>

text \<open>
  C7. When a NIC name is in the context and none of \<^verbatim>\<open>operstate\<close>, \<^verbatim>\<open>carrier\<close> and \<^verbatim>\<open>address\<close>
  of the interface is readable, \<open>NicPresent\<close> evaluates to \<open>Unknown\<close> ("interface not found"),
  not to \<open>Fail\<close>. The NIC section of the audit is its header and the \<open>NicPresent\<close> result,
  followed, when the status of \<open>NicPresent\<close> is \<open>Pass\<close>, by the results that \<^verbatim>\<open>Evaluate\<close>
  returns for \<open>NicLinkUp\<close>, \<open>NicQuiet\<close>, \<open>NicIrqsPinned\<close> and \<open>RpsDisabled\<close> in this context, in
  this order, and by nothing otherwise: with any other status the section does not depend
  on the four checks at all. The audit of a valid core with a NIC name consists of the
  results of the system and core checks between their headers, followed by this section.
  So the \<open>NicPresent\<close> result is always printed, and a result of each of the four dependent
  checks is printed if and only if \<open>NicPresent\<close> passed.
\<close>

theorem nic_gating:
  "(nic checkContext = Some nicname \<and> \<not> NicExists dataSource nicname \<longrightarrow>
      NicPresenceCheck_Evaluate checkContext dataSource
        = Result NicPresent Unknown NicPresent_Name ''interface not found'')
   \<and> (nic checkContext = Some nicname \<longrightarrow>
        nic_section host checkContext dataSource =
          (if status (NicPresenceCheck_Evaluate checkContext dataSource) = Pass
           then map_option
                  (\<lambda>results. Section (''NIC '' @ nicname @ '' Checks'')
                               # Line (NicPresenceCheck_Evaluate checkContext dataSource)
                               # map Line results)
                  (those (map (\<lambda>check. Evaluate host check checkContext dataSource)
                            [NicLinkUp, NicQuiet, NicIrqsPinned, RpsDisabled]))
           else Some [Section (''NIC '' @ nicname @ '' Checks''),
                      Line (NicPresenceCheck_Evaluate checkContext dataSource)]))
   \<and> (0 \<le> core \<and> core < CpuCount host \<and> nicName \<noteq> [] \<longrightarrow>
        ReportSystemConfiguration host core nicName =
          (case (those (map (\<lambda>check. Evaluate host check \<lparr>cpu = Some core, nic = Some nicName\<rparr>
                                        (SystemFileSystemDataSource host)) system_checks),
                 those (map (\<lambda>check. Evaluate host check \<lparr>cpu = Some core, nic = Some nicName\<rparr>
                                        (SystemFileSystemDataSource host)) core_checks),
                 nic_section host \<lparr>cpu = Some core, nic = Some nicName\<rparr>
                   (SystemFileSystemDataSource host)) of
             (Some system_results, Some core_results, Some nic_out) \<Rightarrow>
               Some (Section ''System Checks'' # map Line system_results
                     @ Section (''Core '' @ to_string core @ '' Checks'') # map Line core_results
                     @ nic_out)
           | _ \<Rightarrow> None))
   \<and> (0 \<le> core \<and> core < CpuCount host \<and> nicName \<noteq> []
        \<and> ReportSystemConfiguration host core nicName = Some out \<longrightarrow>
        NicPresent \<in> set (printed_kinds out)
        \<and> (\<forall>k \<in> set nic_checks.
              (k \<in> set (printed_kinds out)) =
              (status (NicPresenceCheck_Evaluate \<lparr>cpu = Some core, nic = Some nicName\<rparr>
                         (SystemFileSystemDataSource host)) = Pass)))"
proof (intro conjI impI)
  assume "nic checkContext = Some nicname \<and> \<not> NicExists dataSource nicname"
  then show "NicPresenceCheck_Evaluate checkContext dataSource
        = Result NicPresent Unknown NicPresent_Name ''interface not found''"
    by (simp add: NicPresenceCheck_Evaluate_def)
next
  assume "nic checkContext = Some nicname"
  then show "nic_section host checkContext dataSource =
          (if status (NicPresenceCheck_Evaluate checkContext dataSource) = Pass
           then map_option
                  (\<lambda>results. Section (''NIC '' @ nicname @ '' Checks'')
                               # Line (NicPresenceCheck_Evaluate checkContext dataSource)
                               # map Line results)
                  (those (map (\<lambda>check. Evaluate host check checkContext dataSource)
                            [NicLinkUp, NicQuiet, NicIrqsPinned, RpsDisabled]))
           else Some [Section (''NIC '' @ nicname @ '' Checks''),
                      Line (NicPresenceCheck_Evaluate checkContext dataSource)])"
    unfolding nic_section_def run_checks_those nic_checks_def
    by (simp add: Let_def split: option.splits)
next
  assume a: "0 \<le> core \<and> core < CpuCount host \<and> nicName \<noteq> []"
  then show "ReportSystemConfiguration host core nicName =
          (case (those (map (\<lambda>check. Evaluate host check \<lparr>cpu = Some core, nic = Some nicName\<rparr>
                                        (SystemFileSystemDataSource host)) system_checks),
                 those (map (\<lambda>check. Evaluate host check \<lparr>cpu = Some core, nic = Some nicName\<rparr>
                                        (SystemFileSystemDataSource host)) core_checks),
                 nic_section host \<lparr>cpu = Some core, nic = Some nicName\<rparr>
                   (SystemFileSystemDataSource host)) of
             (Some system_results, Some core_results, Some nic_out) \<Rightarrow>
               Some (Section ''System Checks'' # map Line system_results
                     @ Section (''Core '' @ to_string core @ '' Checks'') # map Line core_results
                     @ nic_out)
           | _ \<Rightarrow> None)"
    unfolding ReportSystemConfiguration_def run_checks_those
    by (simp add: Let_def split: option.splits)
next
  assume a: "0 \<le> core \<and> core < CpuCount host \<and> nicName \<noteq> []
        \<and> ReportSystemConfiguration host core nicName = Some out"
  let ?ctx = "\<lparr>cpu = Some core, nic = Some nicName\<rparr>"
  let ?data = "SystemFileSystemDataSource host"
  let ?presence = "NicPresenceCheck_Evaluate ?ctx ?data"
  from a obtain sys_out core_out nic_out where
    s: "run_checks host ?ctx ?data system_checks = Some sys_out" and
    c: "run_checks host ?ctx ?data core_checks = Some core_out" and
    n: "nic_section host ?ctx ?data = Some nic_out" and
    out: "out = Section ''System Checks'' # sys_out
                @ Section (''Core '' @ to_string core @ '' Checks'') # core_out @ nic_out"
    by (auto simp: ReportSystemConfiguration_def Let_def split: option.splits if_splits)
  have pk: "printed_kinds out = system_checks @ core_checks @ printed_kinds nic_out"
    unfolding out
    by (simp add: printed_kinds_append printed_kinds_Cons run_checks_kinds[OF s] run_checks_kinds[OF c])
  have nk: "printed_kinds nic_out = NicPresent # (if status ?presence = Pass then nic_checks else [])"
  proof (cases "status ?presence = Pass")
    case True
    with n obtain rest where
      r: "run_checks host ?ctx ?data nic_checks = Some rest"
         "nic_out = Section (''NIC '' @ nicName @ '' Checks'') # Line ?presence # rest"
      by (auto simp: nic_section_def Let_def split: option.splits)
    with True show ?thesis
      by (simp add: printed_kinds_Cons run_checks_kinds[OF r(1)] kind_simple)
  next
    case False
    with n have "nic_out = [Section (''NIC '' @ nicName @ '' Checks''), Line ?presence]"
      by (auto simp: nic_section_def Let_def)
    with False show ?thesis by (simp add: printed_kinds_Cons kind_simple)
  qed
  show "NicPresent \<in> set (printed_kinds out)"
    unfolding pk nk by simp
  show "\<forall>k \<in> set nic_checks. (k \<in> set (printed_kinds out)) = (status ?presence = Pass)"
    unfolding pk nk by (auto simp: system_checks_def core_checks_def nic_checks_def)
qed



text \<open>Scenario D of the specification, the audit of core 3 with the NIC \<^verbatim>\<open>eth9\<close> on a host
  where nothing is readable: the NIC section ends after the \<open>NicPresent\<close> result. And the
  audit of core 3 with the NIC \<^verbatim>\<open>eth0\<close> on a host where the interface exists: the four
  dependent checks are evaluated and their results printed, two of them \<open>Unknown\<close>.\<close>

theorem nic_gating_witness:
  "(0::int) \<le> 3 \<and> 3 < CpuCount stub_host \<and> ''eth9'' \<noteq> []
   \<and> nic \<lparr>cpu = Some 3, nic = Some ''eth9''\<rparr> = Some ''eth9''
   \<and> \<not> NicExists (SystemFileSystemDataSource stub_host) ''eth9''
   \<and> NicPresenceCheck_Evaluate \<lparr>cpu = Some 3, nic = Some ''eth9''\<rparr> (SystemFileSystemDataSource stub_host)
       = Result NicPresent Unknown NicPresent_Name ''interface not found''
   \<and> (\<exists>system_results core_results out.
         out = Section ''System Checks'' # map Line system_results
               @ Section ''Core 3 Checks'' # map Line core_results
               @ [Section ''NIC eth9 Checks'',
                  Line (Result NicPresent Unknown NicPresent_Name ''interface not found'')]
         \<and> ReportSystemConfiguration stub_host 3 ''eth9'' = Some out
         \<and> map kind system_results = system_checks \<and> map kind core_results = core_checks
         \<and> NicPresent \<in> set (printed_kinds out)
         \<and> NicLinkUp \<notin> set (printed_kinds out) \<and> NicQuiet \<notin> set (printed_kinds out)
         \<and> NicIrqsPinned \<notin> set (printed_kinds out) \<and> RpsDisabled \<notin> set (printed_kinds out))
   \<and> 3 < CpuCount eth0_host \<and> ''eth0'' \<noteq> []
   \<and> nic \<lparr>cpu = Some 3, nic = Some ''eth0''\<rparr> = Some ''eth0''
   \<and> status (NicPresenceCheck_Evaluate \<lparr>cpu = Some 3, nic = Some ''eth0''\<rparr>
                (SystemFileSystemDataSource eth0_host)) = Pass
   \<and> (\<exists>system_results core_results out.
         out = Section ''System Checks'' # map Line system_results
               @ Section ''Core 3 Checks'' # map Line core_results
               @ [Section ''NIC eth0 Checks'',
                  Line (Result NicPresent Pass NicPresent_Name ''exists''),
                  Line (Result NicLinkUp Pass NicLinkUp_Name ''operstate=up''),
                  Line (Result NicQuiet Pass NicQuiet_Name ''no IPs, no default route''),
                  Line (Result NicIrqsPinned Unknown NicIrqsPinned_Name ''cannot read /proc/interrupts''),
                  Line (Result RpsDisabled Unknown RpsDisabled_Name ''no queues dir'')]
         \<and> ReportSystemConfiguration eth0_host 3 ''eth0'' = Some out
         \<and> map kind system_results = system_checks \<and> map kind core_results = core_checks
         \<and> NicPresent \<in> set (printed_kinds out)
         \<and> NicLinkUp \<in> set (printed_kinds out) \<and> NicQuiet \<in> set (printed_kinds out)
         \<and> NicIrqsPinned \<in> set (printed_kinds out) \<and> RpsDisabled \<in> set (printed_kinds out))"
proof -
  let ?cs = "\<lparr>cpu = Some 3, nic = Some ''eth9''\<rparr>"
  let ?ds = "SystemFileSystemDataSource stub_host"
  let ?ce = "\<lparr>cpu = Some 3, nic = Some ''eth0''\<rparr>"
  let ?de = "SystemFileSystemDataSource eth0_host"
  have ts: "to_string 3 = ''3''"
    by (simp add: to_string_def dec_digits.simps)
  have c: "(0::int) \<le> 3" "3 < CpuCount stub_host" "''eth9'' \<noteq> []" "nic ?cs = Some ''eth9''"
    "3 < CpuCount eth0_host" "''eth0'' \<noteq> []" "nic ?ce = Some ''eth0''"
    by (simp_all add: CpuCount_def stub_host_def eth0_host_def)
  have e: "\<not> NicExists ?ds ''eth9''"
    by (simp add: NicExists_def SystemFileSystemDataSource_def stub_host_def)
  note gs = nic_gating[of ?cs "''eth9''" ?ds stub_host 3 "''eth9''"]
  note ge = nic_gating[of ?ce "''eth0''" ?de eth0_host 3 "''eth0''"]
  from gs c e have ps: "NicPresenceCheck_Evaluate ?cs ?ds
       = Result NicPresent Unknown NicPresent_Name ''interface not found''"
    by simp
  from gs c ps have ns: "nic_section stub_host ?cs ?ds =
      Some [Section ''NIC eth9 Checks'',
            Line (Result NicPresent Unknown NicPresent_Name ''interface not found'')]"
    by simp
  obtain ss where ss: "those (map (\<lambda>check. Evaluate stub_host check ?cs ?ds) system_checks) = Some ss"
    by (simp add: system_checks_def SystemFileSystemDataSource_def stub_host_def check_defs
        GetCmdLineParam_def ReadCmdLine_def)
  obtain sc where sc: "those (map (\<lambda>check. Evaluate stub_host check ?cs ?ds) core_checks) = Some sc"
    by (simp add: core_checks_def SystemFileSystemDataSource_def stub_host_def check_defs
        GetCmdLineParam_def ReadCmdLine_def ts)
  let ?outs = "Section ''System Checks'' # map Line ss @ Section ''Core 3 Checks'' # map Line sc
      @ [Section ''NIC eth9 Checks'',
         Line (Result NicPresent Unknown NicPresent_Name ''interface not found'')]"
  from gs c ns ss sc ts have rs: "ReportSystemConfiguration stub_host 3 ''eth9'' = Some ?outs"
    by simp
  have pe: "NicPresenceCheck_Evaluate ?ce ?de = Result NicPresent Pass NicPresent_Name ''exists''"
    by (simp add: NicPresenceCheck_Evaluate_def NicExists_def SystemFileSystemDataSource_def
        eth0_host_def)
  have ev: "those (map (\<lambda>check. Evaluate eth0_host check ?ce ?de)
                     [NicLinkUp, NicQuiet, NicIrqsPinned, RpsDisabled])
      = Some [Result NicLinkUp Pass NicLinkUp_Name ''operstate=up'',
              Result NicQuiet Pass NicQuiet_Name ''no IPs, no default route'',
              Result NicIrqsPinned Unknown NicIrqsPinned_Name ''cannot read /proc/interrupts'',
              Result RpsDisabled Unknown RpsDisabled_Name ''no queues dir'']"
    by (simp add: SystemFileSystemDataSource_def eth0_host_def check_defs
        default_route_v4_via_nic_def default_route_v6_via_nic_def count_family_def
        Trim_def isspace_def)
  from ge c pe ev have ne: "nic_section eth0_host ?ce ?de =
      Some [Section ''NIC eth0 Checks'',
            Line (Result NicPresent Pass NicPresent_Name ''exists''),
            Line (Result NicLinkUp Pass NicLinkUp_Name ''operstate=up''),
            Line (Result NicQuiet Pass NicQuiet_Name ''no IPs, no default route''),
            Line (Result NicIrqsPinned Unknown NicIrqsPinned_Name ''cannot read /proc/interrupts''),
            Line (Result RpsDisabled Unknown RpsDisabled_Name ''no queues dir'')]"
    by simp
  obtain es where es: "those (map (\<lambda>check. Evaluate eth0_host check ?ce ?de) system_checks) = Some es"
    by (simp add: system_checks_def SystemFileSystemDataSource_def eth0_host_def check_defs
        GetCmdLineParam_def ReadCmdLine_def)
  obtain ec where ec: "those (map (\<lambda>check. Evaluate eth0_host check ?ce ?de) core_checks) = Some ec"
    by (simp add: core_checks_def SystemFileSystemDataSource_def eth0_host_def check_defs
        GetCmdLineParam_def ReadCmdLine_def ts)
  let ?oute = "Section ''System Checks'' # map Line es @ Section ''Core 3 Checks'' # map Line ec
      @ [Section ''NIC eth0 Checks'',
         Line (Result NicPresent Pass NicPresent_Name ''exists''),
         Line (Result NicLinkUp Pass NicLinkUp_Name ''operstate=up''),
         Line (Result NicQuiet Pass NicQuiet_Name ''no IPs, no default route''),
         Line (Result NicIrqsPinned Unknown NicIrqsPinned_Name ''cannot read /proc/interrupts''),
         Line (Result RpsDisabled Unknown RpsDisabled_Name ''no queues dir'')]"
  from ge c ne es ec ts have re: "ReportSystemConfiguration eth0_host 3 ''eth0'' = Some ?oute"
    by simp
  have ks: "map kind ss = system_checks" "map kind sc = core_checks"
    "map kind es = system_checks" "map kind ec = core_checks"
    using ss sc es ec by (auto simp: those_kinds)
  from gs[of ?outs] c rs ps
  have "NicPresent \<in> set (printed_kinds ?outs)
        \<and> (\<forall>k \<in> set nic_checks. (k \<in> set (printed_kinds ?outs)) = False)"
    by simp
  then have ms: "NicPresent \<in> set (printed_kinds ?outs)
         \<and> NicLinkUp \<notin> set (printed_kinds ?outs) \<and> NicQuiet \<notin> set (printed_kinds ?outs)
         \<and> NicIrqsPinned \<notin> set (printed_kinds ?outs) \<and> RpsDisabled \<notin> set (printed_kinds ?outs)"
    by (simp add: nic_checks_def)
  from ge[of ?oute] c re pe
  have "NicPresent \<in> set (printed_kinds ?oute)
        \<and> (\<forall>k \<in> set nic_checks. (k \<in> set (printed_kinds ?oute)) = True)"
    by simp
  then have me: "NicPresent \<in> set (printed_kinds ?oute)
         \<and> NicLinkUp \<in> set (printed_kinds ?oute) \<and> NicQuiet \<in> set (printed_kinds ?oute)
         \<and> NicIrqsPinned \<in> set (printed_kinds ?oute) \<and> RpsDisabled \<in> set (printed_kinds ?oute)"
    by (simp add: nic_checks_def)
  from pe have pe': "status (NicPresenceCheck_Evaluate ?ce ?de) = Pass" by simp
  from rs ks ms have "\<exists>system_results core_results out.
         out = Section ''System Checks'' # map Line system_results
               @ Section ''Core 3 Checks'' # map Line core_results
               @ [Section ''NIC eth9 Checks'',
                  Line (Result NicPresent Unknown NicPresent_Name ''interface not found'')]
         \<and> ReportSystemConfiguration stub_host 3 ''eth9'' = Some out
         \<and> map kind system_results = system_checks \<and> map kind core_results = core_checks
         \<and> NicPresent \<in> set (printed_kinds out)
         \<and> NicLinkUp \<notin> set (printed_kinds out) \<and> NicQuiet \<notin> set (printed_kinds out)
         \<and> NicIrqsPinned \<notin> set (printed_kinds out) \<and> RpsDisabled \<notin> set (printed_kinds out)"
    by blast
  moreover from re ks me have "\<exists>system_results core_results out.
         out = Section ''System Checks'' # map Line system_results
               @ Section ''Core 3 Checks'' # map Line core_results
               @ [Section ''NIC eth0 Checks'',
                  Line (Result NicPresent Pass NicPresent_Name ''exists''),
                  Line (Result NicLinkUp Pass NicLinkUp_Name ''operstate=up''),
                  Line (Result NicQuiet Pass NicQuiet_Name ''no IPs, no default route''),
                  Line (Result NicIrqsPinned Unknown NicIrqsPinned_Name ''cannot read /proc/interrupts''),
                  Line (Result RpsDisabled Unknown RpsDisabled_Name ''no queues dir'')]
         \<and> ReportSystemConfiguration eth0_host 3 ''eth0'' = Some out
         \<and> map kind system_results = system_checks \<and> map kind core_results = core_checks
         \<and> NicPresent \<in> set (printed_kinds out)
         \<and> NicLinkUp \<in> set (printed_kinds out) \<and> NicQuiet \<in> set (printed_kinds out)
         \<and> NicIrqsPinned \<in> set (printed_kinds out) \<and> RpsDisabled \<in> set (printed_kinds out)"
    by blast
  ultimately show ?thesis using c e ps pe' by (intro conjI)
qed
subsection \<open>C5: missing subject and missing evidence\<close>

lemma subject_missing_Unknown:
  assumes "subject_missing k checkContext"
  shows "\<exists>r. Evaluate host k checkContext dataSource = Some r \<and> kind r = k
             \<and> status r = Unknown \<and> reason r \<noteq> []"
proof (cases "needs_cpu k \<and> cpu checkContext = None")
  case True
  then show ?thesis
    by (auto simp: needs_cpu_def check_defs)
next
  case False
  with assms have "needs_nic k \<and> nic checkContext = None" by (simp add: subject_missing_def)
  then show ?thesis
    by (auto simp: needs_nic_def check_defs split: option.splits)
qed

lemma pinned_loop_unreadable:
  assumes "length (takeWhile (\<lambda>irq. Read dataSource (''/proc/irq/'' @ to_string irq @ ''/smp_affinity_list'') \<noteq> None) irqs)
             < length irqs"
    and "list_all (\<lambda>irq. case Read dataSource (''/proc/irq/'' @ to_string irq @ ''/smp_affinity_list'') of
                            None \<Rightarrow> True
                          | Some value \<Rightarrow> ParseCpuList value \<noteq> None)
           (takeWhile (\<lambda>irq. Read dataSource (''/proc/irq/'' @ to_string irq @ ''/smp_affinity_list'') \<noteq> None) irqs)"
  shows "\<exists>irq. pinned_loop dataSource core irqs bad_irqs = Some (Inl irq)"
  using assms
proof (induction irqs arbitrary: bad_irqs)
  case Nil
  then show ?case by simp
next
  case (Cons irq irqs)
  show ?case
  proof (cases "Read dataSource (''/proc/irq/'' @ to_string irq @ ''/smp_affinity_list'')")
    case None
    then show ?thesis by simp
  next
    case (Some v)
    with Cons.prems obtain cpus where c: "ParseCpuList v = Some cpus" by auto
    from Cons.prems Some have
      "\<exists>i. pinned_loop dataSource core irqs
              (if length cpus = 1 \<and> set_count cpus core then bad_irqs else bad_irqs @ [irq]) = Some (Inl i)"
      by (intro Cons.IH) simp_all
    with Some c show ?thesis by simp
  qed
qed

lemma rps_loop_unreadable:
  assumes "list_ex (\<lambda>(queue_name, is_directory).
               is_directory \<and> starts_with queue_name ''rx-''
               \<and> Read dataSource (path_slash (path_slash queue_directory queue_name) ''rps_cpus'') = None)
             entries"
  shows "\<exists>path. rps_loop dataSource queue_directory entries any_bad checked = Inl path"
  using assms
proof (induction entries arbitrary: any_bad checked)
  case Nil
  then show ?case by simp
next
  case (Cons e entries)
  obtain queue_name is_directory where e: "e = (queue_name, is_directory)" by (cases e)
  show ?case
  proof (cases "is_directory \<and> starts_with queue_name ''rx-''
      \<and> Read dataSource (path_slash (path_slash queue_directory queue_name) ''rps_cpus'') = None")
    case True
    then show ?thesis by (simp add: e all_zero_mask_def)
  next
    case False
    with Cons.prems e have "list_ex (\<lambda>(queue_name, is_directory).
               is_directory \<and> starts_with queue_name ''rx-''
               \<and> Read dataSource (path_slash (path_slash queue_directory queue_name) ''rps_cpus'') = None)
             entries"
      by auto
    from Cons.IH[OF this] False show ?thesis
      by (auto simp: e all_zero_mask_def Let_def split: option.splits)
  qed
qed

lemma NicIrqsPinned_missing:
  assumes "evidence_missing host NicIrqsPinned checkContext dataSource"
  shows "\<exists>r. NicIrqsPinnedCheck_Evaluate checkContext dataSource = Some r \<and> kind r = NicIrqsPinned
             \<and> status r = Unknown \<and> reason r \<noteq> []"
proof (cases "cpu checkContext")
  case None
  then show ?thesis by (simp add: NicIrqsPinnedCheck_Evaluate_def)
next
  case (Some core)
  show ?thesis
  proof (cases "nic checkContext")
    case None
    with Some show ?thesis by (simp add: NicIrqsPinnedCheck_Evaluate_def)
  next
    case nn: (Some nicname)
    show ?thesis
    proof (cases "NicExists dataSource nicname")
      case False
      with Some nn show ?thesis by (simp add: NicIrqsPinnedCheck_Evaluate_def)
    next
      case True
      show ?thesis
      proof (cases "Read dataSource ''/proc/interrupts''")
        case None
        with Some nn True show ?thesis by (simp add: NicIrqsPinnedCheck_Evaluate_def)
      next
        case c: (Some content)
        let ?irqs = "nic_irq_lines nicname (getline_all CHR 0x0A content)"
        let ?aff = "\<lambda>irq. Read dataSource (''/proc/irq/'' @ to_string irq @ ''/smp_affinity_list'')"
        from assms nn True c have
          l: "length (takeWhile (\<lambda>irq. ?aff irq \<noteq> None) ?irqs) < length ?irqs" and
          a: "list_all (\<lambda>irq. case ?aff irq of None \<Rightarrow> True | Some value \<Rightarrow> ParseCpuList value \<noteq> None)
                (takeWhile (\<lambda>irq. ?aff irq \<noteq> None) ?irqs)"
          by (simp_all add: evidence_missing_def Let_def)
        from l have ne: "?irqs \<noteq> []" by auto
        from pinned_loop_unreadable[OF l a, of core "[]"] obtain irq where
          "pinned_loop dataSource core ?irqs [] = Some (Inl irq)" by blast
        with Some nn True c ne show ?thesis
          by (simp add: NicIrqsPinnedCheck_Evaluate_def Let_def)
      qed
    qed
  qed
qed

lemma RpsDisabled_missing:
  assumes "evidence_missing host RpsDisabled checkContext dataSource"
  shows "kind (RpsDisabledCheck_Evaluate host checkContext dataSource) = RpsDisabled
         \<and> status (RpsDisabledCheck_Evaluate host checkContext dataSource) = Unknown
         \<and> reason (RpsDisabledCheck_Evaluate host checkContext dataSource) \<noteq> []"
proof (cases "nic checkContext")
  case None
  then show ?thesis by (simp add: RpsDisabledCheck_Evaluate_def)
next
  case nn: (Some nicname)
  let ?qd = "path_slash (path_slash ''/sys/class/net'' nicname) ''queues''"
  show ?thesis
  proof (cases "NicExists dataSource nicname \<and> PathExists host ?qd")
    case False
    with nn show ?thesis by (auto simp: RpsDisabledCheck_Evaluate_def Let_def)
  next
    case True
    with assms nn have "list_ex (\<lambda>(queue_name, is_directory).
               is_directory \<and> starts_with queue_name ''rx-''
               \<and> Read dataSource (path_slash (path_slash ?qd queue_name) ''rps_cpus'') = None)
             (directory_iterator host ?qd)"
      by (simp add: evidence_missing_def Let_def)
    from rps_loop_unreadable[OF this, of False 0] obtain path where
      "rps_loop dataSource ?qd (directory_iterator host ?qd) False 0 = Inl path" by blast
    with nn True show ?thesis
      by (simp add: RpsDisabledCheck_Evaluate_def Let_def)
  qed
qed

lemma evidence_missing_Unknown:
  assumes "k \<noteq> PreemptRTActive" and "evidence_missing host k checkContext dataSource"
  shows "\<exists>r. Evaluate host k checkContext dataSource = Some r \<and> kind r = k
             \<and> status r = Unknown \<and> reason r \<noteq> []"
proof (cases "k = NicIrqsPinned \<or> k = RpsDisabled")
  case True
  with assms(2) NicIrqsPinned_missing[of host checkContext dataSource]
    RpsDisabled_missing[of host checkContext dataSource]
  show ?thesis by (auto simp: Evaluate_def)
next
  case False
  with assms show ?thesis
    by (cases k)
      (auto simp: evidence_missing_def check_defs Let_def freq_or_unknown_def
        split: option.splits)
qed


lemma PreemptRT_without_files:
  assumes "evidence_missing host PreemptRTActive checkContext dataSource"
  shows "PreemptRTActiveCheck_Evaluate host checkContext dataSource =
     (case uname host of
        None \<Rightarrow> Result PreemptRTActive Fail PreemptRTActive_Name ''No evidence of RT kernel''
      | Some uname_info \<Rightarrow>
          if contains (version uname_info) ''PREEMPT RT'' \<or> contains (version uname_info) ''PREEMPT_RT''
          then Result PreemptRTActive Pass PreemptRTActive_Name (''uname -v: '' @ version uname_info)
          else Result PreemptRTActive Fail PreemptRTActive_Name ''No evidence of RT kernel'')"
  using assms
  by (auto simp: evidence_missing_def PreemptRTActiveCheck_Evaluate_def PreemptRT_uname_def
      split: option.splits)

text \<open>
  C5 (as amended). For every check of the catalog, every host and every data source: if
  the subject the check requires (cpu or nic) is absent from the context, \<^verbatim>\<open>Evaluate\<close> returns
  a result of the check's kind with status \<open>Unknown\<close> and a non-empty reason. The same holds
  for every check other than \<open>PreemptRTActive\<close> when the evidence it needs is not readable,
  in the sense of \<open>evidence_missing\<close>: the file, parameter or host query the check comes to
  and needs for its answer, including the files it reads after the first one
  (\<^verbatim>\<open>smp_affinity_list\<close> of an IRQ of the NIC, \<^verbatim>\<open>isolated\<close> for a core with siblings, \<^verbatim>\<open>rps_cpus\<close>
  of a receive queue, the last of several alternative sources). Two kinds of file are not
  such evidence: the route files of \<open>NicQuiet\<close> (unreadable counts as "no default route") and
  \<^verbatim>\<open>available_clocksource\<close> (detail of the reason only; the status follows from
  \<^verbatim>\<open>current_clocksource\<close> alone). \<open>PreemptRTActive\<close> does not return \<open>Unknown\<close>: with neither
  \<^verbatim>\<open>/sys/kernel/realtime\<close> nor the kernel configuration file readable it returns \<open>Fail\<close> with
  reason "No evidence of RT kernel", unless the version string of \<^verbatim>\<open>uname\<close> names PREEMPT RT,
  in which case it returns \<open>Pass\<close>. In none of these cases does the check raise an error.
\<close>

theorem unknown_on_missing_evidence:
  "(subject_missing k checkContext \<longrightarrow>
      (\<exists>r. Evaluate host k checkContext dataSource = Some r \<and> kind r = k
            \<and> status r = Unknown \<and> reason r \<noteq> []))
   \<and> (k \<noteq> PreemptRTActive \<and> evidence_missing host k checkContext dataSource \<longrightarrow>
        (\<exists>r. Evaluate host k checkContext dataSource = Some r \<and> kind r = k
              \<and> status r = Unknown \<and> reason r \<noteq> []))
   \<and> (evidence_missing host PreemptRTActive checkContext dataSource \<longrightarrow>
        Evaluate host PreemptRTActive checkContext dataSource =
          Some (case uname host of
                  None \<Rightarrow> Result PreemptRTActive Fail PreemptRTActive_Name ''No evidence of RT kernel''
                | Some uname_info \<Rightarrow>
                    if contains (version uname_info) ''PREEMPT RT''
                       \<or> contains (version uname_info) ''PREEMPT_RT''
                    then Result PreemptRTActive Pass PreemptRTActive_Name
                           (''uname -v: '' @ version uname_info)
                    else Result PreemptRTActive Fail PreemptRTActive_Name
                           ''No evidence of RT kernel''))"
  using subject_missing_Unknown[of k checkContext host dataSource]
    evidence_missing_Unknown[of k host checkContext dataSource]
    PreemptRT_without_files[of host checkContext dataSource]
  by (simp add: Evaluate_def)

text \<open>A NIC check without a NIC in the context; the isolation check on a data source where
  nothing is readable; and the three files read later: the affinity list of IRQ 24 of
  \<^verbatim>\<open>eth0\<close>, the isolated list for core 3 with sibling 7, the mask of the queue \<^verbatim>\<open>rx-0\<close>.\<close>

theorem unknown_on_missing_evidence_witness:
  "subject_missing NicIrqsPinned \<lparr>cpu = Some 3, nic = None\<rparr>
   \<and> Evaluate stub_host NicIrqsPinned \<lparr>cpu = Some 3, nic = None\<rparr>
        \<lparr>Read = Map.empty, CmdLineParam = Map.empty\<rparr>
       = Some (Result NicIrqsPinned Unknown NicIrqsPinned_Name ''no NIC in context'')
   \<and> CoreIsolated \<noteq> PreemptRTActive
   \<and> evidence_missing stub_host CoreIsolated \<lparr>cpu = Some 3, nic = None\<rparr>
        \<lparr>Read = Map.empty, CmdLineParam = Map.empty\<rparr>
   \<and> (\<exists>r. Evaluate stub_host CoreIsolated \<lparr>cpu = Some 3, nic = None\<rparr>
              \<lparr>Read = Map.empty, CmdLineParam = Map.empty\<rparr> = Some r
         \<and> kind r = CoreIsolated \<and> status r = Unknown \<and> reason r \<noteq> [])
   \<and> evidence_missing stub_host NicIrqsPinned \<lparr>cpu = Some 3, nic = Some ''eth0''\<rparr>
        \<lparr>Read = [''/sys/class/net/eth0/operstate'' \<mapsto> ''up'',
                  ''/proc/interrupts'' \<mapsto> '' 24: 5 eth0''],
         CmdLineParam = Map.empty\<rparr>
   \<and> (\<exists>r. Evaluate stub_host NicIrqsPinned \<lparr>cpu = Some 3, nic = Some ''eth0''\<rparr>
              \<lparr>Read = [''/sys/class/net/eth0/operstate'' \<mapsto> ''up'',
                        ''/proc/interrupts'' \<mapsto> '' 24: 5 eth0''],
               CmdLineParam = Map.empty\<rparr> = Some r
         \<and> kind r = NicIrqsPinned \<and> status r = Unknown
         \<and> reason r = ''cannot read smp_affinity_list for IRQ 24'')
   \<and> evidence_missing stub_host SmtSiblingIsolated \<lparr>cpu = Some 3, nic = None\<rparr>
        \<lparr>Read = [''/sys/devices/system/cpu/cpu3/topology/thread_siblings_list'' \<mapsto> ''3,7''],
         CmdLineParam = Map.empty\<rparr>
   \<and> (\<exists>r. Evaluate stub_host SmtSiblingIsolated \<lparr>cpu = Some 3, nic = None\<rparr>
              \<lparr>Read = [''/sys/devices/system/cpu/cpu3/topology/thread_siblings_list'' \<mapsto> ''3,7''],
               CmdLineParam = Map.empty\<rparr> = Some r
         \<and> kind r = SmtSiblingIsolated \<and> status r = Unknown \<and> reason r = ''cannot read isolated'')
   \<and> evidence_missing
        (stub_host\<lparr>PathExists := (\<lambda>path. True), directory_iterator := (\<lambda>path. [(''rx-0'', True)])\<rparr>)
        RpsDisabled \<lparr>cpu = Some 3, nic = Some ''eth0''\<rparr>
        \<lparr>Read = [''/sys/class/net/eth0/operstate'' \<mapsto> ''up''], CmdLineParam = Map.empty\<rparr>
   \<and> (\<exists>r. Evaluate
              (stub_host\<lparr>PathExists := (\<lambda>path. True), directory_iterator := (\<lambda>path. [(''rx-0'', True)])\<rparr>)
              RpsDisabled \<lparr>cpu = Some 3, nic = Some ''eth0''\<rparr>
              \<lparr>Read = [''/sys/class/net/eth0/operstate'' \<mapsto> ''up''], CmdLineParam = Map.empty\<rparr> = Some r
         \<and> kind r = RpsDisabled \<and> status r = Unknown
         \<and> reason r = ''cannot read /sys/class/net/eth0/queues/rx-0/rps_cpus'')"
proof -
  let ?ctx = "\<lparr>cpu = Some 3, nic = None\<rparr>"
  let ?ctxn = "\<lparr>cpu = Some 3, nic = Some ''eth0''\<rparr>"
  let ?ds = "\<lparr>Read = Map.empty, CmdLineParam = Map.empty\<rparr>"
  let ?irq = "\<lparr>Read = [''/sys/class/net/eth0/operstate'' \<mapsto> ''up'',
                        ''/proc/interrupts'' \<mapsto> '' 24: 5 eth0''],
               CmdLineParam = Map.empty\<rparr>"
  let ?smt = "\<lparr>Read = [''/sys/devices/system/cpu/cpu3/topology/thread_siblings_list'' \<mapsto> ''3,7''],
               CmdLineParam = Map.empty\<rparr>"
  let ?rps = "\<lparr>Read = [''/sys/class/net/eth0/operstate'' \<mapsto> ''up''], CmdLineParam = Map.empty\<rparr>"
  let ?host = "stub_host\<lparr>PathExists := (\<lambda>path. True), directory_iterator := (\<lambda>path. [(''rx-0'', True)])\<rparr>"
  have ts: "to_string 3 = ''3''" "to_string 24 = ''24''"
    by (simp_all add: to_string_def dec_digits.simps)
  have s: "subject_missing NicIrqsPinned ?ctx"
    by (simp add: subject_missing_def needs_nic_def)
  have n: "Evaluate stub_host NicIrqsPinned ?ctx ?ds
       = Some (Result NicIrqsPinned Unknown NicIrqsPinned_Name ''no NIC in context'')"
    by (simp add: Evaluate_def NicIrqsPinnedCheck_Evaluate_def)
  have e: "CoreIsolated \<noteq> PreemptRTActive"
    "evidence_missing stub_host CoreIsolated ?ctx ?ds"
    by (simp_all add: evidence_missing_def)
  from unknown_on_missing_evidence[of CoreIsolated ?ctx stub_host ?ds] e
  have c: "\<exists>r. Evaluate stub_host CoreIsolated ?ctx ?ds = Some r
         \<and> kind r = CoreIsolated \<and> status r = Unknown \<and> reason r \<noteq> []"
    by blast
  have irqs: "nic_irq_lines ''eth0'' (getline_all CHR 0x0A '' 24: 5 eth0'') = [24]"
    by (simp add: string_eval number_eval Let_def)
  have e1: "evidence_missing stub_host NicIrqsPinned ?ctxn ?irq"
    by (simp add: evidence_missing_def NicExists_def irqs ts Let_def)
  have r1: "Evaluate stub_host NicIrqsPinned ?ctxn ?irq
      = Some (Result NicIrqsPinned Unknown NicIrqsPinned_Name ''cannot read smp_affinity_list for IRQ 24'')"
    by (simp add: Evaluate_def NicIrqsPinnedCheck_Evaluate_def NicExists_def irqs ts)
  from unknown_on_missing_evidence[of NicIrqsPinned ?ctxn stub_host ?irq] e1 r1
  have c1: "\<exists>r. Evaluate stub_host NicIrqsPinned ?ctxn ?irq = Some r
         \<and> kind r = NicIrqsPinned \<and> status r = Unknown
         \<and> reason r = ''cannot read smp_affinity_list for IRQ 24''"
    by simp
  have p: "ParseCpuList ''3,7'' = Some [3, 7]"
    by (simp add: cpu_list_eval)
  have e2: "evidence_missing stub_host SmtSiblingIsolated ?ctx ?smt"
    by (simp add: evidence_missing_def ts p set_erase_def)
  have r2: "Evaluate stub_host SmtSiblingIsolated ?ctx ?smt
      = Some (Result SmtSiblingIsolated Unknown SmtSiblingIsolated_Name ''cannot read isolated'')"
    by (simp add: Evaluate_def SmtSiblingIsolatedCheck_Evaluate_def ts p set_erase_def)
  from unknown_on_missing_evidence[of SmtSiblingIsolated ?ctx stub_host ?smt] e2 r2
  have c2: "\<exists>r. Evaluate stub_host SmtSiblingIsolated ?ctx ?smt = Some r
         \<and> kind r = SmtSiblingIsolated \<and> status r = Unknown \<and> reason r = ''cannot read isolated''"
    by simp
  have e3: "evidence_missing ?host RpsDisabled ?ctxn ?rps"
    by (simp add: evidence_missing_def NicExists_def stub_host_def path_slash_def starts_with_def)
  have r3: "Evaluate ?host RpsDisabled ?ctxn ?rps
      = Some (Result RpsDisabled Unknown RpsDisabled_Name
                ''cannot read /sys/class/net/eth0/queues/rx-0/rps_cpus'')"
    by (simp add: Evaluate_def RpsDisabledCheck_Evaluate_def NicExists_def stub_host_def
        path_slash_def starts_with_def all_zero_mask_def)
  from unknown_on_missing_evidence[of RpsDisabled ?ctxn ?host ?rps] e3 r3
  have c3: "\<exists>r. Evaluate ?host RpsDisabled ?ctxn ?rps = Some r
         \<and> kind r = RpsDisabled \<and> status r = Unknown
         \<and> reason r = ''cannot read /sys/class/net/eth0/queues/rx-0/rps_cpus''"
    by simp
  from s n e c e1 c1 e2 c2 e3 c3 show ?thesis by (intro conjI)
qed

text \<open>
  The claim as stated fails for two checks. \<open>PreemptRTActive\<close> on a host where nothing is
  readable (and \<^verbatim>\<open>uname\<close> fails) returns \<open>Fail\<close>. \<open>NicQuiet\<close> for an interface that exists and
  has no address returns \<open>Pass\<close> although neither route file is readable.
\<close>

theorem unknown_on_missing_evidence_counterexample:
  "Evaluate stub_host PreemptRTActive \<lparr>cpu = Some 3, nic = None\<rparr>
       \<lparr>Read = Map.empty, CmdLineParam = Map.empty\<rparr>
     = Some (Result PreemptRTActive Fail PreemptRTActive_Name ''No evidence of RT kernel'')
   \<and> Read \<lparr>Read = [''/sys/class/net/eth0/operstate'' \<mapsto> ''up''], CmdLineParam = Map.empty\<rparr>
        ''/proc/net/route'' = None
   \<and> Read \<lparr>Read = [''/sys/class/net/eth0/operstate'' \<mapsto> ''up''], CmdLineParam = Map.empty\<rparr>
        ''/proc/net/ipv6_route'' = None
   \<and> Evaluate (stub_host\<lparr>getifaddrs := Some []\<rparr>) NicQuiet \<lparr>cpu = Some 3, nic = Some ''eth0''\<rparr>
       \<lparr>Read = [''/sys/class/net/eth0/operstate'' \<mapsto> ''up''], CmdLineParam = Map.empty\<rparr>
     = Some (Result NicQuiet Pass NicQuiet_Name ''no IPs, no default route'')"
  by (simp add: Evaluate_def PreemptRTActiveCheck_Evaluate_def PreemptRT_uname_def stub_host_def
      NicQuietCheck_Evaluate_def NicExists_def default_route_v4_via_nic_def
      default_route_v6_via_nic_def count_family_def)


end
